theory Spec2Isabelle
  imports Complex_Main
begin

section \<open>A shallow embedding of the 3D material point method solver (mpm3.cpp)\<close>

text \<open>
  The solver computes in single-precision floating point (\<^verbatim>\<open>real\<close> and \<^verbatim>\<open>float\<close> in the
  source). In the first model below every such quantity is a mathematical real number: the
  embedding follows the control flow, the formulas and the order of operations of the
  source, and leaves rounding, infinities and NaN out. That model is exact arithmetic. It
  differs from the program where a rounding error decides a sign: the kernel polynomial is
  zero at distance 2 and never negative, while the program computes \<open>- 2\<^sup>-\<^sup>2\<^sup>3\<close> there. The
  kernel and the grid passes are therefore modelled a second time in binary32, with every
  operation rounded (the definitions named \<open>..._binary32\<close>), and what depends on the sign of a
  kernel value is stated of that second model. Fatal exits of the source (\<^verbatim>\<open>assert\<close>,
  \<^verbatim>\<open>assert_info\<close>, \<^verbatim>\<open>error\<close>) are values of the type \<open>trap\<close>, and a function that can exit
  that way returns \<open>trap + 'a\<close>.
\<close>

datatype trap = AssertionFailed | NegativeSingularValue | SVDError | DivisionByZero

definition bind_trap :: "trap + 'a \<Rightarrow> ('a \<Rightarrow> trap + 'b) \<Rightarrow> trap + 'b" where
  "bind_trap m f = (case m of Inl e \<Rightarrow> Inl e | Inr a \<Rightarrow> f a)"

subsection \<open>Kernel functions\<close>

text \<open>
  \<^verbatim>\<open>inline float w(float x)\<close>: the argument is replaced by its absolute value, the assertion
  \<^verbatim>\<open>x <= 2\<close> is checked, and one of two cubic polynomials is returned. The model is the
  build with assertions: a failed \<^verbatim>\<open>assert\<close> is the fatal exit \<open>AssertionFailed\<close>. Here the
  polynomials are evaluated in exact arithmetic; \<open>w_binary32\<close> below is the function the
  program computes.
\<close>

definition w :: "real \<Rightarrow> trap + real" where
  "w x0 =
     (let x = \<bar>x0\<bar> in
      if \<not> x \<le> 2 then Inl AssertionFailed
      else if x < 1 then Inr (0.5 * x * x * x - x * x + 2 / 3)
      else Inr (- 1 / 6 * x * x * x + x * x - 2 * x + 4 / 3))"

text \<open>
  \<^verbatim>\<open>inline float dw(float x)\<close>: the sign \<open>s\<close> is taken off first (\<open>x *= s\<close>), and the value of
  the polynomial piece is multiplied by it at the end.
\<close>

definition dw :: "real \<Rightarrow> trap + real" where
  "dw x0 =
     (let s = (if x0 < 0 then - 1 else 1 :: real);
          x = x0 * s in
      if \<not> x \<le> 2 then Inl AssertionFailed
      else
        let xx = x * x;
            val = (if x < 1 then 1.5 * xx - 2 * x else - 0.5 * xx + 2 * x - 2)
        in Inr (s * val))"

subsection \<open>Vectors and 3\<times>3 matrices\<close>

text \<open>
  \<^verbatim>\<open>Vector3\<close> and \<^verbatim>\<open>Matrix3\<close> are the vector and matrix types of the linear algebra library
  the solver is built on. A matrix is stored by columns: the constructor with nine scalars
  fills column 0 first, and \<^verbatim>\<open>m[c][r]\<close> is the entry in column \<open>c\<close> and row \<open>r\<close>. The selector
  \<open>mCR\<close> below is \<^verbatim>\<open>m[C][R]\<close>.
\<close>

datatype Vector3 = Vector3 (vx: real) (vy: real) (vz: real)

datatype Matrix3 = Matrix3
  (m00: real) (m01: real) (m02: real)
  (m10: real) (m11: real) (m12: real)
  (m20: real) (m21: real) (m22: real)

definition vec_scalar :: "real \<Rightarrow> Vector3" where
  "vec_scalar c = Vector3 c c c"

definition vadd :: "Vector3 \<Rightarrow> Vector3 \<Rightarrow> Vector3" where
  "vadd a b = Vector3 (vx a + vx b) (vy a + vy b) (vz a + vz b)"

definition vsub :: "Vector3 \<Rightarrow> Vector3 \<Rightarrow> Vector3" where
  "vsub a b = Vector3 (vx a - vx b) (vy a - vy b) (vz a - vz b)"

definition vneg :: "Vector3 \<Rightarrow> Vector3" where
  "vneg a = Vector3 (- vx a) (- vy a) (- vz a)"

definition vscale :: "real \<Rightarrow> Vector3 \<Rightarrow> Vector3" where
  "vscale c a = Vector3 (c * vx a) (c * vy a) (c * vz a)"

definition dot :: "Vector3 \<Rightarrow> Vector3 \<Rightarrow> real" where
  "dot a b = vx a * vx b + vy a * vy b + vz a * vz b"

definition vlength :: "Vector3 \<Rightarrow> real" where
  "vlength a = sqrt (dot a a)"

definition normalize3 :: "Vector3 \<Rightarrow> Vector3" where
  "normalize3 a = vscale (1 / vlength a) a"

text \<open>\<^verbatim>\<open>Matrix(c)\<close>: the diagonal matrix with \<open>c\<close> on the diagonal.\<close>

definition mat_scalar :: "real \<Rightarrow> Matrix3" where
  "mat_scalar c = Matrix3 c 0 0 0 c 0 0 0 c"

definition madd :: "Matrix3 \<Rightarrow> Matrix3 \<Rightarrow> Matrix3" where
  "madd a b = Matrix3
     (m00 a + m00 b) (m01 a + m01 b) (m02 a + m02 b)
     (m10 a + m10 b) (m11 a + m11 b) (m12 a + m12 b)
     (m20 a + m20 b) (m21 a + m21 b) (m22 a + m22 b)"

definition msub :: "Matrix3 \<Rightarrow> Matrix3 \<Rightarrow> Matrix3" where
  "msub a b = Matrix3
     (m00 a - m00 b) (m01 a - m01 b) (m02 a - m02 b)
     (m10 a - m10 b) (m11 a - m11 b) (m12 a - m12 b)
     (m20 a - m20 b) (m21 a - m21 b) (m22 a - m22 b)"

definition mscale :: "real \<Rightarrow> Matrix3 \<Rightarrow> Matrix3" where
  "mscale c a = Matrix3
     (c * m00 a) (c * m01 a) (c * m02 a)
     (c * m10 a) (c * m11 a) (c * m12 a)
     (c * m20 a) (c * m21 a) (c * m22 a)"

text \<open>Matrix times column vector: the combination of the columns.\<close>

definition mvmul :: "Matrix3 \<Rightarrow> Vector3 \<Rightarrow> Vector3" where
  "mvmul a b = Vector3
     (m00 a * vx b + m10 a * vy b + m20 a * vz b)
     (m01 a * vx b + m11 a * vy b + m21 a * vz b)
     (m02 a * vx b + m12 a * vy b + m22 a * vz b)"

text \<open>Matrix product: column \<open>c\<close> of the result is \<open>a\<close> times column \<open>c\<close> of \<open>b\<close>.\<close>

definition mmul :: "Matrix3 \<Rightarrow> Matrix3 \<Rightarrow> Matrix3" where
  "mmul a b = Matrix3
     (m00 a * m00 b + m10 a * m01 b + m20 a * m02 b)
     (m01 a * m00 b + m11 a * m01 b + m21 a * m02 b)
     (m02 a * m00 b + m12 a * m01 b + m22 a * m02 b)
     (m00 a * m10 b + m10 a * m11 b + m20 a * m12 b)
     (m01 a * m10 b + m11 a * m11 b + m21 a * m12 b)
     (m02 a * m10 b + m12 a * m11 b + m22 a * m12 b)
     (m00 a * m20 b + m10 a * m21 b + m20 a * m22 b)
     (m01 a * m20 b + m11 a * m21 b + m21 a * m22 b)
     (m02 a * m20 b + m12 a * m21 b + m22 a * m22 b)"

definition transpose3 :: "Matrix3 \<Rightarrow> Matrix3" where
  "transpose3 a = Matrix3
     (m00 a) (m10 a) (m20 a)
     (m01 a) (m11 a) (m21 a)
     (m02 a) (m12 a) (m22 a)"

definition det :: "Matrix3 \<Rightarrow> real" where
  "det m =
       m00 m * (m11 m * m22 m - m21 m * m12 m)
     - m10 m * (m01 m * m22 m - m21 m * m02 m)
     + m20 m * (m01 m * m12 m - m11 m * m02 m)"

text \<open>
  The inverse by cofactors, each multiplied by one over the determinant. Where the
  determinant is zero the library divides by zero (the entries are infinities or NaN); here
  \<open>1 / 0 = 0\<close>, so the model says nothing faithful about the inverse of a singular matrix.
\<close>

definition inverse3 :: "Matrix3 \<Rightarrow> Matrix3" where
  "inverse3 m =
     (let OneOverDeterminant = 1 / det m in Matrix3
       ((m11 m * m22 m - m21 m * m12 m) * OneOverDeterminant)
       (- (m01 m * m22 m - m21 m * m02 m) * OneOverDeterminant)
       ((m01 m * m12 m - m11 m * m02 m) * OneOverDeterminant)
       (- (m10 m * m22 m - m20 m * m12 m) * OneOverDeterminant)
       ((m00 m * m22 m - m20 m * m02 m) * OneOverDeterminant)
       (- (m00 m * m12 m - m10 m * m02 m) * OneOverDeterminant)
       ((m10 m * m21 m - m20 m * m11 m) * OneOverDeterminant)
       (- (m00 m * m21 m - m20 m * m01 m) * OneOverDeterminant)
       ((m00 m * m11 m - m10 m * m01 m) * OneOverDeterminant))"

text \<open>\<^verbatim>\<open>outerProduct(c, r)\<close>: column \<open>j\<close> of the result is \<open>c\<close> scaled by component \<open>j\<close> of \<open>r\<close>.\<close>

definition outerProduct :: "Vector3 \<Rightarrow> Vector3 \<Rightarrow> Matrix3" where
  "outerProduct c r = Matrix3
     (vx c * vx r) (vy c * vx r) (vz c * vx r)
     (vx c * vy r) (vy c * vy r) (vz c * vy r)
     (vx c * vz r) (vy c * vz r) (vz c * vz r)"

text \<open>
  Modelled from the spec: \<^verbatim>\<open>frobenius_norm\<close> and \<^verbatim>\<open>clamp\<close> are helpers of the repository's
  math utilities, which are not among the sources. The Frobenius norm is the square root of
  the sum of the squares of the entries; \<open>clamp a lo hi\<close> brings \<open>a\<close> into \<open>[lo, hi]\<close>.
\<close>

definition frobenius_norm :: "Matrix3 \<Rightarrow> real" where
  "frobenius_norm a = sqrt
     (m00 a * m00 a + m01 a * m01 a + m02 a * m02 a
    + m10 a * m10 a + m11 a * m11 a + m12 a * m12 a
    + m20 a * m20 a + m21 a * m21 a + m22 a * m22 a)"

definition clamp :: "real \<Rightarrow> real \<Rightarrow> real \<Rightarrow> real" where
  "clamp a lo hi = (if a < lo then lo else if a > hi then hi else a)"

text \<open>
  The loop \<^verbatim>\<open>for (int i = 0; i < D; i++) sig[i][i] = clamp(sig[i][i], lo, hi)\<close> with \<open>D = 3\<close>,
  the dimension of the simulation: the three diagonal entries are clamped, the others kept.
\<close>

definition clamp_diagonal :: "Matrix3 \<Rightarrow> real \<Rightarrow> real \<Rightarrow> Matrix3" where
  "clamp_diagonal sig lo hi = Matrix3
     (clamp (m00 sig) lo hi) (m01 sig) (m02 sig)
     (m10 sig) (clamp (m11 sig) lo hi) (m12 sig)
     (m20 sig) (m21 sig) (clamp (m22 sig) lo hi)"

subsection \<open>Particles and the two material variants\<close>

text \<open>
  \<^verbatim>\<open>EPParticle3\<close> and \<^verbatim>\<open>DPParticle3\<close> extend \<^verbatim>\<open>MPM3D::Particle\<close>. The records
  \<open>EPParticle3\<close> and \<open>DPParticle3\<close> hold the fields each subclass adds, with the defaults
  of the source; a particle carries one of them in its field \<open>material\<close>, and the virtual
  calls of the source dispatch on it.
\<close>

record EPParticle3 =
  hardening :: real
  mu_0 :: real
  lambda_0 :: real
  theta_c :: real
  theta_s :: real

record DPParticle3 =
  h_0 :: real
  h_1 :: real
  h_2 :: real
  h_3 :: real
  lambda_0 :: real
  mu_0 :: real
  alpha :: real
  q :: real

datatype Material = EP EPParticle3 | DP DPParticle3

record Particle =
  pos :: Vector3
  v :: Vector3
  mass :: real
  vol :: real
  dg_e :: Matrix3
  dg_p :: Matrix3
  dg_cache :: Matrix3
  apic_b :: Matrix3
  tmp_force :: Matrix3
  material :: Material

definition EPParticle3_new :: EPParticle3 where
  "EPParticle3_new = \<lparr> hardening = 10, mu_0 = 100000, lambda_0 = 100000,
     theta_c = 0.025, theta_s = 0.0075 \<rparr>"

definition DPParticle3_new :: DPParticle3 where
  "DPParticle3_new = \<lparr> h_0 = 35, h_1 = 9, h_2 = 0.2, h_3 = 10,
     lambda_0 = 204057, mu_0 = 136038, alpha = 1, q = 0 \<rparr>"

text \<open>
  The decompositions \<^verbatim>\<open>svd(m, u, sig, v)\<close> and \<^verbatim>\<open>polar_decomp(m, r, s)\<close> come from the
  repository's math library, which is not among the sources: they are parameters of the
  model, functions from the matrix to the tuple of results.
\<close>

type_synonym svd_fun = "Matrix3 \<Rightarrow> Matrix3 \<times> Matrix3 \<times> Matrix3"
type_synonym polar_fun = "Matrix3 \<Rightarrow> Matrix3 \<times> Matrix3"

text \<open>
  For a diagonal matrix with non-negative entries, \<open>U = V = 1\<close> and \<open>\<Sigma>\<close> the matrix itself
  is a singular value decomposition, and \<open>R = 1\<close>, \<open>S\<close> the matrix itself a polar
  decomposition. These two instances are used to run the model on diagonal inputs.
\<close>

definition svd_diagonal :: svd_fun where
  "svd_diagonal m = (mat_scalar 1, m, mat_scalar 1)"

definition polar_diagonal :: polar_fun where
  "polar_diagonal m = (mat_scalar 1, m)"

subsubsection \<open>The elastoplastic variant\<close>

text \<open>
  \<^verbatim>\<open>EPParticle3::get_energy_gradient\<close>. The macros \<^verbatim>\<open>P\<close> and \<^verbatim>\<open>CV\<close> print diagnostics and
  change nothing.
\<close>

definition EP_get_energy_gradient :: "polar_fun \<Rightarrow> EPParticle3 \<Rightarrow> Particle \<Rightarrow> Matrix3" where
  "EP_get_energy_gradient polar_decomp ep p =
     (let j_e = det (dg_e p);
          j_p = det (dg_p p);
          e = exp (min (hardening ep * (1 - j_p)) 10);
          mu = EPParticle3.mu_0 ep * e;
          lambda = EPParticle3.lambda_0 ep * e;
          (r, s) = polar_decomp (dg_e p)
      in madd (mscale (2 * mu) (msub (dg_e p) r))
              (mscale (lambda * (j_e - 1) * j_e) (inverse3 (transpose3 (dg_e p)))))"

definition EP_calculate_force :: "polar_fun \<Rightarrow> EPParticle3 \<Rightarrow> Particle \<Rightarrow> Particle" where
  "EP_calculate_force polar_decomp ep p =
     p\<lparr>tmp_force :=
         mmul (mscale (- vol p) (EP_get_energy_gradient polar_decomp ep p))
              (transpose3 (dg_e p))\<rparr>"

definition EP_plasticity :: "svd_fun \<Rightarrow> EPParticle3 \<Rightarrow> Particle \<Rightarrow> Particle" where
  "EP_plasticity svd ep p =
     (let (svd_u, sig, svd_v) = svd (dg_e p);
          sig = clamp_diagonal sig (1 - theta_c ep) (1 + theta_s ep);
          p = p\<lparr>dg_e := mmul (mmul svd_u sig) (transpose3 svd_v)\<rparr>;
          p = p\<lparr>dg_p := mmul (inverse3 (dg_e p)) (dg_cache p)\<rparr>;
          (svd_u, sig, svd_v) = svd (dg_p p);
          sig = clamp_diagonal sig 0.1 10
      in p\<lparr>dg_p := mmul (mmul svd_u sig) (transpose3 svd_v)\<rparr>)"

subsubsection \<open>The Drucker-Prager variant\<close>

text \<open>
  \<^verbatim>\<open>DPParticle3::project(sigma, alpha, sigma_out, out)\<close>: the two output parameters are the
  result pair. The parameter \<^verbatim>\<open>alpha\<close> of the source hides the field of the same name.
\<close>

definition project :: "DPParticle3 \<Rightarrow> Matrix3 \<Rightarrow> real \<Rightarrow> Matrix3 \<times> real" where
  "project dp sigma alpha_arg =
     (let d = 3;
          epsilon = Matrix3 (ln (m00 sigma)) 0 0 0 (ln (m11 sigma)) 0 0 0 (ln (m22 sigma));
          tr = m00 epsilon + m11 epsilon + m22 epsilon;
          epsilon_hat = msub epsilon (mscale (tr / d) (mat_scalar 1));
          epsilon_for = sqrt (m00 epsilon * m00 epsilon + m11 epsilon * m11 epsilon
                              + m22 epsilon * m22 epsilon);
          epsilon_hat_for = sqrt (m00 epsilon_hat * m00 epsilon_hat
                                  + m11 epsilon_hat * m11 epsilon_hat
                                  + m22 epsilon_hat * m22 epsilon_hat)
      in if epsilon_hat_for \<le> 0 \<or> tr > 0 then (mat_scalar 1, epsilon_for)
         else
           let delta_gamma = epsilon_hat_for
                 + (d * DPParticle3.lambda_0 dp + 2 * DPParticle3.mu_0 dp)
                     / (2 * DPParticle3.mu_0 dp) * tr * alpha_arg
           in if delta_gamma \<le> 0 then (sigma, 0)
              else
                let h = msub epsilon (mscale (delta_gamma / epsilon_hat_for) epsilon_hat)
                in (Matrix3 (exp (m00 h)) 0 0 0 (exp (m11 h)) 0 0 0 (exp (m22 h)),
                    delta_gamma))"

text \<open>
  \<^verbatim>\<open>DPParticle3::calculate_force\<close>. Modelled from the spec: \<^verbatim>\<open>assert_info\<close> is a macro of
  the repository's utilities, which are not among the sources; by the spec a singular value
  that is not positive is a fatal precondition violation, so each
  \<^verbatim>\<open>assert_info(sig[i][i] > 0, ...)\<close> that fails is the fatal exit \<open>NegativeSingularValue\<close>.
\<close>

definition DP_calculate_force :: "svd_fun \<Rightarrow> DPParticle3 \<Rightarrow> Particle \<Rightarrow> trap + Particle" where
  "DP_calculate_force svd dp p =
     (let dg = dg_e p;
          (u, sig, sv) = svd (dg_e p)
      in if \<not> m00 sig > 0 then Inl NegativeSingularValue
         else if \<not> m11 sig > 0 then Inl NegativeSingularValue
         else if \<not> m22 sig > 0 then Inl NegativeSingularValue
         else
           let log_sig = Matrix3 (ln (m00 sig)) 0 0 0 (ln (m11 sig)) 0 0 0 (ln (m22 sig));
               inv_sig = Matrix3 (1 / m00 sig) 0 0 0 (1 / m11 sig) 0 0 0 (1 / m22 sig);
               center = madd (mmul (mscale (2 * DPParticle3.mu_0 dp) inv_sig) log_sig)
                             (mscale (DPParticle3.lambda_0 dp
                                        * (m00 log_sig + m11 log_sig + m22 log_sig)) inv_sig)
           in Inr (p\<lparr>tmp_force :=
                 mmul (mscale (- vol p) (mmul (mmul u center) (transpose3 sv)))
                      (transpose3 dg)\<rparr>))"

text \<open>
  \<^verbatim>\<open>DPParticle3::plasticity\<close>. Modelled from the spec: \<^verbatim>\<open>error("SVD error\n")\<close> is a macro
  of the repository's utilities, which are not among the sources; by the spec a
  reconstruction mismatch is fatal, so the call is the fatal exit \<open>SVDError\<close>.
\<close>

definition DP_plasticity :: "svd_fun \<Rightarrow> DPParticle3 \<Rightarrow> Particle \<Rightarrow> trap + Particle" where
  "DP_plasticity svd dp p =
     (let (u, sig, sv) = svd (dg_e p);
          (t, delta_q) = project dp sig (alpha dp);
          rec = mmul (mmul u sig) (transpose3 sv);
          diff = msub rec (dg_e p)
      in if \<not> frobenius_norm diff < 0.0001 then Inl SVDError
         else
           let dg_e' = mmul (mmul u t) (transpose3 sv);
               dg_p' = mmul (mmul (mmul (mmul sv (inverse3 t)) sig) (transpose3 sv)) (dg_p p);
               q' = q dp + delta_q;
               phi = h_0 dp + (h_1 dp * q' - h_3 dp) * exp (- h_2 dp * q');
               alpha' = sqrt (2 / 3) * (2 * sin (phi * pi / 180)) / (3 - sin (phi * pi / 180))
           in Inr (p\<lparr>dg_e := dg_e', dg_p := dg_p',
                     material := DP (dp\<lparr>q := q', alpha := alpha'\<rparr>)\<rparr>))"

subsubsection \<open>Virtual dispatch\<close>

definition calculate_force :: "svd_fun \<Rightarrow> polar_fun \<Rightarrow> Particle \<Rightarrow> trap + Particle" where
  "calculate_force svd polar_decomp p =
     (case material p of
        EP ep \<Rightarrow> Inr (EP_calculate_force polar_decomp ep p)
      | DP dp \<Rightarrow> DP_calculate_force svd dp p)"

definition plasticity :: "svd_fun \<Rightarrow> Particle \<Rightarrow> trap + Particle" where
  "plasticity svd p =
     (case material p of
        EP ep \<Rightarrow> Inr (EP_plasticity svd ep p)
      | DP dp \<Rightarrow> DP_plasticity svd dp p)"

subsection \<open>The simulation state, configuration, and particle creation\<close>

text \<open>
  The members of \<^verbatim>\<open>MPM3D\<close> that the source file reads and writes. The grids are dense arrays
  indexed by cell \<open>(i, j, k)\<close>; here they are functions on all index triples, and the cells of
  the array are those in \<open>get_region\<close> below. The per-cell locks only order the concurrent
  accumulation; the model runs the particle passes one particle after the other, in the
  order of the collection.
\<close>

type_synonym Index3D = "int \<times> int \<times> int"

record MPM3D =
  res :: "int \<times> int \<times> int"
  gravity :: Vector3
  delta_t :: real
  apic :: bool
  particles :: "Particle list"
  grid_velocity :: "Index3D \<Rightarrow> Vector3"
  grid_mass :: "Index3D \<Rightarrow> real"
  grid_velocity_backup :: "Index3D \<Rightarrow> Vector3"
  current_t :: real

text \<open>
  Modelled from the spec: the class \<^verbatim>\<open>Config\<close> is a collaborator outside the sources. A
  configuration maps option names to values, and \<^verbatim>\<open>config.get(key, default)\<close> is the value
  configured under the key, or the default when there is none.
\<close>

datatype config_value = CReal real | CString string | CVector Vector3 | CInt int | CBool bool

type_synonym Config = "string \<rightharpoonup> config_value"

definition get_real :: "Config \<Rightarrow> string \<Rightarrow> real \<Rightarrow> real" where
  "get_real config key dflt = (case config key of Some (CReal r) \<Rightarrow> r | _ \<Rightarrow> dflt)"

definition get_string :: "Config \<Rightarrow> string \<Rightarrow> string \<Rightarrow> string" where
  "get_string config key dflt = (case config key of Some (CString r) \<Rightarrow> r | _ \<Rightarrow> dflt)"

definition get_vector :: "Config \<Rightarrow> string \<Rightarrow> Vector3 \<Rightarrow> Vector3" where
  "get_vector config key dflt = (case config key of Some (CVector r) \<Rightarrow> r | _ \<Rightarrow> dflt)"

text \<open>\<^verbatim>\<open>EPParticle3::initialize\<close> and \<^verbatim>\<open>DPParticle3::initialize\<close>.\<close>

definition EP_initialize :: "Config \<Rightarrow> EPParticle3 \<Rightarrow> Particle \<Rightarrow> Particle" where
  "EP_initialize config ep p =
     (let ep = ep\<lparr>hardening := get_real config ''hardening'' (hardening ep)\<rparr>;
          ep = ep\<lparr>EPParticle3.lambda_0 := get_real config ''lambda_0'' (EPParticle3.lambda_0 ep)\<rparr>;
          ep = ep\<lparr>EPParticle3.mu_0 := get_real config ''mu_0'' (EPParticle3.mu_0 ep)\<rparr>;
          ep = ep\<lparr>theta_c := get_real config ''theta_c'' (theta_c ep)\<rparr>;
          ep = ep\<lparr>theta_s := get_real config ''theta_s'' (theta_s ep)\<rparr>;
          compression = get_real config ''compression'' 1
      in p\<lparr>dg_p := mat_scalar compression, material := EP ep\<rparr>)"

definition DP_initialize :: "Config \<Rightarrow> DPParticle3 \<Rightarrow> Particle \<Rightarrow> Particle" where
  "DP_initialize config dp p =
     (let dp = dp\<lparr>h_0 := get_real config ''h_0'' (h_0 dp)\<rparr>;
          dp = dp\<lparr>h_1 := get_real config ''h_1'' (h_1 dp)\<rparr>;
          dp = dp\<lparr>h_2 := get_real config ''h_2'' (h_2 dp)\<rparr>;
          dp = dp\<lparr>h_3 := get_real config ''h_3'' (h_3 dp)\<rparr>;
          dp = dp\<lparr>DPParticle3.lambda_0 := get_real config ''lambda_0'' (DPParticle3.lambda_0 dp)\<rparr>;
          dp = dp\<lparr>DPParticle3.mu_0 := get_real config ''mu_0'' (DPParticle3.mu_0 dp)\<rparr>;
          dp = dp\<lparr>alpha := get_real config ''alpha'' (alpha dp)\<rparr>;
          compression = get_real config ''compression'' 1
      in p\<lparr>dg_p := mat_scalar compression, material := DP dp\<rparr>)"

text \<open>
  Modelled from the spec: the constructor of the base class \<^verbatim>\<open>MPM3D::Particle\<close> is declared
  in the header, which is not among the sources. By the spec the elastic deformation
  gradient starts as the identity and the affine matrix as zero; the fields the spec gives no
  initial value for are taken as 0 (vectors, scratch matrices) and 1 (mass, volume, plastic
  part). Particle creation below takes the freshly constructed base part as a parameter.
\<close>

definition Particle_new :: "Material \<Rightarrow> Particle" where
  "Particle_new mat = \<lparr> pos = vec_scalar 0, v = vec_scalar 0, mass = 1, vol = 1,
     dg_e = mat_scalar 1, dg_p = mat_scalar 1, dg_cache = mat_scalar 1,
     apic_b = mat_scalar 0, tmp_force = mat_scalar 0, material = mat \<rparr>"

text \<open>
  \<^verbatim>\<open>MPM3D::add_particles\<close>. The density texture is the function \<open>density\<close> (the first
  component of the sample at a coordinate). The global generator \<^verbatim>\<open>rand()\<close> is the sequence
  \<open>rnd\<close> with a counter of the draws made so far, threaded with the state. \<open>fresh\<close> is the
  base part a constructor call leaves. \<^verbatim>\<open>(int)num\<close> truncates towards zero.
\<close>

definition trunc_int :: "real \<Rightarrow> int" where
  "trunc_int num = (if 0 \<le> num then \<lfloor>num\<rfloor> else \<lceil>num\<rceil>)"

definition create_particle ::
  "Config \<Rightarrow> (nat \<Rightarrow> real) \<Rightarrow> Particle \<Rightarrow> int \<Rightarrow> int \<Rightarrow> int \<Rightarrow> MPM3D \<times> nat \<Rightarrow> MPM3D \<times> nat" where
  "create_particle config rnd fresh i j k st =
     (let (s, c) = st;
          p = (if get_string config ''type'' ''ep'' = ''ep''
               then EP_initialize config EPParticle3_new (fresh\<lparr>material := EP EPParticle3_new\<rparr>)
               else DP_initialize config DPParticle3_new (fresh\<lparr>material := DP DPParticle3_new\<rparr>));
          p = p\<lparr>pos := Vector3 (real_of_int i + rnd c) (real_of_int j + rnd (c + 1))
                          (real_of_int k + rnd (c + 2))\<rparr>;
          p = p\<lparr>mass := 1\<rparr>;
          p = p\<lparr>v := get_vector config ''initial_velocity'' (v p)\<rparr>
      in (s\<lparr>particles := particles s @ [p]\<rparr>, c + 3))"

definition add_particles_cell ::
  "Config \<Rightarrow> (Vector3 \<Rightarrow> real) \<Rightarrow> (nat \<Rightarrow> real) \<Rightarrow> Particle \<Rightarrow> int \<Rightarrow> int \<Rightarrow> int
     \<Rightarrow> MPM3D \<times> nat \<Rightarrow> MPM3D \<times> nat" where
  "add_particles_cell config density rnd fresh i j k st =
     (let (s, c) = st;
          (r0, r1, r2) = res s;
          coord = Vector3 ((real_of_int i + 0.5) / real_of_int r0)
                          ((real_of_int j + 0.5) / real_of_int r1)
                          ((real_of_int k + 0.5) / real_of_int r2);
          num = density coord;
          t = trunc_int num + (if rnd c < num - real_of_int (trunc_int num) then 1 else 0)
      in fold (\<lambda>l. create_particle config rnd fresh i j k) [0..t - 1] (s, c + 1))"

definition add_particles ::
  "Config \<Rightarrow> (Vector3 \<Rightarrow> real) \<Rightarrow> (nat \<Rightarrow> real) \<Rightarrow> Particle \<Rightarrow> MPM3D \<times> nat \<Rightarrow> MPM3D \<times> nat" where
  "add_particles config density rnd fresh st =
     (let (r0, r1, r2) = res (fst st)
      in fold (\<lambda>i. fold (\<lambda>j. fold (\<lambda>k. add_particles_cell config density rnd fresh i j k)
                                   [0..r2 - 1])
                         [0..r1 - 1])
              [0..r0 - 1] st)"

subsection \<open>The transfer engine\<close>

text \<open>The kernel of a vector and its gradient: \<^verbatim>\<open>w(const Vector3 &)\<close>, \<^verbatim>\<open>dw(const Vector3 &)\<close>.\<close>

definition w_vec :: "Vector3 \<Rightarrow> trap + real" where
  "w_vec a =
     bind_trap (w (vx a)) (\<lambda>wx.
     bind_trap (w (vy a)) (\<lambda>wy.
     bind_trap (w (vz a)) (\<lambda>wz.
       Inr (wx * wy * wz))))"

definition dw_vec :: "Vector3 \<Rightarrow> trap + Vector3" where
  "dw_vec a =
     bind_trap (dw (vx a)) (\<lambda>dx.
     bind_trap (dw (vy a)) (\<lambda>dy.
     bind_trap (dw (vz a)) (\<lambda>dz.
     bind_trap (w (vx a)) (\<lambda>wx.
     bind_trap (w (vy a)) (\<lambda>wy.
     bind_trap (w (vz a)) (\<lambda>wz.
       Inr (Vector3 (dx * wy * wz) (wx * dy * wz) (wx * wy * dz))))))))"

text \<open>A loop whose body can end in a fatal exit, over a state and over a collection.\<close>

primrec fold_trap :: "('a \<Rightarrow> 's \<Rightarrow> trap + 's) \<Rightarrow> 'a list \<Rightarrow> 's \<Rightarrow> trap + 's" where
  "fold_trap f [] s = Inr s"
| "fold_trap f (a # as) s = bind_trap (f a s) (fold_trap f as)"

primrec map_trap :: "('a \<Rightarrow> trap + 'b) \<Rightarrow> 'a list \<Rightarrow> trap + 'b list" where
  "map_trap f [] = Inr []"
| "map_trap f (a # as) =
     bind_trap (f a) (\<lambda>b. bind_trap (map_trap f as) (\<lambda>bs. Inr (b # bs)))"

text \<open>
  A floating-point division by zero does not stop the program. To state that the grid passes
  never divide by a zero cell mass, the two divisions by a cell mass are checked in the
  model: \<open>DivisionByZero\<close> marks a division by zero.
\<close>

definition checked_div :: "real \<Rightarrow> real \<Rightarrow> trap + real" where
  "checked_div a b = (if b = 0 then Inl DivisionByZero else Inr (a / b))"

text \<open>
  \<^verbatim>\<open>Vector(ind.i, ind.j, ind.k)\<close>: the position of a cell. The boundary pass writes
  \<^verbatim>\<open>Vector3(ind.get_pos())\<close>; the grids are initialised with a zero storage offset, and the
  model takes the same position there.
\<close>

definition index_pos :: "Index3D \<Rightarrow> Vector3" where
  "index_pos ind = (case ind of (i, j, k) \<Rightarrow>
     Vector3 (real_of_int i) (real_of_int j) (real_of_int k))"

text \<open>
  Modelled from the spec: \<^verbatim>\<open>get_region\<close> of the grid arrays, \<^verbatim>\<open>grid_backup_velocity\<close> and
  \<^verbatim>\<open>get_bounded_rasterization_region\<close> are declared in headers that are not among the
  sources. By the spec the cells of a grid are the \<open>(i, j, k)\<close> in \<open>[0, resolution)\<close>; the
  backup is a snapshot of the grid velocity; and the bounded rasterization region of a
  particle is the block of \<open>4 \<times> 4 \<times> 4\<close> cells around it, from one cell below the cell the
  particle is in to two cells above on each axis, cut to the cells of the grid. The passes
  below take the region as a parameter \<open>region\<close>, a function from the position to the list
  of cells. \<open>List.product\<close> lists the triples with the first index in the outermost loop.
\<close>

definition get_region :: "int \<times> int \<times> int \<Rightarrow> Index3D list" where
  "get_region r = (case r of (r0, r1, r2) \<Rightarrow>
     List.product [0..r0 - 1] (List.product [0..r1 - 1] [0..r2 - 1]))"

definition grid_backup_velocity :: "MPM3D \<Rightarrow> MPM3D" where
  "grid_backup_velocity s = s\<lparr>grid_velocity_backup := grid_velocity s\<rparr>"

definition bounded_axis :: "int \<Rightarrow> real \<Rightarrow> int list" where
  "bounded_axis r a = [max 0 (\<lfloor>a\<rfloor> - 1)..min (r - 1) (\<lfloor>a\<rfloor> + 2)]"

definition get_bounded_rasterization_region :: "int \<times> int \<times> int \<Rightarrow> Vector3 \<Rightarrow> Index3D list" where
  "get_bounded_rasterization_region r p = (case r of (r0, r1, r2) \<Rightarrow>
     List.product (bounded_axis r0 (vx p))
       (List.product (bounded_axis r1 (vy p)) (bounded_axis r2 (vz p))))"

text \<open>\<^verbatim>\<open>MPM3D::rasterize\<close>: the body of the inner loop, the normalisation of one cell, the pass.\<close>

definition rasterize_cell :: "Particle \<Rightarrow> Index3D \<Rightarrow> MPM3D \<Rightarrow> trap + MPM3D" where
  "rasterize_cell p ind s =
     (let d_pos = vsub (index_pos ind) (pos p) in
      bind_trap (w_vec d_pos) (\<lambda>weight.
        Inr (s\<lparr>grid_mass := (grid_mass s)(ind := grid_mass s ind + weight * mass p),
               grid_velocity := (grid_velocity s)(ind :=
                 vadd (grid_velocity s ind)
                      (vscale (weight * mass p)
                         (vadd (v p) (mvmul (mscale 3 (apic_b p)) d_pos))))\<rparr>)))"

definition normalize_cell :: "Index3D \<Rightarrow> MPM3D \<Rightarrow> trap + MPM3D" where
  "normalize_cell ind s =
     (if grid_mass s ind > 0
      then bind_trap (checked_div 1 (grid_mass s ind)) (\<lambda>r.
             Inr (s\<lparr>grid_velocity := (grid_velocity s)(ind := vscale r (grid_velocity s ind))\<rparr>))
      else Inr s)"

definition rasterize :: "(Vector3 \<Rightarrow> Index3D list) \<Rightarrow> MPM3D \<Rightarrow> trap + MPM3D" where
  "rasterize region s =
     (let s = s\<lparr>grid_velocity := (\<lambda>_. vec_scalar 0)\<rparr>;
          s = s\<lparr>grid_mass := (\<lambda>_. 0)\<rparr>
      in bind_trap
           (fold_trap (\<lambda>p. fold_trap (rasterize_cell p) (region (pos p))) (particles s) s)
           (\<lambda>s. fold_trap normalize_cell (get_region (res s)) s))"

text \<open>
  \<^verbatim>\<open>MPM3D::resample\<close>. The locals \<^verbatim>\<open>v\<close>, \<^verbatim>\<open>bv\<close>, \<^verbatim>\<open>cdg\<close>, \<^verbatim>\<open>b\<close> and \<^verbatim>\<open>count\<close> of the
  particle loop are the record \<open>resample_acc\<close>.
\<close>

record resample_acc =
  acc_v :: Vector3
  acc_bv :: Vector3
  acc_cdg :: Matrix3
  acc_b :: Matrix3
  acc_count :: int

definition resample_cell :: "MPM3D \<Rightarrow> Particle \<Rightarrow> Index3D \<Rightarrow> resample_acc \<Rightarrow> trap + resample_acc" where
  "resample_cell s p ind a =
     (let count = acc_count a + 1;
          d_pos = vsub (pos p) (index_pos ind) in
      bind_trap (w_vec d_pos) (\<lambda>weight.
      bind_trap (dw_vec d_pos) (\<lambda>gw.
        let grid_vel = grid_velocity s ind;
            aa = grid_vel;
            bb = vneg d_pos;
            out = Matrix3 (vx aa * vx bb) (vy aa * vx bb) (vz aa * vx bb)
                          (vx aa * vy bb) (vy aa * vy bb) (vz aa * vy bb)
                          (vx aa * vz bb) (vy aa * vz bb) (vz aa * vz bb)
        in Inr \<lparr> acc_v = vadd (acc_v a) (vscale weight grid_vel),
                 acc_bv = vadd (acc_bv a) (vscale weight (grid_velocity_backup s ind)),
                 acc_cdg = madd (acc_cdg a) (outerProduct (grid_velocity s ind) gw),
                 acc_b = madd (acc_b a) (mscale weight out),
                 acc_count = count \<rparr>)))"

definition resample_particle ::
  "(Vector3 \<Rightarrow> Index3D list) \<Rightarrow> real \<Rightarrow> MPM3D \<Rightarrow> Particle \<Rightarrow> trap + Particle" where
  "resample_particle region dt s p =
     (let alpha_delta_t = (if apic s then 0 else 1 :: real) in
      bind_trap
        (fold_trap (resample_cell s p) (region (pos p))
           \<lparr> acc_v = vec_scalar 0, acc_bv = vec_scalar 0, acc_cdg = mat_scalar 0,
             acc_b = mat_scalar 0, acc_count = 0 \<rparr>)
        (\<lambda>a.
          let b = (if acc_count a \<noteq> 64 \<or> \<not> apic s then mat_scalar 0 else acc_b a);
              p = p\<lparr>apic_b := b\<rparr>;
              cdg = madd (mat_scalar 1) (mscale dt (acc_cdg a));
              p = p\<lparr>v := vadd (vscale (1 - alpha_delta_t) (acc_v a))
                               (vscale alpha_delta_t (vadd (vsub (acc_v a) (acc_bv a)) (v p)))\<rparr>;
              dg = mmul (mmul cdg (dg_e p)) (dg_p p);
              p = p\<lparr>dg_e := mmul cdg (dg_e p)\<rparr>
          in Inr (p\<lparr>dg_cache := dg\<rparr>)))"

definition resample :: "(Vector3 \<Rightarrow> Index3D list) \<Rightarrow> real \<Rightarrow> MPM3D \<Rightarrow> trap + MPM3D" where
  "resample region dt s =
     bind_trap (map_trap (resample_particle region dt s) (particles s))
       (\<lambda>ps. Inr (s\<lparr>particles := ps\<rparr>))"

text \<open>\<^verbatim>\<open>MPM3D::apply_deformation_force\<close>: the force pass, then the accumulation pass.\<close>

definition force_cell :: "real \<Rightarrow> Particle \<Rightarrow> Index3D \<Rightarrow> MPM3D \<Rightarrow> trap + MPM3D" where
  "force_cell dt p ind s =
     (let cell_mass = grid_mass s ind in
      if cell_mass = 0 then Inr s
      else
        let d_pos = vsub (pos p) (index_pos ind) in
        bind_trap (dw_vec d_pos) (\<lambda>gw.
          let force = mvmul (tmp_force p) gw in
          bind_trap (checked_div dt cell_mass) (\<lambda>r.
            Inr (s\<lparr>grid_velocity := (grid_velocity s)(ind :=
                   vadd (grid_velocity s ind) (vscale r force))\<rparr>))))"

definition apply_deformation_force ::
  "svd_fun \<Rightarrow> polar_fun \<Rightarrow> (Vector3 \<Rightarrow> Index3D list) \<Rightarrow> real \<Rightarrow> MPM3D \<Rightarrow> trap + MPM3D" where
  "apply_deformation_force svd polar_decomp region dt s =
     bind_trap (map_trap (calculate_force svd polar_decomp) (particles s)) (\<lambda>ps.
       let s = s\<lparr>particles := ps\<rparr>
       in fold_trap (\<lambda>p. fold_trap (force_cell dt p) (region (pos p))) (particles s) s)"

subsection \<open>Boundary conditions and collisions\<close>

text \<open>
  The level set is a collaborator behind an interface: the signed distance, its spatial
  gradient and its temporal derivative at a point and a time, and the friction coefficient.
\<close>

record DynamicLevelSet3D =
  sample :: "Vector3 \<Rightarrow> real \<Rightarrow> real"
  get_spatial_gradient :: "Vector3 \<Rightarrow> real \<Rightarrow> Vector3"
  get_temporal_derivative :: "Vector3 \<Rightarrow> real \<Rightarrow> real"
  friction :: real

definition boundary_cell :: "DynamicLevelSet3D \<Rightarrow> real \<Rightarrow> Index3D \<Rightarrow> MPM3D \<Rightarrow> MPM3D" where
  "boundary_cell levelset t ind s =
     (let cell = index_pos ind;
          phi = sample levelset cell t in
      if phi > 1 then s
      else
        let n = get_spatial_gradient levelset cell t;
            boundary_velocity = vscale (get_temporal_derivative levelset cell t) n;
            vel = vsub (grid_velocity s ind) boundary_velocity;
            vel =
              (if phi > 0 then
                 let pressure = max (- dot vel n) 0;
                     mu = friction levelset in
                 if mu < 0 then vec_scalar 0
                 else
                   let tg = vsub vel (vscale (dot vel n) n);
                       tg = (if vlength tg > 0.000001 then normalize3 tg else tg);
                       fr = - clamp (dot tg vel) (- mu * pressure) (mu * pressure)
                   in vadd (vadd vel (vscale pressure n)) (vscale fr tg)
               else if phi \<le> 0 then vec_scalar 0
               else vel);
            vel = vadd vel boundary_velocity
        in s\<lparr>grid_velocity := (grid_velocity s)(ind := vel)\<rparr>)"

definition grid_apply_boundary_conditions :: "DynamicLevelSet3D \<Rightarrow> real \<Rightarrow> MPM3D \<Rightarrow> MPM3D" where
  "grid_apply_boundary_conditions levelset t s =
     fold (boundary_cell levelset t) (get_region (res s)) s"

text \<open>
  What the source file uses and does not define: the two decompositions, the bounded
  rasterization region (for a resolution and a position), \<^verbatim>\<open>grid_apply_external_force\<close>
  (given the acceleration, the time step and the state it returns the new grid velocity),
  the level set, the collision routine of a particle (\<^verbatim>\<open>resolve_collision\<close>) and the
  constant \<^verbatim>\<open>eps\<close>.
\<close>

record Collaborators =
  svd_of :: svd_fun
  polar_decomp_of :: polar_fun
  region_of :: "int \<times> int \<times> int \<Rightarrow> Vector3 \<Rightarrow> Index3D list"
  grid_apply_external_force :: "Vector3 \<Rightarrow> real \<Rightarrow> MPM3D \<Rightarrow> Index3D \<Rightarrow> Vector3"
  levelset :: DynamicLevelSet3D
  resolve_collision :: "DynamicLevelSet3D \<Rightarrow> real \<Rightarrow> Particle \<Rightarrow> Particle"
  eps :: real

definition particle_collision_resolution :: "Collaborators \<Rightarrow> real \<Rightarrow> MPM3D \<Rightarrow> MPM3D" where
  "particle_collision_resolution ext t s =
     s\<lparr>particles := map (resolve_collision ext (levelset ext) t) (particles s)\<rparr>"

subsection \<open>The substep\<close>

text \<open>
  The first three statements of the particle loop in \<^verbatim>\<open>MPM3D::substep\<close>: the position is
  advected and clamped to the domain.
\<close>

definition advect :: "Collaborators \<Rightarrow> real \<Rightarrow> int \<times> int \<times> int \<Rightarrow> Particle \<Rightarrow> Particle" where
  "advect ext dt r p =
     (case r of (r0, r1, r2) \<Rightarrow>
        let p = p\<lparr>pos := vadd (pos p) (vscale dt (v p))\<rparr>;
            p = p\<lparr>pos := Vector3 (clamp (vx (pos p)) 0 (real_of_int r0 - eps ext))
                               (vy (pos p)) (vz (pos p))\<rparr>;
            p = p\<lparr>pos := Vector3 (vx (pos p))
                               (clamp (vy (pos p)) 0 (real_of_int r1 - eps ext)) (vz (pos p))\<rparr>
        in p\<lparr>pos := Vector3 (vx (pos p)) (vy (pos p))
                             (clamp (vz (pos p)) 0 (real_of_int r2 - eps ext))\<rparr>)"

text \<open>
  \<^verbatim>\<open>MPM3D::substep(float delta_t)\<close>; the parameter hides the member of the same name. The
  particle loop advects and then calls \<open>plasticity\<close>, particle by particle.
\<close>

definition substep :: "Collaborators \<Rightarrow> real \<Rightarrow> MPM3D \<Rightarrow> trap + MPM3D" where
  "substep ext dt s =
     bind_trap
       (if particles s \<noteq> [] then
          bind_trap (rasterize (region_of ext (res s)) s) (\<lambda>s.
            let s = grid_backup_velocity s;
                s = s\<lparr>grid_velocity := grid_apply_external_force ext (gravity s) dt s\<rparr>
            in bind_trap
                 (apply_deformation_force (svd_of ext) (polar_decomp_of ext)
                    (region_of ext (res s)) dt s) (\<lambda>s.
                 let s = grid_apply_boundary_conditions (levelset ext) (current_t s) s
                 in bind_trap (resample (region_of ext (res s)) dt s) (\<lambda>s.
                      bind_trap
                        (map_trap (\<lambda>p. plasticity (svd_of ext) (advect ext dt (res s) p))
                           (particles s)) (\<lambda>ps.
                        let s = s\<lparr>particles := ps\<rparr>
                        in Inr (particle_collision_resolution ext (current_t s) s)))))
        else Inr s)
       (\<lambda>s. Inr (s\<lparr>current_t := current_t s + dt\<rparr>))"

subsection \<open>Auxiliary functions for the kernel proofs\<close>

text \<open>
  \<open>cube_abs y\<close> is \<open>|y|\<^sup>3\<close>. On \<open>[-2, 2]\<close> the kernel is a combination of shifted copies
  of it and of polynomials, which is differentiable everywhere.
\<close>

definition cube_abs :: "real \<Rightarrow> real" where
  "cube_abs y = y * y * \<bar>y\<bar>"

definition w_smooth :: "real \<Rightarrow> real" where
  "w_smooth x = 0.5 * cube_abs x - x * x + 2 / 3
     - (1 / 3) * ((x - 1) ^ 3 + cube_abs (x - 1) - (x + 1) ^ 3 + cube_abs (x + 1))"

definition dw_smooth :: "real \<Rightarrow> real" where
  "dw_smooth x = 1.5 * x * \<bar>x\<bar> - 2 * x
     - ((x - 1) ^ 2 + (x - 1) * \<bar>x - 1\<bar> - (x + 1) ^ 2 + (x + 1) * \<bar>x + 1\<bar>)"

subsection \<open>Auxiliary notions for the material proofs\<close>

text \<open>
  A faulty decomposition, used to reach the fatal exit of \<open>plasticity\<close>: \<open>svd_unit\<close> returns
  the identity three times whatever the matrix is.
\<close>

definition svd_unit :: svd_fun where
  "svd_unit m = (mat_scalar 1, mat_scalar 1, mat_scalar 1)"

definition is_diagonal :: "Matrix3 \<Rightarrow> bool" where
  "is_diagonal a \<longleftrightarrow>
     m01 a = 0 \<and> m02 a = 0 \<and> m10 a = 0 \<and> m12 a = 0 \<and> m20 a = 0 \<and> m21 a = 0"

text \<open>
  What a singular value decomposition is, as far as the proofs on determinants need it:
  \<open>\<Sigma>\<close> is diagonal with non-negative entries, \<open>U \<Sigma> V\<^sup>T\<close> is the matrix, and \<open>U\<close> and \<open>V\<close> are
  both rotations or both reflections (by the spec a decomposition yields proper rotations).
\<close>

definition svd_proper :: "svd_fun \<Rightarrow> Matrix3 \<Rightarrow> bool" where
  "svd_proper svd m = (case svd m of (u, sig, sv) \<Rightarrow>
     is_diagonal sig \<and> 0 \<le> m00 sig \<and> 0 \<le> m11 sig \<and> 0 \<le> m22 sig
     \<and> mmul (mmul u sig) (transpose3 sv) = m \<and> 0 < det u * det sv)"

text \<open>
  For a diagonal matrix of any signs, \<open>U\<close> the diagonal matrix of the signs, \<open>\<Sigma>\<close> the
  matrix of the absolute values and \<open>V = 1\<close> is a singular value decomposition.
\<close>

definition svd_diagonal_signed :: svd_fun where
  "svd_diagonal_signed m =
     (Matrix3 (sgn (m00 m)) 0 0 0 (sgn (m11 m)) 0 0 0 (sgn (m22 m)),
      Matrix3 \<bar>m00 m\<bar> 0 0 0 \<bar>m11 m\<bar> 0 0 0 \<bar>m22 m\<bar>,
      mat_scalar 1)"

text \<open>
  The quantities the description of \<open>project\<close> is written in: the logarithm of the singular
  values as a diagonal matrix, its trace, its deviator, the plastic increment, and the
  diagonal matrix of exponentials.
\<close>

definition log_diagonal :: "Matrix3 \<Rightarrow> Matrix3" where
  "log_diagonal sigma = Matrix3 (ln (m00 sigma)) 0 0 0 (ln (m11 sigma)) 0 0 0 (ln (m22 sigma))"

definition trace :: "Matrix3 \<Rightarrow> real" where
  "trace a = m00 a + m11 a + m22 a"

definition deviator :: "Matrix3 \<Rightarrow> Matrix3" where
  "deviator a = msub a (mscale (trace a / 3) (mat_scalar 1))"

definition plastic_increment :: "DPParticle3 \<Rightarrow> Matrix3 \<Rightarrow> real \<Rightarrow> real" where
  "plastic_increment dp sigma a =
     frobenius_norm (deviator (log_diagonal sigma))
     + (3 * DPParticle3.lambda_0 dp + 2 * DPParticle3.mu_0 dp) / (2 * DPParticle3.mu_0 dp)
         * trace (log_diagonal sigma) * a"

definition exp_diagonal :: "Matrix3 \<Rightarrow> Matrix3" where
  "exp_diagonal h = Matrix3 (exp (m00 h)) 0 0 0 (exp (m11 h)) 0 0 0 (exp (m22 h))"

definition sigma_compressed :: Matrix3 where
  "sigma_compressed = Matrix3 (exp (- 1)) 0 0 0 (exp (- 2)) 0 0 0 (exp (- 3))"

text \<open>
  A configuration of a snow batch whose yield interval \<open>[1 - theta_c, 1 + theta_s]\<close> is
  \<open>[- 2, - 1]\<close>, and two deformed particles: a snow particle stretched twentyfold along the
  first axis and compressed to a half along the third, and a sand particle expanded twofold.
\<close>

definition config_negative_yield :: Config where
  "config_negative_yield =
     [''type'' \<mapsto> CString ''ep'', ''theta_c'' \<mapsto> CReal 3, ''theta_s'' \<mapsto> CReal (- 2)]"

definition particle_stretched :: Particle where
  "particle_stretched = (Particle_new (EP EPParticle3_new))
     \<lparr>dg_e := Matrix3 20 0 0 0 1 0 0 0 (1 / 2), dg_cache := Matrix3 20 0 0 0 1 0 0 0 (1 / 2)\<rparr>"

definition particle_expanded :: Particle where
  "particle_expanded = (Particle_new (DP DPParticle3_new))\<lparr>dg_e := mat_scalar 2\<rparr>"

subsection \<open>Auxiliary notions for particle creation\<close>

text \<open>
  The invariant of the creation loops: the collection grows at its end only, by particles of
  mass 1, and the resolution stays as it is. \<open>state_example\<close> is an empty simulation on a
  grid of one cell.
\<close>

definition unit_mass_extension :: "MPM3D \<Rightarrow> MPM3D \<times> nat \<Rightarrow> bool" where
  "unit_mass_extension s0 st \<longleftrightarrow>
     (\<exists>new. particles (fst st) = particles s0 @ new
        \<and> map mass new = replicate (length new) 1)
     \<and> res (fst st) = res s0"

definition state_example :: MPM3D where
  "state_example = \<lparr> res = (1, 1, 1), gravity = vec_scalar 0, delta_t = 0, apic = True,
     particles = [], grid_velocity = (\<lambda>_. vec_scalar 0), grid_mass = (\<lambda>_. 0),
     grid_velocity_backup = (\<lambda>_. vec_scalar 0), current_t = 0 \<rparr>"

subsection \<open>Auxiliary notions for the transfer proofs\<close>

text \<open>
  \<open>vsum\<close> adds a list of vectors, and \<open>interpolate\<close> is the interpolation of a grid
  quantity at a position: the sum over the cells of the region of the kernel weight times
  the value of the cell. \<open>region_single\<close> and \<open>state_single\<close> are a region of one cell and
  a simulation with one particle at the origin.
\<close>

primrec vsum :: "Vector3 list \<Rightarrow> Vector3" where
  "vsum [] = vec_scalar 0"
| "vsum (a # as) = vadd a (vsum as)"

definition interpolate ::
  "(Vector3 \<Rightarrow> Index3D list) \<Rightarrow> (Index3D \<Rightarrow> Vector3) \<Rightarrow> Vector3 \<Rightarrow> Vector3" where
  "interpolate region grid p =
     vsum (map (\<lambda>ind. vscale (projr (w_vec (vsub p (index_pos ind)))) (grid ind)) (region p))"

definition region_single :: "Vector3 \<Rightarrow> Index3D list" where
  "region_single p = [(0, 0, 0)]"

definition state_single :: MPM3D where
  "state_single = state_example\<lparr>particles := [Particle_new (EP EPParticle3_new)],
     grid_velocity := (\<lambda>_. Vector3 1 2 3)\<rparr>"

subsection \<open>Auxiliary notions for mass conservation\<close>

text \<open>
  \<open>w1\<close> is the value of the kernel where it is defined. \<open>axis_sum\<close> adds the kernel over the
  cells of the region on one axis, and an axis is inside the grid when none of the four cells
  is cut off. \<open>kernel_weight\<close> is the weight of a cell for a position, \<open>kernel_sum\<close> the sum of
  the weights over the bounded rasterization region (the in-domain portion of the kernel),
  and a position is \<open>fully_inside\<close> when its \<open>4 \<times> 4 \<times> 4\<close> block lies inside the grid.
  \<open>total_grid_mass\<close> adds the mass of all cells. \<open>state_clipped\<close> is a grid of \<open>4\<^sup>3\<close> cells with
  one particle of mass 1 whose first coordinate is the integer \<open>res - 2\<close>.
\<close>

definition w1 :: "real \<Rightarrow> real" where
  "w1 d = projr (w d)"

definition axis_sum :: "int \<Rightarrow> real \<Rightarrow> real" where
  "axis_sum r a = sum_list (map (\<lambda>i. w1 (real_of_int i - a)) (bounded_axis r a))"


definition kernel_weight :: "Vector3 \<Rightarrow> Index3D \<Rightarrow> real" where
  "kernel_weight p ind = projr (w_vec (vsub (index_pos ind) p))"

definition kernel_sum :: "int \<times> int \<times> int \<Rightarrow> Vector3 \<Rightarrow> real" where
  "kernel_sum r p =
     sum_list (map (kernel_weight p) (get_bounded_rasterization_region r p))"






subsection \<open>The phases of a substep\<close>

text \<open>
  The substep as the spec describes it: ten phases, one after the other, each on the whole
  state: rasterize, backup of the grid velocity, external force, deformation force, grid
  boundary conditions, resample, advection with clamping, plasticity, particle collision
  resolution, and the advance of the clock. \<open>same_clock\<close> is the invariant of the grid loops.
  \<open>ext_example\<close> gives the collaborators values to run a substep with: a level set far away,
  gravity added to the grid velocity, no collision response.
\<close>

definition apply_external_force :: "Collaborators \<Rightarrow> real \<Rightarrow> MPM3D \<Rightarrow> MPM3D" where
  "apply_external_force ext dt s =
     s\<lparr>grid_velocity := grid_apply_external_force ext (gravity s) dt s\<rparr>"

definition advect_all :: "Collaborators \<Rightarrow> real \<Rightarrow> MPM3D \<Rightarrow> MPM3D" where
  "advect_all ext dt s = s\<lparr>particles := map (advect ext dt (res s)) (particles s)\<rparr>"

definition plasticity_all :: "Collaborators \<Rightarrow> MPM3D \<Rightarrow> trap + MPM3D" where
  "plasticity_all ext s =
     bind_trap (map_trap (plasticity (svd_of ext)) (particles s))
       (\<lambda>ps. Inr (s\<lparr>particles := ps\<rparr>))"

definition advance_clock :: "real \<Rightarrow> MPM3D \<Rightarrow> MPM3D" where
  "advance_clock dt s = s\<lparr>current_t := current_t s + dt\<rparr>"

definition substep_phases :: "Collaborators \<Rightarrow> real \<Rightarrow> MPM3D \<Rightarrow> trap + MPM3D" where
  "substep_phases ext dt s =
     bind_trap (rasterize (region_of ext (res s)) s) (\<lambda>s.
     bind_trap (Inr (grid_backup_velocity s)) (\<lambda>s.
     bind_trap (Inr (apply_external_force ext dt s)) (\<lambda>s.
     bind_trap (apply_deformation_force (svd_of ext) (polar_decomp_of ext)
                  (region_of ext (res s)) dt s) (\<lambda>s.
     bind_trap (Inr (grid_apply_boundary_conditions (levelset ext) (current_t s) s)) (\<lambda>s.
     bind_trap (resample (region_of ext (res s)) dt s) (\<lambda>s.
     bind_trap (Inr (advect_all ext dt s)) (\<lambda>s.
     bind_trap (plasticity_all ext s) (\<lambda>s.
     bind_trap (Inr (particle_collision_resolution ext (current_t s) s)) (\<lambda>s.
       Inr (advance_clock dt s))))))))))"

definition same_clock :: "MPM3D \<Rightarrow> MPM3D \<Rightarrow> bool" where
  "same_clock s s' \<longleftrightarrow> current_t s' = current_t s"

definition levelset_far :: DynamicLevelSet3D where
  "levelset_far = \<lparr> sample = (\<lambda>_ _. 2), get_spatial_gradient = (\<lambda>_ _. Vector3 0 1 0),
     get_temporal_derivative = (\<lambda>_ _. 0), friction = 0 \<rparr>"

definition ext_example :: Collaborators where
  "ext_example = \<lparr> svd_of = svd_diagonal, polar_decomp_of = polar_diagonal,
     region_of = get_bounded_rasterization_region,
     grid_apply_external_force = (\<lambda>g dt s ind. vadd (grid_velocity s ind) (vscale dt g)),
     levelset = levelset_far,
     resolve_collision = (\<lambda>ls t p. p),
     eps = 1 / 1000000 \<rparr>"

subsection \<open>Binary32 arithmetic\<close>

text \<open>
  The real numbers above idealise the arithmetic of the source, which is IEEE 754 binary32
  (\<^verbatim>\<open>float\<close>) with rounding to nearest, ties to even. Where the sign of a kernel value or
  its being zero decides a property, the idealisation is not faithful to the program, and
  the kernel and the grid passes are modelled a second time with every operation rounded.

  \<open>rne\<close> rounds a real number to the nearest integer, a tie to the even one. \<open>fl32\<close> rounds
  a real number to binary32: for \<open>2\<^sup>e \<le> |x| < 2\<^sup>e\<^sup>+\<^sup>1\<close> the result is the nearest multiple of
  \<open>2\<^sup>e\<^sup>-\<^sup>2\<^sup>3\<close> (a significand of 24 bits), and below \<open>2\<^sup>-\<^sup>1\<^sup>2\<^sup>6\<close> the nearest multiple of
  \<open>2\<^sup>-\<^sup>1\<^sup>4\<^sup>9\<close> (subnormal numbers). Overflow to infinity, NaN and the sign of zero are left
  out. \<open>add32\<close>, \<open>sub32\<close>, \<open>mul32\<close> and \<open>div32\<close> are the four operations on binary32
  numbers: the exact result, rounded once. The evaluation is the strict one: no operation is
  fused with another and no intermediate result is kept in a wider format.
\<close>

definition rne :: "real \<Rightarrow> int" where
  "rne x =
     (let f = \<lfloor>x\<rfloor>;
          r = x - of_int f
      in if r < 1 / 2 then f else if 1 / 2 < r then f + 1 else if even f then f else f + 1)"

definition fl32 :: "real \<Rightarrow> real" where
  "fl32 x =
     (if x = 0 then 0
      else
        let e = max \<lfloor>log 2 \<bar>x\<bar>\<rfloor> (- 126)
        in of_int (rne (x / 2 powr (of_int e - 23))) * 2 powr (of_int e - 23))"

definition add32 :: "real \<Rightarrow> real \<Rightarrow> real" where
  "add32 a b = fl32 (a + b)"

definition sub32 :: "real \<Rightarrow> real \<Rightarrow> real" where
  "sub32 a b = fl32 (a - b)"

definition mul32 :: "real \<Rightarrow> real \<Rightarrow> real" where
  "mul32 a b = fl32 (a * b)"

definition div32 :: "real \<Rightarrow> real \<Rightarrow> real" where
  "div32 a b = fl32 (a / b)"

text \<open>
  \<^verbatim>\<open>inline float w(float x)\<close> in binary32. The products and sums associate to the left:
  \<^verbatim>\<open>0.5f * x * x * x - x * x + 2.0f / 3.0f\<close> is \<open>(((0.5 * x) * x) * x - x * x) + 2 / 3\<close>, and
  \<^verbatim>\<open>-1.0f / 6.0f * x * x * x + x * x - 2 * x + 4.0f / 3.0f\<close> is
  \<open>(((((- 1) / 6) * x) * x) * x + x * x - 2 * x) + 4 / 3\<close>. The absolute value is exact.
\<close>

definition w_binary32 :: "real \<Rightarrow> trap + real" where
  "w_binary32 x0 =
     (let x = \<bar>x0\<bar> in
      if \<not> x \<le> 2 then Inl AssertionFailed
      else if x < 1 then
        Inr (add32 (sub32 (mul32 (mul32 (mul32 0.5 x) x) x) (mul32 x x)) (div32 2 3))
      else
        Inr (add32 (sub32 (add32 (mul32 (mul32 (mul32 (div32 (- 1) 6) x) x) x) (mul32 x x))
                          (mul32 2 x))
                   (div32 4 3)))"

text \<open>\<^verbatim>\<open>inline float dw(float x)\<close> in binary32.\<close>

definition dw_binary32 :: "real \<Rightarrow> trap + real" where
  "dw_binary32 x0 =
     (let s = (if x0 < 0 then - 1 else 1 :: real);
          x = mul32 x0 s in
      if \<not> x \<le> 2 then Inl AssertionFailed
      else
        let xx = mul32 x x;
            val = (if x < 1 then sub32 (mul32 1.5 xx) (mul32 2 x)
                   else sub32 (add32 (mul32 (- 0.5) xx) (mul32 2 x)) 2)
        in Inr (mul32 s val))"

text \<open>
  The vector operations the grid passes use, component by component, and the product of a
  matrix and a vector: the library evaluates each component as
  \<^verbatim>\<open>m[0][r] * v[0] + m[1][r] * v[1] + m[2][r] * v[2]\<close>, from left to right.
\<close>

definition vadd32 :: "Vector3 \<Rightarrow> Vector3 \<Rightarrow> Vector3" where
  "vadd32 a b = Vector3 (add32 (vx a) (vx b)) (add32 (vy a) (vy b)) (add32 (vz a) (vz b))"

definition vsub32 :: "Vector3 \<Rightarrow> Vector3 \<Rightarrow> Vector3" where
  "vsub32 a b = Vector3 (sub32 (vx a) (vx b)) (sub32 (vy a) (vy b)) (sub32 (vz a) (vz b))"

definition vscale32 :: "real \<Rightarrow> Vector3 \<Rightarrow> Vector3" where
  "vscale32 c a = Vector3 (mul32 c (vx a)) (mul32 c (vy a)) (mul32 c (vz a))"

definition mscale32 :: "real \<Rightarrow> Matrix3 \<Rightarrow> Matrix3" where
  "mscale32 c a = Matrix3
     (mul32 c (m00 a)) (mul32 c (m01 a)) (mul32 c (m02 a))
     (mul32 c (m10 a)) (mul32 c (m11 a)) (mul32 c (m12 a))
     (mul32 c (m20 a)) (mul32 c (m21 a)) (mul32 c (m22 a))"

definition mvmul32 :: "Matrix3 \<Rightarrow> Vector3 \<Rightarrow> Vector3" where
  "mvmul32 a b = Vector3
     (add32 (add32 (mul32 (m00 a) (vx b)) (mul32 (m10 a) (vy b))) (mul32 (m20 a) (vz b)))
     (add32 (add32 (mul32 (m01 a) (vx b)) (mul32 (m11 a) (vy b))) (mul32 (m21 a) (vz b)))
     (add32 (add32 (mul32 (m02 a) (vx b)) (mul32 (m12 a) (vy b))) (mul32 (m22 a) (vz b)))"

text \<open>\<^verbatim>\<open>w(const Vector3 &)\<close> and \<^verbatim>\<open>dw(const Vector3 &)\<close> in binary32.\<close>

definition w_vec_binary32 :: "Vector3 \<Rightarrow> trap + real" where
  "w_vec_binary32 a =
     bind_trap (w_binary32 (vx a)) (\<lambda>wx.
     bind_trap (w_binary32 (vy a)) (\<lambda>wy.
     bind_trap (w_binary32 (vz a)) (\<lambda>wz.
       Inr (mul32 (mul32 wx wy) wz))))"

definition dw_vec_binary32 :: "Vector3 \<Rightarrow> trap + Vector3" where
  "dw_vec_binary32 a =
     bind_trap (dw_binary32 (vx a)) (\<lambda>dx.
     bind_trap (dw_binary32 (vy a)) (\<lambda>dy.
     bind_trap (dw_binary32 (vz a)) (\<lambda>dz.
     bind_trap (w_binary32 (vx a)) (\<lambda>wx.
     bind_trap (w_binary32 (vy a)) (\<lambda>wy.
     bind_trap (w_binary32 (vz a)) (\<lambda>wz.
       Inr (Vector3 (mul32 (mul32 dx wy) wz) (mul32 (mul32 wx dy) wz)
                    (mul32 (mul32 wx wy) dz))))))))"

text \<open>
  \<^verbatim>\<open>MPM3D::rasterize\<close> in binary32. The cell indices are integers and convert exactly;
  \<^verbatim>\<open>weight * p.mass * (...)\<close> multiplies the weight by the mass first. As above, the division
  by the cell mass is checked.
\<close>

definition checked_div32 :: "real \<Rightarrow> real \<Rightarrow> trap + real" where
  "checked_div32 a b = (if b = 0 then Inl DivisionByZero else Inr (div32 a b))"

definition rasterize_cell_binary32 :: "Particle \<Rightarrow> Index3D \<Rightarrow> MPM3D \<Rightarrow> trap + MPM3D" where
  "rasterize_cell_binary32 p ind s =
     (let d_pos = vsub32 (index_pos ind) (pos p) in
      bind_trap (w_vec_binary32 d_pos) (\<lambda>weight.
        Inr (s\<lparr>grid_mass := (grid_mass s)(ind := add32 (grid_mass s ind) (mul32 weight (mass p))),
               grid_velocity := (grid_velocity s)(ind :=
                 vadd32 (grid_velocity s ind)
                      (vscale32 (mul32 weight (mass p))
                         (vadd32 (v p) (mvmul32 (mscale32 3 (apic_b p)) d_pos))))\<rparr>)))"

definition normalize_cell_binary32 :: "Index3D \<Rightarrow> MPM3D \<Rightarrow> trap + MPM3D" where
  "normalize_cell_binary32 ind s =
     (if grid_mass s ind > 0
      then bind_trap (checked_div32 1 (grid_mass s ind)) (\<lambda>r.
             Inr (s\<lparr>grid_velocity := (grid_velocity s)(ind := vscale32 r (grid_velocity s ind))\<rparr>))
      else Inr s)"

definition rasterize_binary32 :: "(Vector3 \<Rightarrow> Index3D list) \<Rightarrow> MPM3D \<Rightarrow> trap + MPM3D" where
  "rasterize_binary32 region s =
     (let s = s\<lparr>grid_velocity := (\<lambda>_. vec_scalar 0)\<rparr>;
          s = s\<lparr>grid_mass := (\<lambda>_. 0)\<rparr>
      in bind_trap
           (fold_trap (\<lambda>p. fold_trap (rasterize_cell_binary32 p) (region (pos p))) (particles s) s)
           (\<lambda>s. fold_trap normalize_cell_binary32 (get_region (res s)) s))"

text \<open>
  \<^verbatim>\<open>MPM3D::apply_deformation_force\<close> with the accumulation pass in binary32. The force pass
  calls the material model as it is modelled above.
\<close>

definition force_cell_binary32 :: "real \<Rightarrow> Particle \<Rightarrow> Index3D \<Rightarrow> MPM3D \<Rightarrow> trap + MPM3D" where
  "force_cell_binary32 dt p ind s =
     (let cell_mass = grid_mass s ind in
      if cell_mass = 0 then Inr s
      else
        let d_pos = vsub32 (pos p) (index_pos ind) in
        bind_trap (dw_vec_binary32 d_pos) (\<lambda>gw.
          let force = mvmul32 (tmp_force p) gw in
          bind_trap (checked_div32 dt cell_mass) (\<lambda>r.
            Inr (s\<lparr>grid_velocity := (grid_velocity s)(ind :=
                   vadd32 (grid_velocity s ind) (vscale32 r force))\<rparr>))))"

definition apply_deformation_force_binary32 ::
  "svd_fun \<Rightarrow> polar_fun \<Rightarrow> (Vector3 \<Rightarrow> Index3D list) \<Rightarrow> real \<Rightarrow> MPM3D \<Rightarrow> trap + MPM3D" where
  "apply_deformation_force_binary32 svd polar_decomp region dt s =
     bind_trap (map_trap (calculate_force svd polar_decomp) (particles s)) (\<lambda>ps.
       let s = s\<lparr>particles := ps\<rparr>
       in fold_trap (\<lambda>p. fold_trap (force_cell_binary32 dt p) (region (pos p))) (particles s) s)"

subsection \<open>Auxiliary notions for the cells of zero mass\<close>

text \<open>
  \<open>rasterize_deposit\<close> is the first part of \<open>rasterize\<close>: the two resets and the loop over the
  particles, without the normalisation. \<open>cell_force\<close> is the total force the particles
  exert on a cell: the sum, over the particles and over the occurrences of the cell in the
  region of a particle, of \<open>tmp_force\<close> times the kernel gradient.

  \<open>particle_a\<close> is a snow particle at \<open>(1, 1/2, 1/2)\<close>, stretched twofold along the first
  axis and moving along it; \<open>particle_b\<close> is a snow particle at rest one binary32 step
  further along the first axis, at \<open>1 + 2\<^sup>-\<^sup>2\<^sup>3\<close>, and \<open>particle_c\<close> is the first particle
  moved two steps along that axis, to \<open>1 + 2\<^sup>-\<^sup>2\<^sup>2\<close>. \<open>state_unit_a\<close> has the first particle
  on the grid of one cell. \<open>state_thin\<close> is a grid of \<open>4 \<times> 1 \<times> 1\<close> cells, whose cell
  \<open>(3, 0, 0)\<close> is at distance 2 from the first particle, \<open>2 - 2\<^sup>-\<^sup>2\<^sup>3\<close> from the second
  and \<open>2 - 2\<^sup>-\<^sup>2\<^sup>2\<close> from the third; \<open>state_thin_a\<close> has the first particle on it,
  \<open>state_thin_ab\<close> the first and the second, and \<open>state_thin_c\<close> the third.
\<close>

definition rasterize_deposit :: "(Vector3 \<Rightarrow> Index3D list) \<Rightarrow> MPM3D \<Rightarrow> trap + MPM3D" where
  "rasterize_deposit region s =
     (let s = s\<lparr>grid_velocity := (\<lambda>_. vec_scalar 0)\<rparr>;
          s = s\<lparr>grid_mass := (\<lambda>_. 0)\<rparr>
      in fold_trap (\<lambda>p. fold_trap (rasterize_cell p) (region (pos p))) (particles s) s)"

definition cell_force :: "(Vector3 \<Rightarrow> Index3D list) \<Rightarrow> Particle list \<Rightarrow> Index3D \<Rightarrow> Vector3" where
  "cell_force region ps c =
     vsum (concat (map (\<lambda>p.
       map (\<lambda>ind. mvmul (tmp_force p) (projr (dw_vec (vsub (pos p) (index_pos ind)))))
           (filter (\<lambda>ind. ind = c) (region (pos p)))) ps))"

definition state_thin :: MPM3D where
  "state_thin = state_example\<lparr>res := (4, 1, 1)\<rparr>"

definition particle_a :: Particle where
  "particle_a = (Particle_new (EP EPParticle3_new))
     \<lparr>pos := Vector3 1 (1 / 2) (1 / 2), v := Vector3 1 0 0, dg_e := Matrix3 2 0 0 0 1 0 0 0 1\<rparr>"

definition particle_b :: Particle where
  "particle_b = (Particle_new (EP EPParticle3_new))
     \<lparr>pos := Vector3 (8388609 / 8388608) (1 / 2) (1 / 2)\<rparr>"

definition particle_c :: Particle where
  "particle_c = particle_a\<lparr>pos := Vector3 (4194305 / 4194304) (1 / 2) (1 / 2)\<rparr>"

definition state_unit_a :: MPM3D where
  "state_unit_a = state_example\<lparr>particles := [particle_a]\<rparr>"

definition state_thin_a :: MPM3D where
  "state_thin_a = state_thin\<lparr>particles := [particle_a]\<rparr>"

definition state_thin_ab :: MPM3D where
  "state_thin_ab = state_thin\<lparr>particles := [particle_a, particle_b]\<rparr>"

definition state_thin_c :: MPM3D where
  "state_thin_c = state_thin\<lparr>particles := [particle_c]\<rparr>"

subsection \<open>Auxiliary notions for the cells cut off at the boundary\<close>




section \<open>Loops with fatal exits\<close>

lemma bind_trap_Inr_iff:
  "bind_trap m f = Inr b \<longleftrightarrow> (\<exists>a. m = Inr a \<and> f a = Inr b)"
  by (cases m) (simp_all add: bind_trap_def)

lemma bind_trap_Inl_iff:
  "bind_trap m f = Inl e \<longleftrightarrow> m = Inl e \<or> (\<exists>a. m = Inr a \<and> f a = Inl e)"
  by (cases m) (simp_all add: bind_trap_def)

lemma bind_trap_simps [simp]:
  "bind_trap (Inr a) f = f a" "bind_trap (Inl e) f = Inl e"
  by (simp_all add: bind_trap_def)

lemma fold_trap_invariant:
  assumes "fold_trap f xs s = Inr s'" and "P s"
    and "\<And>a t t'. a \<in> set xs \<Longrightarrow> P t \<Longrightarrow> f a t = Inr t' \<Longrightarrow> P t'"
  shows "P s'"
  using assms
proof (induction xs arbitrary: s)
  case Nil
  then show ?case by simp
next
  case (Cons a xs)
  from Cons.prems(1) obtain t where t: "f a s = Inr t" "fold_trap f xs t = Inr s'"
    by (auto simp: bind_trap_Inr_iff)
  have "P t" using Cons.prems(2,3) t(1) by auto
  then show ?case using Cons.IH [OF t(2)] Cons.prems(3) by auto
qed

lemma fold_trap_never:
  assumes "\<And>a t. a \<in> set xs \<Longrightarrow> f a t \<noteq> Inl e"
  shows "fold_trap f xs s \<noteq> Inl e"
  using assms
  by (induction xs arbitrary: s) (auto simp: bind_trap_Inl_iff)

lemma map_trap_never:
  assumes "\<And>a. a \<in> set xs \<Longrightarrow> f a \<noteq> Inl e"
  shows "map_trap f xs \<noteq> Inl e"
  using assms
  by (induction xs) (auto simp: bind_trap_Inl_iff)

lemma map_trap_Inr:
  assumes "map_trap f xs = Inr ys"
  shows "length ys = length xs \<and> (\<forall>i < length xs. f (xs ! i) = Inr (ys ! i))"
  using assms
proof (induction xs arbitrary: ys)
  case Nil
  then show ?case by simp
next
  case (Cons a xs)
  from Cons.prems obtain b bs where
    b: "f a = Inr b" "map_trap f xs = Inr bs" "ys = b # bs"
    by (auto simp: bind_trap_Inr_iff)
  show ?case
    using Cons.IH [OF b(2)] b(1,3) by (auto simp: nth_Cons split: nat.splits)
qed

lemma map_trap_comp:
  "map_trap (\<lambda>a. f (g a)) xs = map_trap f (map g xs)"
  by (induction xs) simp_all

lemma map_trap_total:
  assumes "\<And>a. a \<in> set xs \<Longrightarrow> \<exists>b. f a = Inr b"
  shows "\<exists>ys. map_trap f xs = Inr ys"
  using assms
proof (induction xs)
  case Nil
  then show ?case by simp
next
  case (Cons a xs)
  then obtain b where "f a = Inr b" by auto
  moreover obtain bs where "map_trap f xs = Inr bs" using Cons by auto
  ultimately show ?case by simp
qed


lemma map_trap_propagates:
  assumes "a \<in> set xs" and "f a = Inl e"
    and "\<And>b e'. b \<in> set xs \<Longrightarrow> f b = Inl e' \<Longrightarrow> e' = e"
  shows "map_trap f xs = Inl e"
  using assms
proof (induction xs)
  case Nil
  then show ?case by simp
next
  case (Cons x xs)
  show ?case
  proof (cases "f x")
    case (Inl e')
    then have "e' = e" using Cons.prems(3) [of x e'] by simp
    then show ?thesis using Inl by simp
  next
    case (Inr b)
    then have "a \<in> set xs" using Cons.prems(1,2) by auto
    moreover have "\<And>b e'. b \<in> set xs \<Longrightarrow> f b = Inl e' \<Longrightarrow> e' = e"
      using Cons.prems(3) by (meson list.set_intros(2))
    ultimately have "map_trap f xs = Inl e" using Cons.IH Cons.prems(2) by blast
    then show ?thesis using Inr by simp
  qed
qed

lemma bind_trap_assoc:
  "bind_trap (bind_trap m f) g = bind_trap m (\<lambda>a. bind_trap (f a) g)"
  by (cases m) simp_all

section \<open>Properties of the kernel\<close>

lemma cube_abs_deriv: "(cube_abs has_real_derivative 3 * y * \<bar>y\<bar>) (at y)"
proof -
  consider "0 < y" | "y < 0" | "y = 0" by linarith
  then show ?thesis
  proof cases
    case 1
    have "((\<lambda>t. t * t * t) has_real_derivative 3 * y * \<bar>y\<bar>) (at y)"
      using 1 by (auto intro!: derivative_eq_intros)
    then show ?thesis
      by (rule has_field_derivative_transform_within_open [where S = "{0<..}"])
         (use 1 in \<open>auto simp: cube_abs_def\<close>)
  next
    case 2
    have "((\<lambda>t. - (t * t * t)) has_real_derivative 3 * y * \<bar>y\<bar>) (at y)"
      using 2 by (auto intro!: derivative_eq_intros)
    then show ?thesis
      by (rule has_field_derivative_transform_within_open [where S = "{..<0}"])
         (use 2 in \<open>auto simp: cube_abs_def\<close>)
  next
    case 3
    have "(\<lambda>h. h * \<bar>h\<bar>) \<midarrow>0\<rightarrow> 0 * \<bar>0::real\<bar>"
      by (intro tendsto_intros)
    moreover have "(\<lambda>h. (cube_abs (0 + h) - cube_abs 0) / h) = (\<lambda>h. h * \<bar>h\<bar>)"
      by (auto simp: cube_abs_def fun_eq_iff)
    ultimately show ?thesis
      using 3 by (simp add: DERIV_def)
  qed
qed

lemma w_smooth_deriv: "(w_smooth has_real_derivative dw_smooth x) (at x)"
proof -
  have "((\<lambda>x. 0.5 * cube_abs x - x * x + 2 / 3
     - (1 / 3) * ((x - 1) ^ 3 + cube_abs (x - 1) - (x + 1) ^ 3 + cube_abs (x + 1)))
     has_real_derivative
       0.5 * (3 * x * \<bar>x\<bar>) - (x + x)
       - (1 / 3) * (3 * (x - 1) ^ 2 + 3 * (x - 1) * \<bar>x - 1\<bar> - 3 * (x + 1) ^ 2
           + 3 * (x + 1) * \<bar>x + 1\<bar>)) (at x)"
    apply (auto intro!: derivative_eq_intros DERIV_chain' [OF _ cube_abs_deriv] cube_abs_deriv)
    apply (simp add: field_simps)
    done
  moreover have "0.5 * (3 * x * \<bar>x\<bar>) - (x + x)
       - (1 / 3) * (3 * (x - 1) ^ 2 + 3 * (x - 1) * \<bar>x - 1\<bar> - 3 * (x + 1) ^ 2
           + 3 * (x + 1) * \<bar>x + 1\<bar>) = dw_smooth x"
    unfolding dw_smooth_def by (simp add: field_simps)
  ultimately show ?thesis
    unfolding w_smooth_def [abs_def] by simp
qed

lemma w_eq_smooth:
  assumes a: "\<bar>x\<bar> \<le> 2"
  shows "w x = Inr (w_smooth x)"
proof -
  consider "x \<le> - 1" | "- 1 < x" "x < 0" | "0 \<le> x" "x < 1" | "1 \<le> x" by linarith
  then show ?thesis
  proof cases
    case 1
    with a have "w x = Inr (- 1 / 6 * (-x) * (-x) * (-x) + (-x) * (-x) - 2 * (-x) + 4 / 3)"
      by (simp add: w_def Let_def)
    moreover have "\<bar>x\<bar> = - x" "\<bar>x - 1\<bar> = 1 - x" "\<bar>x + 1\<bar> = - x - 1" using 1 by auto
    ultimately show ?thesis
      by (simp add: w_smooth_def cube_abs_def power3_eq_cube field_simps)
  next
    case 2
    with a have "w x = Inr (0.5 * (-x) * (-x) * (-x) - (-x) * (-x) + 2 / 3)"
      by (simp add: w_def Let_def)
    moreover have "\<bar>x\<bar> = - x" "\<bar>x - 1\<bar> = 1 - x" "\<bar>x + 1\<bar> = x + 1" using 2 by auto
    ultimately show ?thesis
      by (simp add: w_smooth_def cube_abs_def power3_eq_cube field_simps)
  next
    case 3
    with a have "w x = Inr (0.5 * x * x * x - x * x + 2 / 3)"
      by (simp add: w_def Let_def)
    moreover have "\<bar>x\<bar> = x" "\<bar>x - 1\<bar> = 1 - x" "\<bar>x + 1\<bar> = x + 1" using 3 by auto
    ultimately show ?thesis
      by (simp add: w_smooth_def cube_abs_def power3_eq_cube field_simps)
  next
    case 4
    with a have "w x = Inr (- 1 / 6 * x * x * x + x * x - 2 * x + 4 / 3)"
      by (simp add: w_def Let_def)
    moreover have "\<bar>x\<bar> = x" "\<bar>x - 1\<bar> = x - 1" "\<bar>x + 1\<bar> = x + 1" using 4 by auto
    ultimately show ?thesis
      by (simp add: w_smooth_def cube_abs_def power3_eq_cube field_simps)
  qed
qed

lemma dw_eq_smooth:
  assumes a: "\<bar>x\<bar> \<le> 2"
  shows "dw x = Inr (dw_smooth x)"
proof -
  consider "x \<le> - 1" | "- 1 < x" "x < 0" | "0 \<le> x" "x < 1" | "1 \<le> x" by linarith
  then show ?thesis
  proof cases
    case 1
    with a have "dw x = Inr (- (- 0.5 * (x * x) + 2 * (- x) - 2))"
      by (simp add: dw_def Let_def)
    moreover have "\<bar>x\<bar> = - x" "\<bar>x - 1\<bar> = 1 - x" "\<bar>x + 1\<bar> = - x - 1" using 1 by auto
    ultimately show ?thesis
      by (simp add: dw_smooth_def power2_eq_square field_simps)
  next
    case 2
    with a have "dw x = Inr (- (1.5 * (x * x) - 2 * (- x)))"
      by (simp add: dw_def Let_def)
    moreover have "\<bar>x\<bar> = - x" "\<bar>x - 1\<bar> = 1 - x" "\<bar>x + 1\<bar> = x + 1" using 2 by auto
    ultimately show ?thesis
      by (simp add: dw_smooth_def power2_eq_square field_simps)
  next
    case 3
    with a have "dw x = Inr (1.5 * (x * x) - 2 * x)"
      by (simp add: dw_def Let_def)
    moreover have "\<bar>x\<bar> = x" "\<bar>x - 1\<bar> = 1 - x" "\<bar>x + 1\<bar> = x + 1" using 3 by auto
    ultimately show ?thesis
      by (simp add: dw_smooth_def power2_eq_square field_simps)
  next
    case 4
    with a have "dw x = Inr (- 0.5 * (x * x) + 2 * x - 2)"
      by (simp add: dw_def Let_def)
    moreover have "\<bar>x\<bar> = x" "\<bar>x - 1\<bar> = x - 1" "\<bar>x + 1\<bar> = x + 1" using 4 by auto
    ultimately show ?thesis
      by (simp add: dw_smooth_def power2_eq_square field_simps)
  qed
qed

lemma w_deriv_within:
  assumes "\<bar>x\<bar> \<le> 2"
  shows "((\<lambda>y. projr (w y)) has_real_derivative projr (dw x)) (at x within {- 2..2})"
proof -
  have "(w_smooth has_real_derivative dw_smooth x) (at x within {- 2..2})"
    using w_smooth_deriv by (rule has_field_derivative_at_within)
  then have "((\<lambda>y. projr (w y)) has_real_derivative dw_smooth x) (at x within {- 2..2})"
  proof (rule has_field_derivative_transform_within [where d = 1])
    show "x \<in> {- 2..2}" using assms by auto
    show "w_smooth y = projr (w y)" if "y \<in> {- 2..2}" for y
      using that by (simp add: w_eq_smooth abs_le_iff)
  qed simp
  then show ?thesis using assms by (simp add: dw_eq_smooth)
qed

lemma w_even: "w (- x) = w x"
  by (simp add: w_def)

lemma dw_odd: "dw (- x) = map_sum id uminus (dw x)"
  by (auto simp: dw_def Let_def)

lemma dw_piece1: "0 \<le> x \<Longrightarrow> x < 1 \<Longrightarrow> dw x = Inr (1.5 * x\<^sup>2 - 2 * x)"
  by (simp add: dw_def Let_def power2_eq_square)

lemma dw_piece2: "1 \<le> x \<Longrightarrow> x \<le> 2 \<Longrightarrow> dw x = Inr (- 0.5 * x\<^sup>2 + 2 * x - 2)"
  by (simp add: dw_def Let_def power2_eq_square)

subsection \<open>Rounding to binary32\<close>

lemma floor_log2_eq:
  assumes "2 powr of_int e \<le> x" and "x < 2 powr (of_int e + 1)"
  shows "\<lfloor>log 2 x\<rfloor> = e"
proof -
  have "0 < (2::real) powr of_int e" by simp
  with assms(1) have x: "0 < x" by linarith
  have "of_int e \<le> log 2 x" using assms(1) x by (simp add: le_log_iff)
  moreover have "log 2 x < of_int e + 1" using assms(2) x by (simp add: log_less_iff)
  ultimately show ?thesis by linarith
qed

lemma fl32_ulp:
  assumes "x \<noteq> 0" "\<lfloor>log 2 \<bar>x\<bar>\<rfloor> = e" "- 126 \<le> e" "2 powr (of_int e - 23) = u"
  shows "fl32 x = of_int (rne (x / u)) * u"
  using assms by (simp add: fl32_def Let_def max_def)

text \<open>
  The two forms in which \<open>fl32\<close> is evaluated: for \<open>2\<^sup>k \<le> |x| < 2\<^sup>k\<^sup>+\<^sup>1\<close> and for
  \<open>2\<^sup>-\<^sup>k \<le> |x| < 2\<^sup>1\<^sup>-\<^sup>k\<close>, with \<open>k\<close> a natural number.
\<close>

lemma fl32_big:
  assumes "2 ^ k \<le> \<bar>x\<bar>" "\<bar>x\<bar> < 2 * 2 ^ k"
  shows "fl32 x = of_int (rne (x * 2 ^ 23 / 2 ^ k)) * 2 ^ k / 2 ^ 23"
proof -
  have l: "\<lfloor>log 2 \<bar>x\<bar>\<rfloor> = int k"
    using assms by (intro floor_log2_eq) (simp_all add: powr_realpow powr_add)
  have "0 < (2::real) ^ k" by simp
  with assms(1) have "0 < \<bar>x\<bar>" by linarith
  hence x: "x \<noteq> 0" by simp
  have u: "2 powr (of_int (int k) - 23) = (2::real) ^ k / 2 ^ 23"
    by (simp add: powr_diff powr_realpow)
  have "fl32 x = of_int (rne (x / (2 ^ k / 2 ^ 23))) * (2 ^ k / 2 ^ 23)"
    by (rule fl32_ulp [OF x l _ u]) simp
  thus ?thesis by simp
qed

lemma fl32_small:
  assumes "1 \<le> \<bar>x\<bar> * 2 ^ k" "\<bar>x\<bar> * 2 ^ k < 2" "k \<le> 126"
  shows "fl32 x = of_int (rne (x * 2 ^ 23 * 2 ^ k)) / (2 ^ k * 2 ^ 23)"
proof -
  have p0: "2 powr (of_int (- int k)) = 1 / (2::real) ^ k"
    by (simp add: powr_minus powr_realpow inverse_eq_divide)
  have "2 powr (of_int (- int k) + 1) = 2 powr (of_int (- int k)) * (2::real) powr 1"
    by (rule powr_add)
  hence p1: "2 powr (of_int (- int k) + 1) = 2 / (2::real) ^ k"
    unfolding p0 by simp
  have k: "0 < (2::real) ^ k" by simp
  have a: "2 powr (of_int (- int k)) \<le> \<bar>x\<bar>"
    unfolding p0 using assms(1) k by (simp add: field_simps)
  have b: "\<bar>x\<bar> < 2 powr (of_int (- int k) + 1)"
    unfolding p1 using assms(2) k by (simp add: field_simps)
  have l: "\<lfloor>log 2 \<bar>x\<bar>\<rfloor> = - int k" by (rule floor_log2_eq [OF a b])
  have x: "x \<noteq> 0" using assms(1) by auto
  have u: "2 powr (of_int (- int k) - 23) = 1 / ((2::real) ^ k * 2 ^ 23)"
    using p0 by (simp add: powr_diff powr_realpow)
  have "fl32 x = of_int (rne (x / (1 / (2 ^ k * 2 ^ 23)))) * (1 / (2 ^ k * 2 ^ 23))"
    by (rule fl32_ulp [OF x l _ u]) (use assms(3) in simp)
  thus ?thesis by (simp add: mult_ac)
qed

lemma fl32_zero: "fl32 0 = 0"
  by (simp add: fl32_def)

text \<open>Rounding is symmetric: ties go to the even neighbour on both sides of zero.\<close>

lemma rne_minus: "rne (- x) = - rne x"
proof (cases "x = of_int \<lfloor>x\<rfloor>")
  case True
  then obtain n :: int where "x = of_int n" ..
  thus ?thesis by (simp add: rne_def del: of_int_minus add: of_int_minus [symmetric])
next
  case False
  hence f: "\<lfloor>- x\<rfloor> = - \<lfloor>x\<rfloor> - 1" by linarith
  show ?thesis
    unfolding rne_def Let_def f by (auto simp: algebra_simps)
qed

lemma fl32_minus: "fl32 (- x) = - fl32 x"
  by (simp add: fl32_def Let_def rne_minus)

subsection \<open>The kernel in binary32\<close>

lemma w_binary32_even: "w_binary32 (- x) = w_binary32 x"
  by (simp add: w_binary32_def)

lemma dw_binary32_odd: "dw_binary32 (- x) = map_sum id uminus (dw_binary32 x)"
proof -
  consider "x < 0" | "x = 0" | "0 < x" by linarith
  thus ?thesis
  proof cases
    case 1
    thus ?thesis by (simp add: dw_binary32_def Let_def mul32_def fl32_minus)
  next
    case 2
    thus ?thesis by (simp add: dw_binary32_def Let_def mul32_def sub32_def fl32_zero)
  next
    case 3
    thus ?thesis by (simp add: dw_binary32_def Let_def mul32_def fl32_minus)
  qed
qed

text \<open>
  The operations on the way to \<open>w_binary32 2\<close> and \<open>w_binary32 0\<close>. At \<open>x = 2\<close> the cubic term
  is \<open>- 11184811 / 2\<^sup>2\<^sup>3\<close>, its sum with 4 lies halfway between two binary32 numbers and is
  rounded to the even one, and what is left at the end is \<open>- 2\<^sup>-\<^sup>2\<^sup>3\<close>.
\<close>

lemma w_binary32_table:
  "div32 (- 1) 6 = - (11184811 / 67108864)"
  "mul32 (- (11184811 / 67108864)) 2 = - (11184811 / 33554432)"
  "mul32 (- (11184811 / 33554432)) 2 = - (11184811 / 16777216)"
  "mul32 (- (11184811 / 16777216)) 2 = - (11184811 / 8388608)"
  "mul32 2 2 = 4"
  "add32 (- (11184811 / 8388608)) 4 = 5592405 / 2097152"
  "sub32 (5592405 / 2097152) 4 = - (2796203 / 2097152)"
  "div32 4 3 = 11184811 / 8388608"
  "add32 (- (2796203 / 2097152)) (11184811 / 8388608) = - (1 / 8388608)"
  "mul32 (1 / 2) 0 = 0"
  "mul32 0 0 = 0"
  "sub32 0 0 = 0"
  "div32 2 3 = 11184811 / 16777216"
  "add32 0 (11184811 / 16777216) = 11184811 / 16777216"
  subgoal by (simp only: div32_def, subst fl32_small [where k = 3], simp_all add: rne_def)
  subgoal by (simp only: mul32_def, subst fl32_small [where k = 2], simp_all add: rne_def)
  subgoal by (simp only: mul32_def, subst fl32_small [where k = 1], simp_all add: rne_def)
  subgoal by (simp only: mul32_def, subst fl32_big [where k = 0], simp_all add: rne_def)
  subgoal by (simp only: mul32_def, subst fl32_big [where k = 2], simp_all add: rne_def)
  subgoal by (simp only: add32_def, subst fl32_big [where k = 1], simp_all add: rne_def)
  subgoal by (simp only: sub32_def, subst fl32_big [where k = 0], simp_all add: rne_def)
  subgoal by (simp only: div32_def, subst fl32_big [where k = 0], simp_all add: rne_def)
  subgoal by (simp only: add32_def, subst fl32_small [where k = 23], simp_all add: rne_def)
  subgoal by (simp add: mul32_def fl32_zero)
  subgoal by (simp add: mul32_def fl32_zero)
  subgoal by (simp add: sub32_def fl32_zero)
  subgoal by (simp only: div32_def, subst fl32_small [where k = 1], simp_all add: rne_def)
  subgoal by (simp only: add32_def, subst fl32_small [where k = 1], simp_all add: rne_def)
  done
lemma w_binary32_at_2: "w_binary32 2 = Inr (- (1 / 8388608))"
  by (simp add: w_binary32_def w_binary32_table)

lemma w_binary32_at_0: "w_binary32 0 = Inr (11184811 / 16777216)"
  by (simp add: w_binary32_def w_binary32_table)

lemma fl32_two_thirds: "fl32 (2 / 3) = 11184811 / 16777216"
  by (subst fl32_small [where k = 1]) (simp_all add: rne_def)

text \<open>
  C9, as amended. For every \<open>x\<close> with \<open>|x| \<le> 2\<close>: the kernel is even, in exact arithmetic
  and in binary32; \<open>w 0\<close> is \<open>2/3\<close>, in binary32 the binary32 number nearest to \<open>2/3\<close>;
  \<open>w (\<plusminus>2)\<close> is not zero: the binary32 evaluation of the source returns \<open>- 2\<^sup>-\<^sup>2\<^sup>3\<close>
  at both ends; \<open>dw\<close> is \<open>1.5 x\<^sup>2 - 2 x\<close> on \<open>[0, 1)\<close> and \<open>- 0.5 x\<^sup>2 + 2 x - 2\<close> on \<open>[1, 2]\<close>,
  it is odd, in exact arithmetic and in binary32, and it is the derivative of the kernel
  polynomials at every point of \<open>[-2, 2]\<close> (one-sided at the two ends, where the assertion
  of the source bounds the domain).
\<close>

theorem kernel_w_dw_properties:
  assumes "\<bar>x\<bar> \<le> 2"
  shows "w x = w (- x) \<and> w_binary32 x = w_binary32 (- x)
    \<and> w 0 = Inr (2 / 3) \<and> w_binary32 0 = Inr (fl32 (2 / 3))
    \<and> w_binary32 2 = Inr (- (1 / 2 ^ 23)) \<and> w_binary32 (- 2) = Inr (- (1 / 2 ^ 23))
    \<and> (0 \<le> x \<and> x < 1 \<longrightarrow> dw x = Inr (1.5 * x\<^sup>2 - 2 * x))
    \<and> (1 \<le> x \<and> x \<le> 2 \<longrightarrow> dw x = Inr (- 0.5 * x\<^sup>2 + 2 * x - 2))
    \<and> dw (- x) = map_sum id uminus (dw x)
    \<and> dw_binary32 (- x) = map_sum id uminus (dw_binary32 x)
    \<and> (\<exists>wx dx. w x = Inr wx \<and> dw x = Inr dx
          \<and> ((\<lambda>y. projr (w y)) has_real_derivative dx) (at x within {- 2..2}))"
proof -
  have "w 0 = Inr (2 / 3)"
    by (simp add: w_def)
  moreover have "w_binary32 0 = Inr (fl32 (2 / 3))"
    by (simp add: w_binary32_at_0 fl32_two_thirds)
  moreover have "w_binary32 2 = Inr (- (1 / 2 ^ 23))" "w_binary32 (- 2) = Inr (- (1 / 2 ^ 23))"
    using w_binary32_even [of 2] by (simp_all add: w_binary32_at_2)
  moreover have "\<exists>wx dx. w x = Inr wx \<and> dw x = Inr dx
          \<and> ((\<lambda>y. projr (w y)) has_real_derivative dx) (at x within {- 2..2})"
    using w_deriv_within [OF assms] w_eq_smooth [OF assms] dw_eq_smooth [OF assms] by simp
  ultimately show ?thesis
    using dw_piece1 [of x] dw_piece2 [of x]
    by (simp add: w_even dw_odd w_binary32_even dw_binary32_odd)
qed

text \<open>
  The properties at \<open>x = 1/2\<close> and \<open>x = 3/2\<close>: one point on each polynomial piece.
\<close>

theorem kernel_w_dw_properties_witness:
  "w (1 / 2) = w (- (1 / 2)) \<and> dw (1 / 2) = Inr (- (5 / 8))
    \<and> dw (3 / 2) = Inr (- (1 / 8)) \<and> dw (- (3 / 2)) = Inr (1 / 8)
    \<and> w_binary32 (1 / 2) = w_binary32 (- (1 / 2))
    \<and> ((\<lambda>y. projr (w y)) has_real_derivative - (5 / 8)) (at (1 / 2) within {- 2..2})"
proof -
  have h1: "\<bar>1 / 2 :: real\<bar> \<le> 2" and h2: "\<bar>3 / 2 :: real\<bar> \<le> 2" by simp_all
  have d1: "dw (1 / 2) = Inr (- (5 / 8))"
    using kernel_w_dw_properties [OF h1] by (simp add: power2_eq_square)
  have d2: "dw (3 / 2) = Inr (- (1 / 8))"
    using kernel_w_dw_properties [OF h2] by (simp add: power2_eq_square)
  have d3: "dw (- (3 / 2)) = Inr (1 / 8)"
    using kernel_w_dw_properties [OF h2] d2 by simp
  have "w (1 / 2) = w (- (1 / 2))" "w_binary32 (1 / 2) = w_binary32 (- (1 / 2))"
    using kernel_w_dw_properties [OF h1] by simp_all
  moreover have "((\<lambda>y. projr (w y)) has_real_derivative - (5 / 8)) (at (1 / 2) within {- 2..2})"
    using kernel_w_dw_properties [OF h1] d1 by auto
  ultimately show ?thesis using d1 d2 d3 by simp
qed

text \<open>
  The kernel at the two ends of its support, as the program computes it: \<open>- 2\<^sup>-\<^sup>2\<^sup>3\<close>, which
  is not zero.
\<close>

theorem kernel_w_at_2_counterexample:
  "w_binary32 2 = Inr (- (1 / 8388608)) \<and> w_binary32 (- 2) = Inr (- (1 / 8388608))
    \<and> w_binary32 2 \<noteq> Inr 0 \<and> w_binary32 (- 2) \<noteq> Inr 0"
  using w_binary32_even [of 2] by (simp add: w_binary32_at_2)

section \<open>Properties of the material models\<close>

subsection \<open>Determinants\<close>

lemma det_mmul: "det (mmul a b) = det a * det b"
  apply (cases a; cases b)
  apply (simp add: det_def mmul_def)
  apply (simp add: algebra_simps)
  done

lemma det_transpose3: "det (transpose3 a) = det a"
  apply (cases a)
  apply (simp add: det_def transpose3_def)
  apply (simp add: algebra_simps)
  done

lemma det_mat_scalar: "det (mat_scalar c) = c * c * c"
  by (simp add: det_def mat_scalar_def)

lemma det_diagonal: "is_diagonal a \<Longrightarrow> det a = m00 a * m11 a * m22 a"
  by (simp add: det_def is_diagonal_def)

lemma mmul_inverse3: "det a \<noteq> 0 \<Longrightarrow> mmul a (inverse3 a) = mat_scalar 1"
proof -
  assume nz: "det a \<noteq> 0"
  obtain a00 a01 a02 a10 a11 a12 a20 a21 a22 where
    a: "a = Matrix3 a00 a01 a02 a10 a11 a12 a20 a21 a22" by (cases a)
  define d where "d = det a"
  define r where "r = 1 / d"
  have d: "d = a00 * (a11 * a22 - a21 * a12) - a10 * (a01 * a22 - a21 * a02)
     + a20 * (a01 * a12 - a11 * a02)" by (simp add: d_def a det_def)
  have dr: "d * r = 1" using nz by (simp add: r_def d_def)
  have inv: "inverse3 a = Matrix3
       ((a11 * a22 - a21 * a12) * r)
       (- (a01 * a22 - a21 * a02) * r)
       ((a01 * a12 - a11 * a02) * r)
       (- (a10 * a22 - a20 * a12) * r)
       ((a00 * a22 - a20 * a02) * r)
       (- (a00 * a12 - a10 * a02) * r)
       ((a10 * a21 - a20 * a11) * r)
       (- (a00 * a21 - a20 * a01) * r)
       ((a00 * a11 - a10 * a01) * r)"
    unfolding inverse3_def Let_def d_def [symmetric] r_def [symmetric] by (simp add: a)
  have e00: "a00 * ((a11 * a22 - a21 * a12) * r) + a10 * (- (a01 * a22 - a21 * a02) * r)
      + a20 * ((a01 * a12 - a11 * a02) * r) = d * r"
    by (simp add: d algebra_simps)
  have e01: "a01 * ((a11 * a22 - a21 * a12) * r) + a11 * (- (a01 * a22 - a21 * a02) * r)
      + a21 * ((a01 * a12 - a11 * a02) * r) = 0"
    by (simp add: algebra_simps)
  have e02: "a02 * ((a11 * a22 - a21 * a12) * r) + a12 * (- (a01 * a22 - a21 * a02) * r)
      + a22 * ((a01 * a12 - a11 * a02) * r) = 0"
    by (simp add: algebra_simps)
  have e10: "a00 * (- (a10 * a22 - a20 * a12) * r) + a10 * ((a00 * a22 - a20 * a02) * r)
      + a20 * (- (a00 * a12 - a10 * a02) * r) = 0"
    by (simp add: algebra_simps)
  have e11: "a01 * (- (a10 * a22 - a20 * a12) * r) + a11 * ((a00 * a22 - a20 * a02) * r)
      + a21 * (- (a00 * a12 - a10 * a02) * r) = d * r"
    by (simp add: d algebra_simps)
  have e12: "a02 * (- (a10 * a22 - a20 * a12) * r) + a12 * ((a00 * a22 - a20 * a02) * r)
      + a22 * (- (a00 * a12 - a10 * a02) * r) = 0"
    by (simp add: algebra_simps)
  have e20: "a00 * ((a10 * a21 - a20 * a11) * r) + a10 * (- (a00 * a21 - a20 * a01) * r)
      + a20 * ((a00 * a11 - a10 * a01) * r) = 0"
    by (simp add: algebra_simps)
  have e21: "a01 * ((a10 * a21 - a20 * a11) * r) + a11 * (- (a00 * a21 - a20 * a01) * r)
      + a21 * ((a00 * a11 - a10 * a01) * r) = 0"
    by (simp add: algebra_simps)
  have e22: "a02 * ((a10 * a21 - a20 * a11) * r) + a12 * (- (a00 * a21 - a20 * a01) * r)
      + a22 * ((a00 * a11 - a10 * a01) * r) = d * r"
    by (simp add: d algebra_simps)
  show ?thesis
    unfolding inv unfolding a mmul_def mat_scalar_def
    using e00 e01 e02 e10 e11 e12 e20 e21 e22 dr by simp
qed

lemma det_inverse3: "det a \<noteq> 0 \<Longrightarrow> det (inverse3 a) = 1 / det a"
proof -
  assume nz: "det a \<noteq> 0"
  have "det a * det (inverse3 a) = 1"
    using det_mmul [of a "inverse3 a"] mmul_inverse3 [OF nz] by (simp add: det_mat_scalar)
  then show ?thesis using nz by (simp add: field_simps)
qed

lemma clamp_pos: "0 < lo \<Longrightarrow> 0 < hi \<Longrightarrow> 0 < clamp a lo hi"
  by (simp add: clamp_def)

lemma clamp_id: "lo \<le> a \<Longrightarrow> a \<le> hi \<Longrightarrow> clamp a lo hi = a"
  by (simp add: clamp_def)

lemma is_diagonal_clamp: "is_diagonal a \<Longrightarrow> is_diagonal (clamp_diagonal a lo hi)"
  by (simp add: is_diagonal_def clamp_diagonal_def)

lemma det_clamp_diagonal_pos:
  assumes "is_diagonal a" "0 < lo" "0 < hi"
  shows "0 < det (clamp_diagonal a lo hi)"
proof -
  have "det (clamp_diagonal a lo hi)
      = clamp (m00 a) lo hi * clamp (m11 a) lo hi * clamp (m22 a) lo hi"
    using assms(1) by (simp add: det_diagonal is_diagonal_clamp) (simp add: clamp_diagonal_def)
  then show ?thesis using assms by (simp add: clamp_pos)
qed

subsection \<open>The yield projection of the Drucker-Prager variant\<close>

lemma project_unfold:
  "project dp sigma a =
     (if frobenius_norm (deviator (log_diagonal sigma)) \<le> 0 \<or> trace (log_diagonal sigma) > 0
      then (mat_scalar 1, frobenius_norm (log_diagonal sigma))
      else if plastic_increment dp sigma a \<le> 0 then (sigma, 0)
      else (exp_diagonal (msub (log_diagonal sigma)
              (mscale (plastic_increment dp sigma a / frobenius_norm (deviator (log_diagonal sigma)))
                 (deviator (log_diagonal sigma)))),
            plastic_increment dp sigma a))"
  by (simp add: project_def Let_def plastic_increment_def frobenius_norm_def deviator_def
      log_diagonal_def trace_def exp_diagonal_def msub_def mscale_def mat_scalar_def)

text \<open>
  C6. \<open>project\<close> of the Drucker-Prager variant has exactly three branches over the logarithm
  of the singular values: (a) when the norm of the deviator is \<open>\<le> 0\<close> or the trace is positive,
  the result is the identity and the Frobenius norm of the logarithm; (b) otherwise, when the
  plastic increment is \<open>\<le> 0\<close>, the result is \<open>sigma\<close> unchanged and 0; (c) otherwise the scaled
  deviator is subtracted from the logarithm, the diagonal is exponentiated, and the plastic
  increment is returned.
\<close>

theorem project_three_branches:
  "(frobenius_norm (deviator (log_diagonal sigma)) \<le> 0 \<or> trace (log_diagonal sigma) > 0
      \<longrightarrow> project dp sigma a = (mat_scalar 1, frobenius_norm (log_diagonal sigma)))
   \<and> (\<not> (frobenius_norm (deviator (log_diagonal sigma)) \<le> 0 \<or> trace (log_diagonal sigma) > 0)
        \<and> plastic_increment dp sigma a \<le> 0
      \<longrightarrow> project dp sigma a = (sigma, 0))
   \<and> (\<not> (frobenius_norm (deviator (log_diagonal sigma)) \<le> 0 \<or> trace (log_diagonal sigma) > 0)
        \<and> \<not> plastic_increment dp sigma a \<le> 0
      \<longrightarrow> project dp sigma a =
           (exp_diagonal (msub (log_diagonal sigma)
              (mscale (plastic_increment dp sigma a / frobenius_norm (deviator (log_diagonal sigma)))
                 (deviator (log_diagonal sigma)))),
            plastic_increment dp sigma a))"
proof (intro conjI impI)
  assume "frobenius_norm (deviator (log_diagonal sigma)) \<le> 0 \<or> trace (log_diagonal sigma) > 0"
  then show "project dp sigma a = (mat_scalar 1, frobenius_norm (log_diagonal sigma))"
    by (simp only: project_unfold if_True)
next
  assume "\<not> (frobenius_norm (deviator (log_diagonal sigma)) \<le> 0
              \<or> trace (log_diagonal sigma) > 0)
          \<and> plastic_increment dp sigma a \<le> 0"
  then show "project dp sigma a = (sigma, 0)"
    by (simp only: project_unfold if_True if_False)
next
  assume "\<not> (frobenius_norm (deviator (log_diagonal sigma)) \<le> 0
              \<or> trace (log_diagonal sigma) > 0)
          \<and> \<not> plastic_increment dp sigma a \<le> 0"
  then show "project dp sigma a =
           (exp_diagonal (msub (log_diagonal sigma)
              (mscale (plastic_increment dp sigma a / frobenius_norm (deviator (log_diagonal sigma)))
                 (deviator (log_diagonal sigma)))),
            plastic_increment dp sigma a)"
    by (simp only: project_unfold if_False)
qed

lemma sigma_compressed_facts:
  "trace (log_diagonal sigma_compressed) = - 6"
  "frobenius_norm (deviator (log_diagonal sigma_compressed)) = sqrt 2"
  by (simp_all add: sigma_compressed_def log_diagonal_def trace_def deviator_def
      frobenius_norm_def msub_def mscale_def mat_scalar_def)

lemma sqrt2_bounds: "0 < sqrt 2" "sqrt 2 \<le> 2"
  by (simp_all add: real_le_lsqrt)

text \<open>
  One input for each branch: the identity (degenerate deviator), and principal stretches
  \<open>exp (-1)\<close>, \<open>exp (-2)\<close>, \<open>exp (-3)\<close> with slope 1 (no projection) and with slope 0 (projection).
\<close>

theorem project_three_branches_witness:
  "project DPParticle3_new (mat_scalar 1) 1 = (mat_scalar 1, 0)
   \<and> project DPParticle3_new sigma_compressed 1 = (sigma_compressed, 0)
   \<and> snd (project DPParticle3_new sigma_compressed 0) = sqrt 2"
proof -
  have a: "frobenius_norm (deviator (log_diagonal (mat_scalar 1))) \<le> 0"
    "frobenius_norm (log_diagonal (mat_scalar 1)) = 0"
    by (simp_all add: log_diagonal_def trace_def deviator_def
      frobenius_norm_def msub_def mscale_def mat_scalar_def)
  have b: "plastic_increment DPParticle3_new sigma_compressed 1 \<le> 0"
    using sqrt2_bounds
    by (simp add: plastic_increment_def sigma_compressed_facts DPParticle3_new_def)
  have c: "plastic_increment DPParticle3_new sigma_compressed 0 = sqrt 2"
    by (simp add: plastic_increment_def sigma_compressed_facts)
  have n: "\<not> (frobenius_norm (deviator (log_diagonal sigma_compressed)) \<le> 0
      \<or> trace (log_diagonal sigma_compressed) > 0)"
    using sqrt2_bounds by (simp add: sigma_compressed_facts)
  have "project DPParticle3_new (mat_scalar 1) 1 = (mat_scalar 1, 0)"
    using project_three_branches [of "mat_scalar 1" DPParticle3_new 1] a by simp
  moreover have "project DPParticle3_new sigma_compressed 1 = (sigma_compressed, 0)"
    using project_three_branches [of sigma_compressed DPParticle3_new 1] n b by blast
  moreover have "snd (project DPParticle3_new sigma_compressed 0) = sqrt 2"
    using project_three_branches [of sigma_compressed DPParticle3_new 0] n c sqrt2_bounds
    by simp
  ultimately show ?thesis by simp
qed

subsection \<open>Fatal exits and the elastoplastic projection\<close>

lemma calculate_force_trap:
  "calculate_force svd polar_decomp p = Inl e \<Longrightarrow> e = NegativeSingularValue"
  by (auto simp: calculate_force_def DP_calculate_force_def Let_def
      split: Material.splits prod.splits if_splits)

lemma plasticity_trap: "plasticity svd p = Inl e \<Longrightarrow> e = SVDError"
  by (auto simp: plasticity_def DP_plasticity_def Let_def
      split: Material.splits prod.splits if_splits)

text \<open>
  C8. For a Drucker-Prager particle, \<open>calculate_force\<close> ends in a fatal exit whenever the
  decomposition of \<open>dg_e\<close> yields a singular value that is not positive, and \<open>plasticity\<close>
  ends in a fatal exit whenever \<open>U \<Sigma> V\<^sup>T\<close> differs from \<open>dg_e\<close> by a Frobenius norm of at
  least \<open>10\<^sup>-\<^sup>4\<close>. Neither returns a particle: the result is \<open>Inl\<close>, directly, through
  the virtual call, and through the pass over the particles that makes the call, which ends
  in the same fatal exit.
\<close>

theorem DP_traps_are_fatal:
  assumes "material p = DP dp" and "svd (dg_e p) = (u, sig, sv)"
  shows "(m00 sig \<le> 0 \<or> m11 sig \<le> 0 \<or> m22 sig \<le> 0
            \<longrightarrow> DP_calculate_force svd dp p = Inl NegativeSingularValue
              \<and> calculate_force svd polar_decomp p = Inl NegativeSingularValue
              \<and> (p \<in> set (particles s)
                    \<longrightarrow> apply_deformation_force svd polar_decomp region dt s
                          = Inl NegativeSingularValue))
       \<and> (frobenius_norm (msub (mmul (mmul u sig) (transpose3 sv)) (dg_e p)) \<ge> 0.0001
            \<longrightarrow> DP_plasticity svd dp p = Inl SVDError
              \<and> plasticity svd p = Inl SVDError
              \<and> (p \<in> set ps \<longrightarrow> map_trap (plasticity svd) ps = Inl SVDError))"
proof (intro conjI impI)
  assume neg: "m00 sig \<le> 0 \<or> m11 sig \<le> 0 \<or> m22 sig \<le> 0"
  then show d: "DP_calculate_force svd dp p = Inl NegativeSingularValue"
    using assms(2) by (auto simp: DP_calculate_force_def Let_def)
  then show c: "calculate_force svd polar_decomp p = Inl NegativeSingularValue"
    using assms(1) by (simp add: calculate_force_def)
  assume "p \<in> set (particles s)"
  then have "map_trap (calculate_force svd polar_decomp) (particles s)
      = Inl NegativeSingularValue"
    using c by (rule map_trap_propagates) (rule calculate_force_trap)
  then show "apply_deformation_force svd polar_decomp region dt s = Inl NegativeSingularValue"
    by (simp add: apply_deformation_force_def)
next
  assume big: "frobenius_norm (msub (mmul (mmul u sig) (transpose3 sv)) (dg_e p)) \<ge> 0.0001"
  then show d: "DP_plasticity svd dp p = Inl SVDError"
    using assms(2) by (simp add: DP_plasticity_def Let_def split: prod.splits)
  then show c: "plasticity svd p = Inl SVDError"
    using assms(1) by (simp add: plasticity_def)
  assume "p \<in> set ps"
  then show "map_trap (plasticity svd) ps = Inl SVDError"
    using c by (rule map_trap_propagates) (rule plasticity_trap)
qed

text \<open>
  A sand particle with \<open>dg_e = 0\<close>, whose singular values are 0, and a decomposition that
  returns the identity for \<open>dg_e = 2\<close>: both passes end in the fatal exit.
\<close>

theorem DP_traps_are_fatal_witness:
  "apply_deformation_force svd_diagonal polar_diagonal region_single 1
       (state_example\<lparr>particles :=
          [(Particle_new (DP DPParticle3_new))\<lparr>dg_e := mat_scalar 0\<rparr>]\<rparr>)
     = Inl NegativeSingularValue
   \<and> map_trap (plasticity svd_unit) [(Particle_new (DP DPParticle3_new))\<lparr>dg_e := mat_scalar 2\<rparr>]
       = Inl SVDError"
proof -
  let ?p = "(Particle_new (DP DPParticle3_new))\<lparr>dg_e := mat_scalar 0\<rparr>"
  let ?p2 = "(Particle_new (DP DPParticle3_new))\<lparr>dg_e := mat_scalar 2\<rparr>"
  let ?s = "state_example\<lparr>particles := [?p]\<rparr>"
  have m: "material ?p = DP DPParticle3_new" "material ?p2 = DP DPParticle3_new"
    by (simp_all add: Particle_new_def)
  have s: "svd_diagonal (dg_e ?p) = (mat_scalar 1, mat_scalar 0, mat_scalar 1)"
    by (simp add: svd_diagonal_def)
  have s2: "svd_unit (dg_e ?p2) = (mat_scalar 1, mat_scalar 1, mat_scalar 1)"
    by (simp add: svd_unit_def)
  have neg: "m00 (mat_scalar 0) \<le> 0" by (simp add: mat_scalar_def)
  have "frobenius_norm (msub (mmul (mmul (mat_scalar 1) (mat_scalar 1))
           (transpose3 (mat_scalar 1))) (dg_e ?p2)) = sqrt 3"
    by (simp add: frobenius_norm_def msub_def mmul_def transpose3_def mat_scalar_def)
  moreover have "(0.0001 :: real) \<le> 1" by simp
  moreover have "1 \<le> sqrt 3" by simp
  ultimately have big: "frobenius_norm (msub (mmul (mmul (mat_scalar 1) (mat_scalar 1))
           (transpose3 (mat_scalar 1))) (dg_e ?p2)) \<ge> 0.0001"
    by (metis order_trans)
  have i: "?p \<in> set (particles ?s)" "?p2 \<in> set [?p2]" by simp_all
  show ?thesis
    using DP_traps_are_fatal [where p = ?p and dp = DPParticle3_new and svd = svd_diagonal
        and u = "mat_scalar 1" and sig = "mat_scalar 0" and sv = "mat_scalar 1"
        and polar_decomp = polar_diagonal and s = ?s and region = region_single and dt = 1]
      m(1) s neg i(1)
      DP_traps_are_fatal [where p = ?p2 and dp = DPParticle3_new and svd = svd_unit
        and u = "mat_scalar 1" and sig = "mat_scalar 1" and sv = "mat_scalar 1"
        and ps = "[?p2]"] m(2) s2 big i(2)
    by blast
qed

text \<open>
  C4. For an elastoplastic particle whose \<open>dg_e\<close> has all singular values inside
  \<open>[1 - theta_c, 1 + theta_s]\<close>, \<open>plasticity\<close> leaves \<open>dg_e\<close> unchanged. The singular values
  are those the decomposition returns, and the decomposition is exact: \<open>U \<Sigma> V\<^sup>T = dg_e\<close>.
\<close>

theorem EP_plasticity_feasible_unchanged:
  assumes "material p = EP ep" and "svd (dg_e p) = (u, sig, sv)"
    and "mmul (mmul u sig) (transpose3 sv) = dg_e p"
    and "1 - theta_c ep \<le> m00 sig" "m00 sig \<le> 1 + theta_s ep"
    and "1 - theta_c ep \<le> m11 sig" "m11 sig \<le> 1 + theta_s ep"
    and "1 - theta_c ep \<le> m22 sig" "m22 sig \<le> 1 + theta_s ep"
  shows "\<exists>p'. plasticity svd p = Inr p' \<and> dg_e p' = dg_e p"
proof -
  have "clamp_diagonal sig (1 - theta_c ep) (1 + theta_s ep) = sig"
    using assms(4-9) by (cases sig) (simp add: clamp_diagonal_def clamp_id)
  then have "dg_e (EP_plasticity svd ep p) = dg_e p"
    using assms(2,3) by (simp add: EP_plasticity_def Let_def split: prod.splits)
  then show ?thesis using assms(1) by (simp add: plasticity_def)
qed

text \<open>
  A snow particle with the default thresholds and principal stretches 1, 0.99 and 1.005.
\<close>

theorem EP_plasticity_feasible_unchanged_witness:
  "\<exists>p'. plasticity svd_diagonal
       ((Particle_new (EP EPParticle3_new))\<lparr>dg_e := Matrix3 1 0 0 0 0.99 0 0 0 1.005\<rparr>) = Inr p'
      \<and> dg_e p' = Matrix3 1 0 0 0 0.99 0 0 0 1.005"
proof -
  let ?m = "Matrix3 1 0 0 0 0.99 0 0 0 1.005"
  let ?p = "(Particle_new (EP EPParticle3_new))\<lparr>dg_e := ?m\<rparr>"
  have m: "material ?p = EP EPParticle3_new" by (simp add: Particle_new_def)
  have s: "svd_diagonal (dg_e ?p) = (mat_scalar 1, ?m, mat_scalar 1)"
    by (simp add: svd_diagonal_def)
  have r: "mmul (mmul (mat_scalar 1) ?m) (transpose3 (mat_scalar 1)) = dg_e ?p"
    by (simp add: mmul_def transpose3_def mat_scalar_def)
  show ?thesis
    using EP_plasticity_feasible_unchanged [where p = ?p and ep = EPParticle3_new
        and svd = svd_diagonal and u = "mat_scalar 1" and sig = ?m and sv = "mat_scalar 1"] m s r
    by (simp add: EPParticle3_new_def)
qed

subsection \<open>Determinants after plasticity\<close>

lemma det_sandwich:
  "det (mmul (mmul u s) (transpose3 sv)) = (det u * det sv) * det s"
  by (simp add: det_mmul det_transpose3)

lemma EP_plasticity_dg_e:
  assumes "svd (dg_e p) = (u, sig, sv)"
  shows "dg_e (EP_plasticity svd ep p)
     = mmul (mmul u (clamp_diagonal sig (1 - theta_c ep) (1 + theta_s ep))) (transpose3 sv)"
  using assms by (simp add: EP_plasticity_def Let_def split: prod.splits)

lemma EP_plasticity_dg_p:
  assumes "svd (mmul (inverse3 (dg_e (EP_plasticity svd ep p))) (dg_cache p)) = (ub, sigb, svb)"
  shows "dg_p (EP_plasticity svd ep p)
     = mmul (mmul ub (clamp_diagonal sigb 0.1 10)) (transpose3 svb)"
proof -
  obtain u sig sv where s: "svd (dg_e p) = (u, sig, sv)" by (cases "svd (dg_e p)")
  show ?thesis
    using assms s by (simp add: EP_plasticity_def Let_def split: prod.splits)
qed

text \<open>
  The singular values of a matrix with a positive determinant are positive, and its two
  factors are both rotations or both reflections.
\<close>

lemma svd_proper_positive:
  assumes "svd_proper svd m" and "svd m = (u, sig, sv)" and "0 < det m"
  shows "is_diagonal sig \<and> 0 < m00 sig \<and> 0 < m11 sig \<and> 0 < m22 sig \<and> 0 < det u * det sv"
proof -
  have d: "is_diagonal sig" and n: "0 \<le> m00 sig" "0 \<le> m11 sig" "0 \<le> m22 sig"
    and r: "mmul (mmul u sig) (transpose3 sv) = m" and g: "0 < det u * det sv"
    using assms(1,2) by (simp_all add: svd_proper_def)
  have "det m = (det u * det sv) * (m00 sig * m11 sig * m22 sig)"
    using r det_sandwich [of u sig sv] d by (simp add: det_diagonal)
  with assms(3) have "m00 sig * m11 sig * m22 sig \<noteq> 0" by auto
  hence "m00 sig \<noteq> 0" "m11 sig \<noteq> 0" "m22 sig \<noteq> 0" by auto
  with n d g show ?thesis by simp
qed

text \<open>
  A positive number clamped into an interval with a positive upper end is positive: below
  the interval it becomes the lower end, which is then greater than a positive number.
\<close>

lemma clamp_positive: "0 < a \<Longrightarrow> 0 < hi \<Longrightarrow> 0 < clamp a lo hi"
  by (simp add: clamp_def)

lemma det_clamp_diagonal_positive:
  assumes "is_diagonal a" "0 < m00 a" "0 < m11 a" "0 < m22 a" "0 < hi"
  shows "0 < det (clamp_diagonal a lo hi)"
proof -
  have "det (clamp_diagonal a lo hi)
      = clamp (m00 a) lo hi * clamp (m11 a) lo hi * clamp (m22 a) lo hi"
    using is_diagonal_clamp [OF assms(1), of lo hi]
    by (simp add: det_diagonal) (simp add: clamp_diagonal_def)
  thus ?thesis using assms(2-5) by (simp add: clamp_positive)
qed

lemma EP_plasticity_det:
  assumes "svd_proper svd (dg_e p)" and "0 < det (dg_e p)"
    and "svd_proper svd (mmul (inverse3 (dg_e (EP_plasticity svd ep p))) (dg_cache p))"
    and "- 1 < theta_s ep"
  shows "0 < det (dg_e (EP_plasticity svd ep p)) \<and> 0 < det (dg_p (EP_plasticity svd ep p))"
proof -
  obtain u sig sv where s: "svd (dg_e p) = (u, sig, sv)" by (cases "svd (dg_e p)")
  obtain u2 sig2 sv2 where
    s2: "svd (mmul (inverse3 (dg_e (EP_plasticity svd ep p))) (dg_cache p)) = (u2, sig2, sv2)"
    by (cases "svd (mmul (inverse3 (dg_e (EP_plasticity svd ep p))) (dg_cache p))")
  have g: "is_diagonal sig" "0 < m00 sig" "0 < m11 sig" "0 < m22 sig" "0 < det u * det sv"
    using svd_proper_positive [OF assms(1) s assms(2)] by simp_all
  have g2: "is_diagonal sig2" "0 < det u2 * det sv2"
    using assms(3) s2 by (simp_all add: svd_proper_def)
  have "0 < det (clamp_diagonal sig (1 - theta_c ep) (1 + theta_s ep))"
    using g(1-4) assms(4) by (intro det_clamp_diagonal_positive) simp_all
  then have "0 < det (dg_e (EP_plasticity svd ep p))"
    unfolding EP_plasticity_dg_e [where svd = svd and p = p, OF s] det_sandwich using g(5) by simp
  moreover have "0 < det (clamp_diagonal sig2 0.1 10)"
    using g2(1) by (intro det_clamp_diagonal_pos) simp_all
  then have "0 < det (dg_p (EP_plasticity svd ep p))"
    unfolding EP_plasticity_dg_p [where svd = svd and p = p, OF s2] det_sandwich using g2(2) by simp
  ultimately show ?thesis by simp
qed

lemma project_det_pos:
  assumes "is_diagonal sig" "0 < m00 sig" "0 < m11 sig" "0 < m22 sig"
  shows "0 < det (fst (project dp sig a))"
proof -
  have "0 < det sig" using assms by (simp add: det_diagonal)
  moreover have "0 < det (exp_diagonal h)" for h
    by (simp add: det_def exp_diagonal_def)
  ultimately show ?thesis
    by (simp add: project_unfold det_mat_scalar)
qed

lemma DP_plasticity_det:
  assumes "DP_plasticity svd dp p = Inr p'"
    and "svd_proper svd (dg_e p)" and "0 < det (dg_e p)" and "0 < det (dg_p p)"
  shows "0 < det (dg_e p') \<and> 0 < det (dg_p p')"
proof -
  obtain u sig sv where s: "svd (dg_e p) = (u, sig, sv)" by (cases "svd (dg_e p)")
  obtain t dq where pr: "project dp sig (alpha dp) = (t, dq)"
    by (cases "project dp sig (alpha dp)")
  have g: "is_diagonal sig" "0 < det u * det sv"
    and pos: "0 < m00 sig" "0 < m11 sig" "0 < m22 sig"
    using svd_proper_positive [OF assms(2) s assms(3)] by simp_all
  have dt: "0 < det t" using project_det_pos [OF g(1) pos, of dp "alpha dp"] pr by simp
  have ds: "0 < det sig" using g(1) pos by (simp add: det_diagonal)
  have e: "dg_e p' = mmul (mmul u t) (transpose3 sv)"
    and pp: "dg_p p' = mmul (mmul (mmul (mmul sv (inverse3 t)) sig) (transpose3 sv)) (dg_p p)"
    using assms(1) s pr by (auto simp: DP_plasticity_def Let_def split: if_splits)
  have "0 < det (dg_e p')"
    unfolding e det_sandwich using g(2) dt by simp
  moreover have "det (dg_p p') = (det sv * det sv) * (det sig / det t) * det (dg_p p)"
    unfolding pp using dt by (simp add: det_mmul det_transpose3 det_inverse3)
  moreover have "0 < det sv * det sv"
    using g(2) by (metis mult_eq_0_iff not_real_square_gt_zero)
  ultimately show ?thesis using ds dt assms(4) by simp
qed

text \<open>
  C5, as amended. For both material variants \<open>plasticity\<close> keeps \<open>det dg_e\<close> and \<open>det dg_p\<close>
  strictly positive: when both are strictly positive before the call and the decompositions
  the call makes are singular value decompositions with proper factors, both are strictly
  positive when it returns; for the elastoplastic variant provided the upper end
  \<open>1 + theta_s\<close> of the yield interval is positive.
\<close>

theorem plasticity_determinants_positive:
  assumes "plasticity svd p = Inr p'"
    and "0 < det (dg_e p)" and "0 < det (dg_p p)"
    and "svd_proper svd (dg_e p)"
    and "\<forall>ep. material p = EP ep \<longrightarrow> - 1 < theta_s ep
           \<and> svd_proper svd (mmul (inverse3 (dg_e p')) (dg_cache p))"
  shows "0 < det (dg_e p') \<and> 0 < det (dg_p p')"
proof (cases "material p")
  case (EP ep)
  then have p': "p' = EP_plasticity svd ep p"
    using assms(1) by (simp add: plasticity_def)
  show ?thesis
    unfolding p' using assms(2,4,5) EP p' by (intro EP_plasticity_det) auto
next
  case (DP dp)
  then have "DP_plasticity svd dp p = Inr p'"
    using assms(1) by (simp add: plasticity_def)
  then show ?thesis
    using assms(2,3,4) by (intro DP_plasticity_det [where dp = dp and p = p and svd = svd]) auto
qed

lemma inverse3_one: "inverse3 (mat_scalar 1) = mat_scalar 1"
  by (simp add: inverse3_def det_def mat_scalar_def)

lemma mmul_one: "mmul (mat_scalar 1) a = a" "mmul a (mat_scalar 1) = a"
  by (cases a; simp add: mmul_def mat_scalar_def)+

lemma transpose3_one: "transpose3 (mat_scalar c) = mat_scalar c"
  by (simp add: transpose3_def mat_scalar_def)

lemma project_one: "project dp (mat_scalar 1) a = (mat_scalar 1, 0)"
  by (simp add: project_def Let_def mat_scalar_def msub_def mscale_def)

lemma frobenius_norm_msub_self: "frobenius_norm (msub a a) = 0"
  by (simp add: frobenius_norm_def msub_def)

lemma svd_proper_diagonal:
  assumes "is_diagonal m" "0 \<le> m00 m" "0 \<le> m11 m" "0 \<le> m22 m"
  shows "svd_proper svd_diagonal m"
  using assms
  by (simp add: svd_proper_def svd_diagonal_def mmul_one transpose3_one det_mat_scalar)

text \<open>
  The stretched snow particle: both clamps act. The singular values 20 and 1/2 of \<open>dg_e\<close>
  become the ends 1.0075 and 0.975 of the yield interval, and the first singular value of
  \<open>dg_p\<close>, about 19.85, becomes 10.
\<close>

lemma EP_plasticity_stretched:
  "dg_e (EP_plasticity svd_diagonal EPParticle3_new particle_stretched)
     = Matrix3 (403 / 400) 0 0 0 1 0 0 0 (39 / 40)"
  "mmul (inverse3 (dg_e (EP_plasticity svd_diagonal EPParticle3_new particle_stretched)))
        (dg_cache particle_stretched)
     = Matrix3 (8000 / 403) 0 0 0 1 0 0 0 (20 / 39)"
  "dg_p (EP_plasticity svd_diagonal EPParticle3_new particle_stretched)
     = Matrix3 10 0 0 0 1 0 0 0 (20 / 39)"
proof -
  let ?p = "particle_stretched"
  let ?p' = "EP_plasticity svd_diagonal EPParticle3_new ?p"
  have f: "dg_e ?p = Matrix3 20 0 0 0 1 0 0 0 (1 / 2)"
    "dg_cache ?p = Matrix3 20 0 0 0 1 0 0 0 (1 / 2)"
    by (simp_all add: particle_stretched_def Particle_new_def)
  have c: "clamp_diagonal (Matrix3 20 0 0 0 1 0 0 0 (1 / 2)) (1 - theta_c EPParticle3_new)
      (1 + theta_s EPParticle3_new) = Matrix3 (403 / 400) 0 0 0 1 0 0 0 (39 / 40)"
    by (simp add: clamp_diagonal_def clamp_def EPParticle3_new_def)
  show e: "dg_e ?p' = Matrix3 (403 / 400) 0 0 0 1 0 0 0 (39 / 40)"
    using EP_plasticity_dg_e [where svd = svd_diagonal and p = ?p and u = "mat_scalar 1"
        and sig = "dg_e ?p" and sv = "mat_scalar 1" and ep = EPParticle3_new]
    by (simp add: svd_diagonal_def f c mmul_one transpose3_one)
  have i: "inverse3 (Matrix3 (403 / 400) 0 0 0 1 0 0 0 (39 / 40))
      = Matrix3 (400 / 403) 0 0 0 1 0 0 0 (40 / 39)"
    by (simp add: inverse3_def det_def Let_def)
  show m: "mmul (inverse3 (dg_e ?p')) (dg_cache ?p) = Matrix3 (8000 / 403) 0 0 0 1 0 0 0 (20 / 39)"
    unfolding e i f by (simp add: mmul_def)
  have c2: "clamp_diagonal (Matrix3 (8000 / 403) 0 0 0 1 0 0 0 (20 / 39)) 0.1 10
      = Matrix3 10 0 0 0 1 0 0 0 (20 / 39)"
    by (simp add: clamp_diagonal_def clamp_def)
  show "dg_p ?p' = Matrix3 10 0 0 0 1 0 0 0 (20 / 39)"
    using EP_plasticity_dg_p [where svd = svd_diagonal and p = ?p and ub = "mat_scalar 1"
        and sigb = "Matrix3 (8000 / 403) 0 0 0 1 0 0 0 (20 / 39)" and svb = "mat_scalar 1"
        and ep = EPParticle3_new]
    by (simp add: svd_diagonal_def m c2 mmul_one transpose3_one)
qed

text \<open>
  The expanded sand particle: the trace of the logarithms is positive, and the projection
  replaces the singular values 2 by 1.
\<close>

lemma project_expanded:
  "project dp (mat_scalar 2) a = (mat_scalar 1, sqrt (ln 2 * ln 2 + ln 2 * ln 2 + ln 2 * ln 2))"
  by (simp add: project_def Let_def mat_scalar_def)

lemma DP_plasticity_expanded:
  "\<exists>p'. DP_plasticity svd_diagonal DPParticle3_new particle_expanded = Inr p'
     \<and> dg_e p' = mat_scalar 1 \<and> dg_p p' = mat_scalar 2"
proof -
  have e: "dg_e particle_expanded = mat_scalar 2" "dg_p particle_expanded = mat_scalar 1"
    by (simp_all add: particle_expanded_def Particle_new_def)
  show ?thesis
    by (simp add: DP_plasticity_def svd_diagonal_def e project_expanded Let_def mmul_one
        transpose3_one inverse3_one frobenius_norm_msub_self)
qed

theorem plasticity_determinants_positive_witness:
  "dg_e (EP_plasticity svd_diagonal EPParticle3_new particle_stretched)
     = Matrix3 (403 / 400) 0 0 0 1 0 0 0 (39 / 40)
   \<and> dg_p (EP_plasticity svd_diagonal EPParticle3_new particle_stretched)
     = Matrix3 10 0 0 0 1 0 0 0 (20 / 39)
   \<and> 0 < det (dg_e (EP_plasticity svd_diagonal EPParticle3_new particle_stretched))
   \<and> 0 < det (dg_p (EP_plasticity svd_diagonal EPParticle3_new particle_stretched))
   \<and> (\<exists>p'. plasticity svd_diagonal particle_expanded = Inr p'
          \<and> dg_e p' = mat_scalar 1 \<and> dg_p p' = mat_scalar 2
          \<and> 0 < det (dg_e p') \<and> 0 < det (dg_p p'))"
proof -
  let ?pe = "particle_stretched"
  let ?pd = "particle_expanded"
  let ?pe' = "EP_plasticity svd_diagonal EPParticle3_new ?pe"
  have fe: "dg_e ?pe = Matrix3 20 0 0 0 1 0 0 0 (1 / 2)"
    "dg_cache ?pe = Matrix3 20 0 0 0 1 0 0 0 (1 / 2)" "dg_p ?pe = mat_scalar 1"
    "material ?pe = EP EPParticle3_new"
    by (simp_all add: particle_stretched_def Particle_new_def)
  have fd: "dg_e ?pd = mat_scalar 2" "dg_p ?pd = mat_scalar 1"
    "material ?pd = DP DPParticle3_new"
    by (simp_all add: particle_expanded_def Particle_new_def)
  have e1: "plasticity svd_diagonal ?pe = Inr ?pe'"
    by (simp add: plasticity_def fe)
  have a2: "0 < det (dg_e ?pe)" and a3: "0 < det (dg_p ?pe)"
    by (simp_all add: fe det_def mat_scalar_def)
  have a4: "svd_proper svd_diagonal (dg_e ?pe)"
    by (rule svd_proper_diagonal) (simp_all add: fe is_diagonal_def)
  have m: "mmul (inverse3 (dg_e ?pe')) (dg_cache ?pe) = Matrix3 (8000 / 403) 0 0 0 1 0 0 0 (20 / 39)"
    by (rule EP_plasticity_stretched(2))
  have a5: "\<forall>ep. material ?pe = EP ep \<longrightarrow> - 1 < theta_s ep
           \<and> svd_proper svd_diagonal (mmul (inverse3 (dg_e ?pe')) (dg_cache ?pe))"
    unfolding m
    by (simp add: fe svd_proper_diagonal is_diagonal_def) (simp add: EPParticle3_new_def)
  have EPres: "0 < det (dg_e ?pe') \<and> 0 < det (dg_p ?pe')"
    using plasticity_determinants_positive [OF e1 a2 a3 a4 a5] .
  obtain p' where d1: "plasticity svd_diagonal ?pd = Inr p'"
    and d2: "dg_e p' = mat_scalar 1" "dg_p p' = mat_scalar 2"
    using DP_plasticity_expanded by (auto simp: plasticity_def fd)
  have b2: "0 < det (dg_e ?pd)" and b3: "0 < det (dg_p ?pd)"
    by (simp_all add: fd det_mat_scalar)
  have b4: "svd_proper svd_diagonal (dg_e ?pd)"
    by (rule svd_proper_diagonal) (simp_all add: fd is_diagonal_def mat_scalar_def)
  have b5: "\<forall>ep. material ?pd = EP ep \<longrightarrow> - 1 < theta_s ep
           \<and> svd_proper svd_diagonal (mmul (inverse3 (dg_e p')) (dg_cache ?pd))"
    by (simp add: fd)
  have "0 < det (dg_e p') \<and> 0 < det (dg_p p')"
    using plasticity_determinants_positive [OF d1 b2 b3 b4 b5] .
  with d1 d2 EPres show ?thesis by (simp add: EP_plasticity_stretched)
qed

text \<open>
  Without the condition on \<open>theta_s\<close> positivity is lost. A snow particle is initialised
  from a configuration with \<open>theta_c = 3\<close> and \<open>theta_s = - 2\<close>, the yield interval
  \<open>[- 2, - 1]\<close>. It is at rest: \<open>dg_e\<close> and \<open>dg_p\<close> are the identity, both determinants are 1,
  and the decomposition of the identity is proper. \<open>plasticity\<close> clamps the three singular
  values 1 to \<open>- 1\<close> and returns with \<open>det dg_e = - 1\<close> and \<open>det dg_p = - 1\<close>.
\<close>

theorem plasticity_determinant_counterexample:
  "det (dg_e (EP_initialize config_negative_yield EPParticle3_new
                (Particle_new (EP EPParticle3_new)))) = 1
   \<and> det (dg_p (EP_initialize config_negative_yield EPParticle3_new
                (Particle_new (EP EPParticle3_new)))) = 1
   \<and> svd_proper svd_diagonal_signed
        (dg_e (EP_initialize config_negative_yield EPParticle3_new
                (Particle_new (EP EPParticle3_new))))
   \<and> map_sum id (\<lambda>p'. (det (dg_e p'), det (dg_p p')))
        (plasticity svd_diagonal_signed
           (EP_initialize config_negative_yield EPParticle3_new
              (Particle_new (EP EPParticle3_new))))
      = Inr (- 1, - 1)"
proof -
  let ?p = "EP_initialize config_negative_yield EPParticle3_new
              (Particle_new (EP EPParticle3_new))"
  have c: "get_real config_negative_yield ''compression'' 1 = 1"
    "get_real config_negative_yield ''theta_c'' a = 3"
    "get_real config_negative_yield ''theta_s'' a = - 2" for a
    by (simp_all add: get_real_def config_negative_yield_def)
  have f: "dg_e ?p = mat_scalar 1" "dg_p ?p = mat_scalar 1" "dg_cache ?p = mat_scalar 1"
    by (simp_all add: EP_initialize_def Let_def Particle_new_def c)
  obtain ep where m: "material ?p = EP ep" "theta_c ep = 3" "theta_s ep = - 2"
    by (simp add: EP_initialize_def Let_def c)
  have s1: "svd_diagonal_signed (mat_scalar 1) = (mat_scalar 1, mat_scalar 1, mat_scalar 1)"
    and s2: "svd_diagonal_signed (mat_scalar (- 1))
      = (mat_scalar (- 1), mat_scalar 1, mat_scalar 1)"
    by (simp_all add: svd_diagonal_signed_def mat_scalar_def)
  have cl: "clamp_diagonal (mat_scalar 1) (- 2) (- 1) = mat_scalar (- 1)"
    "clamp_diagonal (mat_scalar 1) (1 / 10) 10 = mat_scalar 1"
    by (simp_all add: clamp_diagonal_def clamp_def mat_scalar_def)
  have i: "inverse3 (mat_scalar (- 1)) = mat_scalar (- 1)"
    by (simp add: inverse3_def det_def mat_scalar_def Let_def)
  have "svd_proper svd_diagonal_signed (dg_e ?p)"
    by (simp add: f svd_proper_def s1 mmul_one transpose3_one det_mat_scalar)
       (simp add: is_diagonal_def mat_scalar_def)
  moreover have "EP_plasticity svd_diagonal_signed ep ?p
      = ?p\<lparr>dg_e := mat_scalar (- 1), dg_p := mat_scalar (- 1)\<rparr>"
    by (simp add: EP_plasticity_def Let_def f m s1 s2 cl i mmul_one transpose3_one)
  ultimately show ?thesis
    by (simp add: plasticity_def m f det_mat_scalar)
qed

section \<open>Particle creation\<close>

lemma fold_invariant:
  assumes "\<And>a st. P st \<Longrightarrow> P (f a st)" and "P st"
  shows "P (fold f xs st)"
  using assms(2) by (induction xs arbitrary: st) (simp_all add: assms(1))

lemma replicate_snoc_one: "replicate n a @ [a] = replicate (Suc n) a"
  by (simp add: replicate_append_same)

lemma create_particle_unit_mass:
  assumes "unit_mass_extension s0 st"
  shows "unit_mass_extension s0 (create_particle config rnd fresh i j k st)"
proof -
  obtain s c where st: "st = (s, c)" by (cases st)
  from assms st obtain new where
    n: "particles s = particles s0 @ new" "map mass new = replicate (length new) 1"
    and r: "res s = res s0"
    by (auto simp: unit_mass_extension_def)
  obtain p where
    p: "create_particle config rnd fresh i j k st = (s\<lparr>particles := particles s @ [p]\<rparr>, c + 3)"
      "mass p = 1"
    by (simp add: create_particle_def st Let_def)
  have "particles s @ [p] = particles s0 @ (new @ [p])" using n(1) by simp
  moreover have "map mass (new @ [p]) = replicate (length (new @ [p])) 1"
    using n(2) p(2) by (simp add: replicate_snoc_one)
  ultimately show ?thesis
    unfolding p(1) unit_mass_extension_def using r by (intro conjI exI [of _ "new @ [p]"]) simp_all
qed

lemma add_particles_cell_unit_mass:
  assumes "unit_mass_extension s0 st"
  shows "unit_mass_extension s0 (add_particles_cell config density rnd fresh i j k st)"
proof -
  obtain s c where st: "st = (s, c)" by (cases st)
  have "unit_mass_extension s0 (s, c + 1)"
    using assms st by (simp add: unit_mass_extension_def)
  then have "unit_mass_extension s0
      (fold (\<lambda>l. create_particle config rnd fresh i j k) xs (s, c + 1))" for xs :: "int list"
    by (rule fold_invariant [where P = "unit_mass_extension s0", rotated])
       (rule create_particle_unit_mass)
  then show ?thesis
    by (simp add: add_particles_cell_def st Let_def split: prod.splits)
qed

lemma add_particles_unit_mass_extension:
  assumes "unit_mass_extension s0 st"
  shows "unit_mass_extension s0 (add_particles config density rnd fresh st)"
proof -
  have k: "unit_mass_extension s0
      (fold (\<lambda>k. add_particles_cell config density rnd fresh i j k) ks st')"
    if "unit_mass_extension s0 st'" for i j ks st'
    using that
    by (rule fold_invariant [where P = "unit_mass_extension s0", rotated])
       (rule add_particles_cell_unit_mass)
  have j: "unit_mass_extension s0
      (fold (\<lambda>j. fold (\<lambda>k. add_particles_cell config density rnd fresh i j k) ks) js st')"
    if "unit_mass_extension s0 st'" for i js ks st'
    using that
    by (rule fold_invariant [where P = "unit_mass_extension s0", rotated]) (rule k)
  have "unit_mass_extension s0
      (fold (\<lambda>i. fold (\<lambda>j. fold (\<lambda>k. add_particles_cell config density rnd fresh i j k) ks) js)
         ixs st)" for ixs js ks
    using assms
    by (rule fold_invariant [where P = "unit_mass_extension s0", rotated]) (rule j)
  then show ?thesis
    by (simp add: add_particles_def Let_def split: prod.splits)
qed

text \<open>
  C10. Whatever the configuration, the density, the random draws and the state, the
  particles \<open>add_particles\<close> creates are appended to the collection and each has mass 1, so
  their total mass is their number; starting from an empty collection, the total mass of the
  collection is its size. Both material variants go through the same assignment.
\<close>

theorem add_particles_mass_one:
  "(\<exists>new. particles (fst (add_particles config density rnd fresh (s, c))) = particles s @ new
      \<and> map mass new = replicate (length new) 1
      \<and> sum_list (map mass new) = real (length new))
   \<and> (particles s = [] \<longrightarrow>
        sum_list (map mass (particles (fst (add_particles config density rnd fresh (s, c)))))
          = real (length (particles (fst (add_particles config density rnd fresh (s, c))))))"
proof -
  have "unit_mass_extension s (s, c)" by (simp add: unit_mass_extension_def)
  then have "unit_mass_extension s (add_particles config density rnd fresh (s, c))"
    by (rule add_particles_unit_mass_extension)
  then obtain new where
    n: "particles (fst (add_particles config density rnd fresh (s, c))) = particles s @ new"
      "map mass new = replicate (length new) 1"
    by (auto simp: unit_mass_extension_def)
  have t: "sum_list (map mass new) = real (length new)"
    unfolding n(2) by (simp add: sum_list_replicate)
  have "sum_list (map mass (particles (fst (add_particles config density rnd fresh (s, c)))))
          = real (length (particles (fst (add_particles config density rnd fresh (s, c)))))"
    if "particles s = []"
    using that n(1) t by simp
  with n t show ?thesis by blast
qed

lemma upto_0_0: "[0..0::int] = [0]" "[0..1::int] = [0, 1]"
  by (simp_all add: upto.simps)

lemma add_particles_example:
  "map mass (particles (fst (add_particles Map.empty (\<lambda>_. 2) (\<lambda>_. 1 / 2)
      (Particle_new (EP EPParticle3_new)) (state_example, 0)))) = [1, 1]"
  by (simp add: add_particles_def state_example_def add_particles_cell_def trunc_int_def
      upto_0_0 create_particle_def Let_def get_string_def EP_initialize_def)

text \<open>
  An empty simulation on one cell of density 2: two particles are created, each of mass 1.
\<close>

theorem add_particles_mass_one_witness:
  "map mass (particles (fst (add_particles Map.empty (\<lambda>_. 2) (\<lambda>_. 1 / 2)
      (Particle_new (EP EPParticle3_new)) (state_example, 0)))) = [1, 1]
   \<and> sum_list (map mass (particles (fst (add_particles Map.empty (\<lambda>_. 2) (\<lambda>_. 1 / 2)
      (Particle_new (EP EPParticle3_new)) (state_example, 0))))) = 2"
proof -
  have e: "particles state_example = []" by (simp add: state_example_def)
  have l: "map mass (particles (fst (add_particles Map.empty (\<lambda>_. 2) (\<lambda>_. 1 / 2)
      (Particle_new (EP EPParticle3_new)) (state_example, 0)))) = [1, 1]"
    by (rule add_particles_example)
  then have "length (particles (fst (add_particles Map.empty (\<lambda>_. 2) (\<lambda>_. 1 / 2)
      (Particle_new (EP EPParticle3_new)) (state_example, 0)))) = 2"
    by (metis length_map length_Cons list.size(3) One_nat_def Suc_1)
  moreover have "sum_list (map mass (particles (fst (add_particles Map.empty (\<lambda>_. 2)
      (\<lambda>_. 1 / 2) (Particle_new (EP EPParticle3_new)) (state_example, 0)))))
    = real (length (particles (fst (add_particles Map.empty (\<lambda>_. 2) (\<lambda>_. 1 / 2)
      (Particle_new (EP EPParticle3_new)) (state_example, 0)))))"
    using add_particles_mass_one [of Map.empty "\<lambda>_. 2" "\<lambda>_. 1 / 2"
        "Particle_new (EP EPParticle3_new)" state_example 0] e
    by blast
  ultimately show ?thesis using l by (simp only: of_nat_numeral simp_thms)
qed

section \<open>The transfer engine\<close>

subsection \<open>Resampling\<close>

lemma vadd_assoc: "vadd (vadd a b) c = vadd a (vadd b c)"
  by (simp add: vadd_def)

lemma vadd_zero [simp]: "vadd a (vec_scalar 0) = a" "vadd (vec_scalar 0) a = a"
  by (simp_all add: vadd_def vec_scalar_def)

lemma vscale_simps [simp]: "vscale 0 a = vec_scalar 0" "vscale 1 a = a"
  by (simp_all add: vscale_def vec_scalar_def)

lemma resample_cell_acc:
  assumes "fold_trap (resample_cell s p) cells a = Inr a'"
  shows "acc_v a' = vadd (acc_v a)
           (vsum (map (\<lambda>ind. vscale (projr (w_vec (vsub (pos p) (index_pos ind))))
                               (grid_velocity s ind)) cells))
       \<and> acc_bv a' = vadd (acc_bv a)
           (vsum (map (\<lambda>ind. vscale (projr (w_vec (vsub (pos p) (index_pos ind))))
                               (grid_velocity_backup s ind)) cells))
       \<and> acc_count a' = acc_count a + int (length cells)"
  using assms
proof (induction cells arbitrary: a)
  case Nil
  then show ?case by simp
next
  case (Cons ind cells)
  from Cons.prems obtain a1 where
    a1: "resample_cell s p ind a = Inr a1" "fold_trap (resample_cell s p) cells a1 = Inr a'"
    by (auto simp: bind_trap_Inr_iff)
  from a1(1) obtain weight where
    w: "w_vec (vsub (pos p) (index_pos ind)) = Inr weight"
    and v1: "acc_v a1 = vadd (acc_v a) (vscale weight (grid_velocity s ind))"
    and b1: "acc_bv a1 = vadd (acc_bv a) (vscale weight (grid_velocity_backup s ind))"
    and c1: "acc_count a1 = acc_count a + 1"
    by (auto simp: resample_cell_def Let_def bind_trap_Inr_iff)
  show ?case
    using Cons.IH [OF a1(2)] by (simp add: v1 b1 c1 w vadd_assoc)
qed

lemma resample_particle_result:
  assumes "resample_particle region dt s p = Inr p'"
  shows "(length (region (pos p)) \<noteq> 64 \<or> \<not> apic s \<longrightarrow> apic_b p' = mat_scalar 0)
     \<and> (apic s \<longrightarrow> v p' = interpolate region (grid_velocity s) (pos p))
     \<and> (\<not> apic s \<longrightarrow> v p' = vadd (v p)
           (vsub (interpolate region (grid_velocity s) (pos p))
                 (interpolate region (grid_velocity_backup s) (pos p))))"
proof -
  from assms obtain a where
    a: "fold_trap (resample_cell s p) (region (pos p))
           \<lparr> acc_v = vec_scalar 0, acc_bv = vec_scalar 0, acc_cdg = mat_scalar 0,
             acc_b = mat_scalar 0, acc_count = 0 \<rparr> = Inr a"
    and b: "apic_b p' = (if acc_count a \<noteq> 64 \<or> \<not> apic s then mat_scalar 0 else acc_b a)"
    and vv: "v p' = vadd (vscale (1 - (if apic s then 0 else 1)) (acc_v a))
                (vscale (if apic s then 0 else 1) (vadd (vsub (acc_v a) (acc_bv a)) (v p)))"
    by (auto simp: resample_particle_def Let_def bind_trap_Inr_iff)
  have acc: "acc_v a = interpolate region (grid_velocity s) (pos p)"
    "acc_bv a = interpolate region (grid_velocity_backup s) (pos p)"
    "acc_count a = int (length (region (pos p)))"
    using resample_cell_acc [OF a] by (simp_all add: interpolate_def)
  have comm: "vadd (vsub x y) z = vadd z (vsub x y)" for x y z
    by (simp add: vadd_def vsub_def)
  show ?thesis
    using b vv by (auto simp: acc comm)
qed

text \<open>
  C3. In \<open>resample\<close>, for every particle: the stored affine matrix \<open>apic_b\<close> is the zero
  matrix whenever the region of the particle does not have 64 cells or APIC is disabled; the
  new velocity is the grid-interpolated velocity when APIC is enabled, and the old velocity
  plus the difference of the interpolated velocity and the interpolated backed-up velocity
  when it is disabled.
\<close>

theorem resample_apic_and_velocity:
  assumes "resample region dt s = Inr s'" and "i < length (particles s)"
  shows "length (particles s') = length (particles s)
     \<and> (length (region (pos (particles s ! i))) \<noteq> 64 \<or> \<not> apic s
          \<longrightarrow> apic_b (particles s' ! i) = mat_scalar 0)
     \<and> (apic s \<longrightarrow> v (particles s' ! i)
            = interpolate region (grid_velocity s) (pos (particles s ! i)))
     \<and> (\<not> apic s \<longrightarrow> v (particles s' ! i)
            = vadd (v (particles s ! i))
                (vsub (interpolate region (grid_velocity s) (pos (particles s ! i)))
                      (interpolate region (grid_velocity_backup s) (pos (particles s ! i)))))"
proof -
  from assms(1) obtain ps where
    ps: "map_trap (resample_particle region dt s) (particles s) = Inr ps"
    and s': "particles s' = ps"
    by (auto simp: resample_def bind_trap_Inr_iff)
  have "length ps = length (particles s)"
    and "resample_particle region dt s (particles s ! i) = Inr (ps ! i)"
    using map_trap_Inr [OF ps] assms(2) by auto
  then show ?thesis
    using resample_particle_result [of region dt s "particles s ! i" "ps ! i"] s' by simp
qed

lemma w_vec_zero: "w_vec (vec_scalar 0) = Inr (8 / 27)"
  by (simp add: w_vec_def w_def vec_scalar_def)

lemma dw_vec_zero: "dw_vec (vec_scalar 0) = Inr (vec_scalar 0)"
  by (simp add: dw_vec_def dw_def w_def vec_scalar_def)

lemma vsub_zero_origin: "vsub (vec_scalar 0) (index_pos (0, 0, 0)) = vec_scalar 0"
  by (simp add: vsub_def index_pos_def vec_scalar_def)

lemma resample_single_total: "\<exists>s'. resample region_single dt state_single = Inr s'"
  by (simp add: resample_def resample_particle_def region_single_def state_single_def
      state_example_def Particle_new_def resample_cell_def vsub_zero_origin w_vec_zero
      dw_vec_zero Let_def)

text \<open>
  One particle at the origin, a region of one cell, grid velocity \<open>(1, 2, 3)\<close>, APIC enabled:
  the region has fewer than 64 cells, and the weight of the cell is \<open>(2/3)\<^sup>3\<close>.
\<close>

theorem resample_apic_and_velocity_witness:
  "\<exists>s'. resample region_single 1 state_single = Inr s'
     \<and> apic_b (particles s' ! 0) = mat_scalar 0
     \<and> v (particles s' ! 0) = Vector3 (8 / 27) (16 / 27) (24 / 27)"
proof -
  obtain s' where s': "resample region_single 1 state_single = Inr s'"
    using resample_single_total by blast
  have l: "0 < length (particles state_single)" by (simp add: state_single_def)
  have p0: "pos (particles state_single ! 0) = vec_scalar 0" "apic state_single"
    "grid_velocity state_single = (\<lambda>_. Vector3 1 2 3)"
    by (simp_all add: state_single_def state_example_def Particle_new_def)
  have i: "interpolate region_single (\<lambda>_. Vector3 1 2 3) (vec_scalar 0)
      = Vector3 (8 / 27) (16 / 27) (24 / 27)"
    by (simp add: interpolate_def region_single_def vsub_zero_origin w_vec_zero)
       (simp add: vscale_def vadd_def vec_scalar_def)
  have c: "length (region_single (vec_scalar 0)) \<noteq> 64" by (simp add: region_single_def)
  show ?thesis
    using resample_apic_and_velocity [OF s' l] s' c by (simp add: p0 i)
qed

subsection \<open>Cells of zero mass\<close>

text \<open>Neither pass divides by zero, in exact arithmetic and in binary32.\<close>

lemma w_not_div: "w a \<noteq> Inl DivisionByZero"
  by (simp add: w_def Let_def)

lemma dw_not_div: "dw a \<noteq> Inl DivisionByZero"
  by (simp add: dw_def Let_def)

lemma w_vec_not_div: "w_vec a \<noteq> Inl DivisionByZero"
  by (auto simp: w_vec_def bind_trap_Inl_iff w_not_div)

lemma dw_vec_not_div: "dw_vec a \<noteq> Inl DivisionByZero"
  by (auto simp: dw_vec_def bind_trap_Inl_iff w_not_div dw_not_div)

lemma rasterize_cell_not_div: "rasterize_cell p ind s \<noteq> Inl DivisionByZero"
  by (auto simp: rasterize_cell_def Let_def bind_trap_Inl_iff w_vec_not_div)

lemma normalize_cell_not_div: "normalize_cell ind s \<noteq> Inl DivisionByZero"
  by (auto simp: normalize_cell_def checked_div_def bind_trap_Inl_iff)

lemma force_cell_not_div: "force_cell dt p ind s \<noteq> Inl DivisionByZero"
  by (auto simp: force_cell_def Let_def checked_div_def bind_trap_Inl_iff dw_vec_not_div)

lemma calculate_force_not_div: "calculate_force svd polar_decomp p \<noteq> Inl DivisionByZero"
  by (auto simp: calculate_force_def DP_calculate_force_def Let_def
      split: Material.splits prod.splits)

lemma rasterize_not_div: "rasterize region s \<noteq> Inl DivisionByZero"
  unfolding rasterize_def Let_def bind_trap_Inl_iff
  by (auto intro!: fold_trap_never rasterize_cell_not_div normalize_cell_not_div
      simp del: fold_trap.simps)

lemma apply_deformation_force_not_div:
  "apply_deformation_force svd polar_decomp region dt s \<noteq> Inl DivisionByZero"
  unfolding apply_deformation_force_def Let_def bind_trap_Inl_iff
  by (auto intro!: fold_trap_never map_trap_never force_cell_not_div calculate_force_not_div
      simp del: fold_trap.simps map_trap.simps)

lemma w_binary32_not_div: "w_binary32 a \<noteq> Inl DivisionByZero"
  by (simp add: w_binary32_def Let_def)

lemma dw_binary32_not_div: "dw_binary32 a \<noteq> Inl DivisionByZero"
  by (simp add: dw_binary32_def Let_def)

lemma w_vec_binary32_not_div: "w_vec_binary32 a \<noteq> Inl DivisionByZero"
  by (auto simp: w_vec_binary32_def bind_trap_Inl_iff w_binary32_not_div)

lemma dw_vec_binary32_not_div: "dw_vec_binary32 a \<noteq> Inl DivisionByZero"
  by (auto simp: dw_vec_binary32_def bind_trap_Inl_iff w_binary32_not_div dw_binary32_not_div)

lemma rasterize_cell_binary32_not_div: "rasterize_cell_binary32 p ind s \<noteq> Inl DivisionByZero"
  by (auto simp: rasterize_cell_binary32_def Let_def bind_trap_Inl_iff w_vec_binary32_not_div)

lemma normalize_cell_binary32_not_div: "normalize_cell_binary32 ind s \<noteq> Inl DivisionByZero"
  by (auto simp: normalize_cell_binary32_def checked_div32_def bind_trap_Inl_iff)

lemma force_cell_binary32_not_div: "force_cell_binary32 dt p ind s \<noteq> Inl DivisionByZero"
  by (auto simp: force_cell_binary32_def Let_def checked_div32_def bind_trap_Inl_iff
      dw_vec_binary32_not_div)

lemma rasterize_binary32_not_div: "rasterize_binary32 region s \<noteq> Inl DivisionByZero"
  unfolding rasterize_binary32_def Let_def bind_trap_Inl_iff
  by (auto intro!: fold_trap_never rasterize_cell_binary32_not_div
      normalize_cell_binary32_not_div simp del: fold_trap.simps)

lemma apply_deformation_force_binary32_not_div:
  "apply_deformation_force_binary32 svd polar_decomp region dt s \<noteq> Inl DivisionByZero"
  unfolding apply_deformation_force_binary32_def Let_def bind_trap_Inl_iff
  by (auto intro!: fold_trap_never map_trap_never force_cell_binary32_not_div
      calculate_force_not_div simp del: fold_trap.simps map_trap.simps)

text \<open>
  The normalisation of \<open>rasterize\<close>: the velocity of a cell of the grid is divided by the
  mass of the cell when the mass is positive, and no other velocity and no mass changes.
\<close>

lemma rasterize_cell_particles:
  "rasterize_cell p ind s = Inr s' \<Longrightarrow> particles s' = particles s \<and> res s' = res s"
  by (auto simp: rasterize_cell_def Let_def bind_trap_Inr_iff)

lemma rasterize_deposit_res:
  assumes "rasterize_deposit region s = Inr s1"
  shows "res s1 = res s"
proof -
  let ?s0 = "s\<lparr>grid_velocity := (\<lambda>_. vec_scalar 0), grid_mass := (\<lambda>_. 0)\<rparr>"
  have f: "fold_trap (\<lambda>p. fold_trap (rasterize_cell p) (region (pos p))) (particles s) ?s0 = Inr s1"
    using assms by (simp add: rasterize_deposit_def Let_def)
  have "res ?s0 = res s" by simp
  with f show ?thesis
  proof (rule fold_trap_invariant [where P = "\<lambda>t. res t = res s"])
    fix p t t'
    assume t: "res t = res s"
      and g: "fold_trap (rasterize_cell p) (region (pos p)) t = Inr t'"
    from g t show "res t' = res s"
      by (rule fold_trap_invariant [where P = "\<lambda>t. res t = res s"])
         (use rasterize_cell_particles in auto)
  qed
qed

lemma rasterize_deposit_split:
  "rasterize region s =
     bind_trap (rasterize_deposit region s)
       (\<lambda>s. fold_trap normalize_cell (get_region (res s)) s)"
  by (simp add: rasterize_def rasterize_deposit_def Let_def)

lemma normalize_cells_velocity:
  assumes "fold_trap normalize_cell cs s = Inr s'" and "distinct cs"
  shows "grid_mass s' = grid_mass s
     \<and> (\<forall>c. grid_velocity s' c =
           (if c \<in> set cs \<and> 0 < grid_mass s c
            then vscale (1 / grid_mass s c) (grid_velocity s c) else grid_velocity s c))"
  using assms
proof (induction cs arbitrary: s)
  case Nil
  then show ?case by simp
next
  case (Cons a cs)
  from Cons.prems(1) obtain s1 where a: "normalize_cell a s = Inr s1"
    and r: "fold_trap normalize_cell cs s1 = Inr s'"
    by (auto simp: bind_trap_Inr_iff)
  have m1: "grid_mass s1 = grid_mass s"
    and v1: "\<And>c. grid_velocity s1 c =
        (if c = a \<and> 0 < grid_mass s a
         then vscale (1 / grid_mass s a) (grid_velocity s a) else grid_velocity s c)"
    using a
    by (auto simp: normalize_cell_def checked_div_def bind_trap_Inr_iff split: if_splits)
  have d: "distinct cs" "a \<notin> set cs" using Cons.prems(2) by simp_all
  have ih: "grid_mass s' = grid_mass s1"
    "\<And>c. grid_velocity s' c =
        (if c \<in> set cs \<and> 0 < grid_mass s1 c
         then vscale (1 / grid_mass s1 c) (grid_velocity s1 c) else grid_velocity s1 c)"
    using Cons.IH [OF r d(1)] by blast+
  show ?case
    unfolding ih m1 using d(2) by (auto simp: v1)
qed

lemma distinct_get_region: "distinct (get_region r)"
  by (cases r) (simp add: get_region_def distinct_product)

lemma rasterize_normalizes_positive_cells:
  assumes "rasterize region s = Inr s'"
  shows "\<exists>s1. rasterize_deposit region s = Inr s1 \<and> grid_mass s' = grid_mass s1
     \<and> (\<forall>c. grid_velocity s' c =
           (if c \<in> set (get_region (res s)) \<and> 0 < grid_mass s1 c
            then vscale (1 / grid_mass s1 c) (grid_velocity s1 c) else grid_velocity s1 c))"
proof -
  from assms obtain s1 where d: "rasterize_deposit region s = Inr s1"
    and n: "fold_trap normalize_cell (get_region (res s1)) s1 = Inr s'"
    unfolding rasterize_deposit_split by (auto simp: bind_trap_Inr_iff)
  have r: "res s1 = res s" using d by (rule rasterize_deposit_res)
  have "grid_mass s' = grid_mass s1"
    using normalize_cells_velocity [OF n distinct_get_region] by blast
  moreover have "grid_velocity s' c =
           (if c \<in> set (get_region (res s)) \<and> 0 < grid_mass s1 c
            then vscale (1 / grid_mass s1 c) (grid_velocity s1 c) else grid_velocity s1 c)" for c
    using normalize_cells_velocity [OF n distinct_get_region] unfolding r by blast
  ultimately show ?thesis using d by blast
qed

text \<open>
  The accumulation pass of \<open>apply_deformation_force\<close>: the velocity of a cell of zero mass
  stays as it is, and the velocity of any other cell grows by \<open>dt / cell_mass\<close> times the
  forces of the particles that have the cell in their region.
\<close>

lemma vscale_vadd: "vscale k (vadd a b) = vadd (vscale k a) (vscale k b)"
  by (simp add: vscale_def vadd_def algebra_simps)

lemma vsum_append: "vsum (xs @ ys) = vadd (vsum xs) (vsum ys)"
  by (induction xs) (simp_all add: vadd_assoc)

lemma vscale_zero: "vscale k (vec_scalar 0) = vec_scalar 0"
  by (simp add: vscale_def vec_scalar_def)

lemma force_cell_velocity:
  assumes "force_cell dt p a s = Inr s1"
  shows "grid_mass s1 = grid_mass s \<and> particles s1 = particles s
     \<and> (\<forall>c. grid_velocity s1 c =
           (if c = a \<and> grid_mass s a \<noteq> 0
            then vadd (grid_velocity s a)
                   (vscale (dt / grid_mass s a)
                      (mvmul (tmp_force p) (projr (dw_vec (vsub (pos p) (index_pos a))))))
            else grid_velocity s c))"
  using assms
  by (auto simp: force_cell_def Let_def checked_div_def bind_trap_Inr_iff split: if_splits)

lemma force_cells_velocity:
  assumes "fold_trap (force_cell dt p) cs s = Inr s'"
  shows "grid_mass s' = grid_mass s \<and> particles s' = particles s
     \<and> (\<forall>c. grid_velocity s' c =
           (if grid_mass s c = 0 then grid_velocity s c
            else vadd (grid_velocity s c)
                   (vscale (dt / grid_mass s c)
                      (vsum (map (\<lambda>ind. mvmul (tmp_force p)
                                          (projr (dw_vec (vsub (pos p) (index_pos ind)))))
                                 (filter (\<lambda>ind. ind = c) cs))))))"
  using assms
proof (induction cs arbitrary: s)
  case Nil
  then show ?case by (simp add: vscale_zero)
next
  case (Cons a cs)
  from Cons.prems obtain s1 where a: "force_cell dt p a s = Inr s1"
    and r: "fold_trap (force_cell dt p) cs s1 = Inr s'"
    by (auto simp: bind_trap_Inr_iff)
  note f = force_cell_velocity [OF a]
  have m1: "grid_mass s1 = grid_mass s" and p1: "particles s1 = particles s"
    using f by blast+
  have v1: "grid_velocity s1 c =
        (if c = a \<and> grid_mass s a \<noteq> 0
         then vadd (grid_velocity s a)
                (vscale (dt / grid_mass s a)
                   (mvmul (tmp_force p) (projr (dw_vec (vsub (pos p) (index_pos a))))))
         else grid_velocity s c)" for c
    using f by blast
  note ih = Cons.IH [OF r]
  have m: "grid_mass s' = grid_mass s" "particles s' = particles s"
    using ih m1 p1 by auto
  have "grid_velocity s' c =
           (if grid_mass s c = 0 then grid_velocity s c
            else vadd (grid_velocity s c)
                   (vscale (dt / grid_mass s c)
                      (vsum (map (\<lambda>ind. mvmul (tmp_force p)
                                          (projr (dw_vec (vsub (pos p) (index_pos ind)))))
                                 (filter (\<lambda>ind. ind = c) (a # cs))))))" for c
  proof -
    have "grid_velocity s' c =
           (if grid_mass s c = 0 then grid_velocity s1 c
            else vadd (grid_velocity s1 c)
                   (vscale (dt / grid_mass s c)
                      (vsum (map (\<lambda>ind. mvmul (tmp_force p)
                                          (projr (dw_vec (vsub (pos p) (index_pos ind)))))
                                 (filter (\<lambda>ind. ind = c) cs)))))"
      using ih unfolding m1 by blast
    then show ?thesis
      by (simp add: v1 vscale_vadd vadd_assoc)
  qed
  with m show ?case by blast
qed

lemma cell_force_Cons:
  "cell_force region (p # ps) c =
     vadd (vsum (map (\<lambda>ind. mvmul (tmp_force p) (projr (dw_vec (vsub (pos p) (index_pos ind)))))
                     (filter (\<lambda>ind. ind = c) (region (pos p)))))
          (cell_force region ps c)"
  by (simp add: cell_force_def vsum_append)

lemma force_particles_velocity:
  assumes "fold_trap (\<lambda>p. fold_trap (force_cell dt p) (region (pos p))) ps s = Inr s'"
  shows "grid_mass s' = grid_mass s \<and> particles s' = particles s
     \<and> (\<forall>c. grid_velocity s' c =
           (if grid_mass s c = 0 then grid_velocity s c
            else vadd (grid_velocity s c)
                   (vscale (dt / grid_mass s c) (cell_force region ps c))))"
  using assms
proof (induction ps arbitrary: s)
  case Nil
  then show ?case by (simp add: cell_force_def vscale_zero)
next
  case (Cons p ps)
  from Cons.prems obtain s1 where a: "fold_trap (force_cell dt p) (region (pos p)) s = Inr s1"
    and r: "fold_trap (\<lambda>p. fold_trap (force_cell dt p) (region (pos p))) ps s1 = Inr s'"
    by (auto simp: bind_trap_Inr_iff)
  note f = force_cells_velocity [OF a]
  have m1: "grid_mass s1 = grid_mass s" and p1: "particles s1 = particles s"
    using f by blast+
  have v1: "grid_velocity s1 c =
           (if grid_mass s c = 0 then grid_velocity s c
            else vadd (grid_velocity s c)
                   (vscale (dt / grid_mass s c)
                      (vsum (map (\<lambda>ind. mvmul (tmp_force p)
                                          (projr (dw_vec (vsub (pos p) (index_pos ind)))))
                                 (filter (\<lambda>ind. ind = c) (region (pos p)))))))" for c
    using f by blast
  note ih = Cons.IH [OF r]
  have m: "grid_mass s' = grid_mass s" "particles s' = particles s"
    using ih m1 p1 by auto
  have "grid_velocity s' c =
           (if grid_mass s c = 0 then grid_velocity s c
            else vadd (grid_velocity s c)
                   (vscale (dt / grid_mass s c) (cell_force region (p # ps) c)))" for c
  proof -
    have "grid_velocity s' c =
           (if grid_mass s c = 0 then grid_velocity s1 c
            else vadd (grid_velocity s1 c)
                   (vscale (dt / grid_mass s c) (cell_force region ps c)))"
      using ih unfolding m1 by blast
    then show ?thesis
      by (simp add: v1 cell_force_Cons vscale_vadd vadd_assoc)
  qed
  with m show ?case by blast
qed

lemma apply_deformation_force_velocity:
  assumes "apply_deformation_force svd polar_decomp region dt s = Inr s'"
  shows "grid_mass s' = grid_mass s
     \<and> (\<forall>c. grid_velocity s' c =
           (if grid_mass s c = 0 then grid_velocity s c
            else vadd (grid_velocity s c)
                   (vscale (dt / grid_mass s c) (cell_force region (particles s') c))))"
proof -
  from assms obtain ps where
    f: "fold_trap (\<lambda>p. fold_trap (force_cell dt p) (region (pos p))) ps
          (s\<lparr>particles := ps\<rparr>) = Inr s'"
    by (auto simp: apply_deformation_force_def Let_def bind_trap_Inr_iff)
  have "particles s' = ps" "grid_mass s' = grid_mass s"
    using force_particles_velocity [OF f] by simp_all
  moreover have "grid_velocity s' c =
           (if grid_mass s c = 0 then grid_velocity s c
            else vadd (grid_velocity s c)
                   (vscale (dt / grid_mass s c) (cell_force region ps c)))" for c
    using force_particles_velocity [OF f] by (cases c) simp
  ultimately show ?thesis by simp
qed

text \<open>
  C7, as amended. Cells of zero mass are handled by explicit branches and the grid passes
  never divide by zero, in exact arithmetic and in binary32. \<open>rasterize\<close> divides the
  velocity accumulated in a cell by the mass of the cell exactly when the mass is positive,
  and leaves the accumulated velocity of every other cell as it is. \<open>apply_deformation_force\<close>
  changes no mass; it skips exactly the cells whose mass is zero, and to the velocity of
  every other cell, of positive or of negative mass, it adds \<open>dt / cell_mass\<close> times the
  force of every particle that has the cell in its region, \<open>tmp_force\<close> times the kernel
  gradient.
\<close>

theorem zero_mass_cells_are_safe:
  "rasterize region s \<noteq> Inl DivisionByZero
   \<and> apply_deformation_force svd polar_decomp region dt s \<noteq> Inl DivisionByZero
   \<and> rasterize_binary32 region s \<noteq> Inl DivisionByZero
   \<and> apply_deformation_force_binary32 svd polar_decomp region dt s \<noteq> Inl DivisionByZero
   \<and> (rasterize region s = Inr s' \<longrightarrow>
        (\<exists>s1. rasterize_deposit region s = Inr s1 \<and> grid_mass s' = grid_mass s1
           \<and> (\<forall>c. grid_velocity s' c =
                 (if c \<in> set (get_region (res s)) \<and> 0 < grid_mass s1 c
                  then vscale (1 / grid_mass s1 c) (grid_velocity s1 c)
                  else grid_velocity s1 c))))
   \<and> (apply_deformation_force svd polar_decomp region dt s = Inr s'' \<longrightarrow>
        grid_mass s'' = grid_mass s
        \<and> (\<forall>c. grid_velocity s'' c =
              (if grid_mass s c = 0 then grid_velocity s c
               else vadd (grid_velocity s c)
                      (vscale (dt / grid_mass s c) (cell_force region (particles s'') c)))))"
  using rasterize_not_div [of region s]
    apply_deformation_force_not_div [of svd polar_decomp region dt s]
    rasterize_binary32_not_div [of region s]
    apply_deformation_force_binary32_not_div [of svd polar_decomp region dt s]
    rasterize_normalizes_positive_cells [of region s s']
    apply_deformation_force_velocity [of svd polar_decomp region dt s s'']
  by blast

lemma upto_singleton: "[0..0::int] = [0]"
  by (simp add: upto.simps)

lemma get_region_unit: "get_region (1, 1, 1) = [(0, 0, 0)]"
  by (simp add: get_region_def upto_singleton)

lemma particle_a_fields:
  "pos particle_a = Vector3 1 (1 / 2) (1 / 2)" "v particle_a = Vector3 1 0 0"
  "mass particle_a = 1" "apic_b particle_a = mat_scalar 0"
  by (simp_all add: particle_a_def Particle_new_def)

lemma calculate_force_a:
  "calculate_force svd_diagonal polar_diagonal particle_a
     = Inr (particle_a\<lparr>tmp_force := Matrix3 (- 600000) 0 0 0 (- 200000) 0 0 0 (- 200000)\<rparr>)"
  by (simp add: calculate_force_def particle_a_def Particle_new_def EP_calculate_force_def
      EP_get_energy_gradient_def polar_diagonal_def EPParticle3_new_def det_def mat_scalar_def
      Let_def madd_def msub_def mscale_def mmul_def transpose3_def inverse3_def)

lemma region_unit_a:
  "get_bounded_rasterization_region (1, 1, 1) (Vector3 1 (1 / 2) (1 / 2)) = [(0, 0, 0)]"
  by (simp add: get_bounded_rasterization_region_def bounded_axis_def upto_singleton)

lemma w_vec_a: "w_vec (Vector3 (- 1) (- (1 / 2)) (- (1 / 2))) = Inr (529 / 13824)"
  by (simp add: w_vec_def w_def)

lemma dw_vec_a:
  "dw_vec (Vector3 1 (1 / 2) (1 / 2))
     = Inr (Vector3 (- (529 / 4608)) (- (115 / 2304)) (- (115 / 2304)))"
  by (simp add: dw_vec_def dw_def w_def Let_def)

lemma rasterize_unit_a:
  "\<exists>s'. rasterize (get_bounded_rasterization_region (1, 1, 1)) state_unit_a = Inr s'
     \<and> particles s' = [particle_a]
     \<and> grid_mass s' (0, 0, 0) = 529 / 13824 \<and> grid_velocity s' (0, 0, 0) = Vector3 1 0 0"
  by (simp add: rasterize_def state_unit_a_def state_example_def particle_a_fields
      region_unit_a rasterize_cell_def index_pos_def vsub_def w_vec_a get_region_unit
      normalize_cell_def checked_div_def Let_def vec_scalar_def mat_scalar_def mscale_def
      mvmul_def vadd_def vscale_def)

lemma force_unit_a:
  assumes "particles s = [particle_a]" and "grid_mass s (0, 0, 0) = 529 / 13824"
  shows "\<exists>s''. apply_deformation_force svd_diagonal polar_diagonal
            (get_bounded_rasterization_region (1, 1, 1)) dt s = Inr s''
     \<and> particles s''
          = [particle_a\<lparr>tmp_force := Matrix3 (- 600000) 0 0 0 (- 200000) 0 0 0 (- 200000)\<rparr>]"
  by (simp add: apply_deformation_force_def assms calculate_force_a particle_a_fields
      region_unit_a force_cell_def index_pos_def vsub_def dw_vec_a checked_div_def Let_def)

lemma force_empty_grid_a:
  "\<exists>s''. apply_deformation_force svd_diagonal polar_diagonal
            (get_bounded_rasterization_region (1, 1, 1)) dt state_unit_a = Inr s''"
  by (simp add: apply_deformation_force_def state_unit_a_def state_example_def
      calculate_force_a particle_a_fields region_unit_a force_cell_def Let_def)

text \<open>
  One particle on the grid of one cell. \<open>rasterize\<close> leaves the cell with the mass
  \<open>529 / 13824\<close> and the velocity of the particle. Before that the cell has no mass, and
  \<open>apply_deformation_force\<close> leaves its velocity as it is; after it, the pass adds
  \<open>dt / cell_mass\<close> times the force of the particle.
\<close>

theorem zero_mass_cells_are_safe_witness:
  "\<exists>s0 s' s''.
      apply_deformation_force svd_diagonal polar_diagonal
        (get_bounded_rasterization_region (1, 1, 1)) 1 state_unit_a = Inr s0
    \<and> grid_velocity s0 (0, 0, 0) = vec_scalar 0
    \<and> rasterize (get_bounded_rasterization_region (1, 1, 1)) state_unit_a = Inr s'
    \<and> grid_mass s' (0, 0, 0) = 529 / 13824 \<and> grid_velocity s' (0, 0, 0) = Vector3 1 0 0
    \<and> apply_deformation_force svd_diagonal polar_diagonal
        (get_bounded_rasterization_region (1, 1, 1)) 1 s' = Inr s''
    \<and> grid_mass s'' (0, 0, 0) = 529 / 13824
    \<and> grid_velocity s'' (0, 0, 0) = Vector3 1800001 (6000000 / 23) (6000000 / 23)"
proof -
  let ?R = "get_bounded_rasterization_region (1, 1, 1)"
  obtain s0 where s0: "apply_deformation_force svd_diagonal polar_diagonal ?R 1 state_unit_a
      = Inr s0"
    using force_empty_grid_a by blast
  obtain s' where s': "rasterize ?R state_unit_a = Inr s'" "particles s' = [particle_a]"
    "grid_mass s' (0, 0, 0) = 529 / 13824" "grid_velocity s' (0, 0, 0) = Vector3 1 0 0"
    using rasterize_unit_a by blast
  obtain s'' where s'': "apply_deformation_force svd_diagonal polar_diagonal ?R 1 s' = Inr s''"
    "particles s''
       = [particle_a\<lparr>tmp_force := Matrix3 (- 600000) 0 0 0 (- 200000) 0 0 0 (- 200000)\<rparr>]"
    using force_unit_a [OF s'(2,3)] by blast
  have z: "grid_mass state_unit_a (0, 0, 0) = 0"
    "grid_velocity state_unit_a (0, 0, 0) = vec_scalar 0"
    by (simp_all add: state_unit_a_def state_example_def)
  have "grid_velocity s0 (0, 0, 0) = vec_scalar 0"
    using zero_mass_cells_are_safe [of ?R state_unit_a svd_diagonal polar_diagonal 1 s' s0]
      s0 z by simp
  moreover have f: "cell_force ?R (particles s'') (0, 0, 0)
      = Vector3 (1653125 / 24) (359375 / 36) (359375 / 36)"
    by (simp add: cell_force_def s''(2) particle_a_fields region_unit_a index_pos_def
        vsub_def dw_vec_a mvmul_def vadd_def vec_scalar_def)
  note t = zero_mass_cells_are_safe [of ?R s' svd_diagonal polar_diagonal 1 s' s'']
  have m: "grid_mass s'' = grid_mass s'"
    using t s''(1) by blast
  have "grid_velocity s'' (0, 0, 0) =
      (if grid_mass s' (0, 0, 0) = 0 then grid_velocity s' (0, 0, 0)
       else vadd (grid_velocity s' (0, 0, 0))
              (vscale (1 / grid_mass s' (0, 0, 0)) (cell_force ?R (particles s'') (0, 0, 0))))"
    using t s''(1) by blast
  then have "grid_velocity s'' (0, 0, 0) = Vector3 1800001 (6000000 / 23) (6000000 / 23)"
    unfolding f s'(3,4) by (simp add: vadd_def vscale_def)
  moreover note m
  ultimately show ?thesis using s0 s' s'' by auto
qed

subsection \<open>Cells of negative mass in binary32\<close>

text \<open>
  The binary32 operations of the two passes on the grid of \<open>4 \<times> 1 \<times> 1\<close> cells with the
  two particles.
\<close>

lemma binary32_table_thin_1:
  "sub32 0 1 = - 1"
  "sub32 0 (1 / 2) = - (1 / 2)"
  "div32 (- 1) 6 = - (11184811 / 67108864)"
  "mul32 (- (11184811 / 67108864)) 1 = - (11184811 / 67108864)"
  "mul32 1 1 = 1"
  "add32 (- (11184811 / 67108864)) 1 = 13981013 / 16777216"
  "mul32 2 1 = 2"
  "sub32 (13981013 / 16777216) 2 = - (4893355 / 4194304)"
  "div32 4 3 = 11184811 / 8388608"
  "add32 (- (4893355 / 4194304)) (11184811 / 8388608) = 1398101 / 8388608"
  "mul32 (1 / 2) (1 / 2) = 1 / 4"
  "mul32 (1 / 4) (1 / 2) = 1 / 8"
  "mul32 (1 / 8) (1 / 2) = 1 / 16"
  "sub32 (1 / 16) (1 / 4) = - (3 / 16)"
  "div32 2 3 = 11184811 / 16777216"
  "add32 (- (3 / 16)) (11184811 / 16777216) = 8039083 / 16777216"
  "mul32 (1398101 / 8388608) (8039083 / 16777216) = 10718775 / 134217728"
  "mul32 (10718775 / 134217728) (8039083 / 16777216) = 321005 / 8388608"
  "mul32 (321005 / 8388608) 1 = 321005 / 8388608"
  "add32 0 (321005 / 8388608) = 321005 / 8388608"
  "mul32 3 0 = 0"
  "mul32 0 (- 1) = 0"
  "mul32 0 (- (1 / 2)) = 0"
  "add32 0 0 = 0"
  "add32 1 0 = 1"
  "mul32 (321005 / 8388608) 0 = 0"
  "sub32 1 1 = 0"
  "mul32 (1 / 2) 0 = 0"
  "mul32 0 0 = 0"
  "sub32 0 0 = 0"
  "add32 0 (11184811 / 16777216) = 11184811 / 16777216"
  "mul32 (11184811 / 16777216) (8039083 / 16777216) = 5359389 / 16777216"
  "mul32 (5359389 / 16777216) (8039083 / 16777216) = 10272163 / 67108864"
  "mul32 (10272163 / 67108864) 1 = 10272163 / 67108864"
  "add32 0 (10272163 / 67108864) = 10272163 / 67108864"
  "mul32 (10272163 / 67108864) 0 = 0"
  "sub32 2 1 = 1"
  "mul32 0 1 = 0"
  "sub32 3 1 = 2"
  "mul32 (- (11184811 / 67108864)) 2 = - (11184811 / 33554432)"
  "mul32 (- (11184811 / 33554432)) 2 = - (11184811 / 16777216)"
  "mul32 (- (11184811 / 16777216)) 2 = - (11184811 / 8388608)"
  "mul32 2 2 = 4"
  "add32 (- (11184811 / 8388608)) 4 = 5592405 / 2097152"
  "sub32 (5592405 / 2097152) 4 = - (2796203 / 2097152)"
  "add32 (- (2796203 / 2097152)) (11184811 / 8388608) = - (1 / 8388608)"
  "mul32 (- (1 / 8388608)) (8039083 / 16777216) = - (8039083 / 140737488355328)"
  "mul32 (- (8039083 / 140737488355328)) (8039083 / 16777216) = - (15408243 / 562949953421312)"
  subgoal by (simp only: sub32_def, subst fl32_big [where k = 0], simp_all add: rne_def)
  subgoal by (simp only: sub32_def, subst fl32_small [where k = 1], simp_all add: rne_def)
  subgoal by (simp only: div32_def, subst fl32_small [where k = 3], simp_all add: rne_def)
  subgoal by (simp only: mul32_def, subst fl32_small [where k = 3], simp_all add: rne_def)
  subgoal by (simp only: mul32_def, subst fl32_big [where k = 0], simp_all add: rne_def)
  subgoal by (simp only: add32_def, subst fl32_small [where k = 1], simp_all add: rne_def)
  subgoal by (simp only: mul32_def, subst fl32_big [where k = 1], simp_all add: rne_def)
  subgoal by (simp only: sub32_def, subst fl32_big [where k = 0], simp_all add: rne_def)
  subgoal by (simp only: div32_def, subst fl32_big [where k = 0], simp_all add: rne_def)
  subgoal by (simp only: add32_def, subst fl32_small [where k = 3], simp_all add: rne_def)
  subgoal by (simp only: mul32_def, subst fl32_small [where k = 2], simp_all add: rne_def)
  subgoal by (simp only: mul32_def, subst fl32_small [where k = 3], simp_all add: rne_def)
  subgoal by (simp only: mul32_def, subst fl32_small [where k = 4], simp_all add: rne_def)
  subgoal by (simp only: sub32_def, subst fl32_small [where k = 3], simp_all add: rne_def)
  subgoal by (simp only: div32_def, subst fl32_small [where k = 1], simp_all add: rne_def)
  subgoal by (simp only: add32_def, subst fl32_small [where k = 2], simp_all add: rne_def)
  subgoal by (simp only: mul32_def, subst fl32_small [where k = 4], simp_all add: rne_def)
  subgoal by (simp only: mul32_def, subst fl32_small [where k = 5], simp_all add: rne_def)
  subgoal by (simp only: mul32_def, subst fl32_small [where k = 5], simp_all add: rne_def)
  subgoal by (simp only: add32_def, subst fl32_small [where k = 5], simp_all add: rne_def)
  subgoal by (simp add: mul32_def fl32_zero)
  subgoal by (simp add: mul32_def fl32_zero)
  subgoal by (simp add: mul32_def fl32_zero)
  subgoal by (simp add: add32_def fl32_zero)
  subgoal by (simp only: add32_def, subst fl32_big [where k = 0], simp_all add: rne_def)
  subgoal by (simp add: mul32_def fl32_zero)
  subgoal by (simp add: sub32_def fl32_zero)
  subgoal by (simp add: mul32_def fl32_zero)
  subgoal by (simp add: mul32_def fl32_zero)
  subgoal by (simp add: sub32_def fl32_zero)
  subgoal by (simp only: add32_def, subst fl32_small [where k = 1], simp_all add: rne_def)
  subgoal by (simp only: mul32_def, subst fl32_small [where k = 2], simp_all add: rne_def)
  subgoal by (simp only: mul32_def, subst fl32_small [where k = 3], simp_all add: rne_def)
  subgoal by (simp only: mul32_def, subst fl32_small [where k = 3], simp_all add: rne_def)
  subgoal by (simp only: add32_def, subst fl32_small [where k = 3], simp_all add: rne_def)
  subgoal by (simp add: mul32_def fl32_zero)
  subgoal by (simp only: sub32_def, subst fl32_big [where k = 0], simp_all add: rne_def)
  subgoal by (simp add: mul32_def fl32_zero)
  subgoal by (simp only: sub32_def, subst fl32_big [where k = 1], simp_all add: rne_def)
  subgoal by (simp only: mul32_def, subst fl32_small [where k = 2], simp_all add: rne_def)
  subgoal by (simp only: mul32_def, subst fl32_small [where k = 1], simp_all add: rne_def)
  subgoal by (simp only: mul32_def, subst fl32_big [where k = 0], simp_all add: rne_def)
  subgoal by (simp only: mul32_def, subst fl32_big [where k = 2], simp_all add: rne_def)
  subgoal by (simp only: add32_def, subst fl32_big [where k = 1], simp_all add: rne_def)
  subgoal by (simp only: sub32_def, subst fl32_big [where k = 0], simp_all add: rne_def)
  subgoal by (simp only: add32_def, subst fl32_small [where k = 23], simp_all add: rne_def)
  subgoal by (simp only: mul32_def, subst fl32_small [where k = 25], simp_all add: rne_def)
  subgoal by (simp only: mul32_def, subst fl32_small [where k = 26], simp_all add: rne_def)
  done

lemma binary32_table_thin_2:
  "mul32 (- (15408243 / 562949953421312)) 1 = - (15408243 / 562949953421312)"
  "add32 0 (- (15408243 / 562949953421312)) = - (15408243 / 562949953421312)"
  "mul32 0 2 = 0"
  "mul32 (- (15408243 / 562949953421312)) 0 = 0"
  "div32 1 (321005 / 8388608) = 6850433 / 262144"
  "mul32 (6850433 / 262144) (321005 / 8388608) = 1"
  "mul32 (6850433 / 262144) 0 = 0"
  "div32 1 (10272163 / 67108864) = 6850431 / 1048576"
  "mul32 (6850431 / 1048576) (10272163 / 67108864) = 1"
  "mul32 (6850431 / 1048576) 0 = 0"
  "sub32 1 0 = 1"
  "sub32 (1 / 2) 0 = 1 / 2"
  "mul32 (- (1 / 2)) 1 = - (1 / 2)"
  "add32 (- (1 / 2)) 2 = 3 / 2"
  "sub32 (3 / 2) 2 = - (1 / 2)"
  "mul32 1 (- (1 / 2)) = - (1 / 2)"
  "mul32 (1 / 2) 1 = 1 / 2"
  "mul32 (3 / 2) (1 / 4) = 3 / 8"
  "mul32 2 (1 / 2) = 1"
  "sub32 (3 / 8) 1 = - (5 / 8)"
  "mul32 1 (- (5 / 8)) = - (5 / 8)"
  "mul32 (- (1 / 2)) (8039083 / 16777216) = - (8039083 / 33554432)"
  "mul32 (- (8039083 / 33554432)) (8039083 / 16777216) = - (15408243 / 134217728)"
  "mul32 (1398101 / 8388608) (- (5 / 8)) = - (6990505 / 67108864)"
  "mul32 (- (6990505 / 67108864)) (8039083 / 16777216) = - (3349617 / 67108864)"
  "mul32 (10718775 / 134217728) (- (5 / 8)) = - (13398469 / 268435456)"
  "mul32 (- 600000) (- (15408243 / 134217728)) = 8816667 / 128"
  "mul32 0 (- (3349617 / 67108864)) = 0"
  "add32 (8816667 / 128) 0 = 8816667 / 128"
  "mul32 0 (- (13398469 / 268435456)) = 0"
  "mul32 0 (- (15408243 / 134217728)) = 0"
  "mul32 (- 200000) (- (3349617 / 67108864)) = 2555555 / 256"
  "add32 0 (2555555 / 256) = 2555555 / 256"
  "add32 (2555555 / 256) 0 = 2555555 / 256"
  "mul32 (- 200000) (- (13398469 / 268435456)) = 10222221 / 1024"
  "add32 0 (10222221 / 1024) = 10222221 / 1024"
  "mul32 (6850433 / 262144) (8816667 / 128) = 7200001 / 4"
  "mul32 (6850433 / 262144) (2555555 / 256) = 8347825 / 32"
  "mul32 (6850433 / 262144) (10222221 / 1024) = 4173913 / 16"
  "add32 1 (7200001 / 4) = 7200005 / 4"
  "add32 0 (8347825 / 32) = 8347825 / 32"
  "add32 0 (4173913 / 16) = 4173913 / 16"
  "mul32 (3 / 2) 0 = 0"
  "mul32 2 0 = 0"
  "mul32 1 0 = 0"
  "mul32 0 (8039083 / 16777216) = 0"
  "mul32 (11184811 / 16777216) (- (5 / 8)) = - (6990507 / 16777216)"
  "mul32 (- (6990507 / 16777216)) (8039083 / 16777216) = - (1674809 / 8388608)"
  subgoal by (simp only: mul32_def, subst fl32_small [where k = 26], simp_all add: rne_def)
  subgoal by (simp only: add32_def, subst fl32_small [where k = 26], simp_all add: rne_def)
  subgoal by (simp add: mul32_def fl32_zero)
  subgoal by (simp add: mul32_def fl32_zero)
  subgoal by (simp only: div32_def, subst fl32_big [where k = 4], simp_all add: rne_def)
  subgoal by (simp only: mul32_def, subst fl32_small [where k = 1], simp_all add: rne_def)
  subgoal by (simp add: mul32_def fl32_zero)
  subgoal by (simp only: div32_def, subst fl32_big [where k = 2], simp_all add: rne_def)
  subgoal by (simp only: mul32_def, subst fl32_small [where k = 1], simp_all add: rne_def)
  subgoal by (simp add: mul32_def fl32_zero)
  subgoal by (simp only: sub32_def, subst fl32_big [where k = 0], simp_all add: rne_def)
  subgoal by (simp only: sub32_def, subst fl32_small [where k = 1], simp_all add: rne_def)
  subgoal by (simp only: mul32_def, subst fl32_small [where k = 1], simp_all add: rne_def)
  subgoal by (simp only: add32_def, subst fl32_big [where k = 0], simp_all add: rne_def)
  subgoal by (simp only: sub32_def, subst fl32_small [where k = 1], simp_all add: rne_def)
  subgoal by (simp only: mul32_def, subst fl32_small [where k = 1], simp_all add: rne_def)
  subgoal by (simp only: mul32_def, subst fl32_small [where k = 1], simp_all add: rne_def)
  subgoal by (simp only: mul32_def, subst fl32_small [where k = 2], simp_all add: rne_def)
  subgoal by (simp only: mul32_def, subst fl32_big [where k = 0], simp_all add: rne_def)
  subgoal by (simp only: sub32_def, subst fl32_small [where k = 1], simp_all add: rne_def)
  subgoal by (simp only: mul32_def, subst fl32_small [where k = 1], simp_all add: rne_def)
  subgoal by (simp only: mul32_def, subst fl32_small [where k = 3], simp_all add: rne_def)
  subgoal by (simp only: mul32_def, subst fl32_small [where k = 4], simp_all add: rne_def)
  subgoal by (simp only: mul32_def, subst fl32_small [where k = 4], simp_all add: rne_def)
  subgoal by (simp only: mul32_def, subst fl32_small [where k = 5], simp_all add: rne_def)
  subgoal by (simp only: mul32_def, subst fl32_small [where k = 5], simp_all add: rne_def)
  subgoal by (simp only: mul32_def, subst fl32_big [where k = 16], simp_all add: rne_def)
  subgoal by (simp add: mul32_def fl32_zero)
  subgoal by (simp only: add32_def, subst fl32_big [where k = 16], simp_all add: rne_def)
  subgoal by (simp add: mul32_def fl32_zero)
  subgoal by (simp add: mul32_def fl32_zero)
  subgoal by (simp only: mul32_def, subst fl32_big [where k = 13], simp_all add: rne_def)
  subgoal by (simp only: add32_def, subst fl32_big [where k = 13], simp_all add: rne_def)
  subgoal by (simp only: add32_def, subst fl32_big [where k = 13], simp_all add: rne_def)
  subgoal by (simp only: mul32_def, subst fl32_big [where k = 13], simp_all add: rne_def)
  subgoal by (simp only: add32_def, subst fl32_big [where k = 13], simp_all add: rne_def)
  subgoal by (simp only: mul32_def, subst fl32_big [where k = 20], simp_all add: rne_def)
  subgoal by (simp only: mul32_def, subst fl32_big [where k = 17], simp_all add: rne_def)
  subgoal by (simp only: mul32_def, subst fl32_big [where k = 17], simp_all add: rne_def)
  subgoal by (simp only: add32_def, subst fl32_big [where k = 20], simp_all add: rne_def)
  subgoal by (simp only: add32_def, subst fl32_big [where k = 17], simp_all add: rne_def)
  subgoal by (simp only: add32_def, subst fl32_big [where k = 17], simp_all add: rne_def)
  subgoal by (simp add: mul32_def fl32_zero)
  subgoal by (simp add: mul32_def fl32_zero)
  subgoal by (simp add: mul32_def fl32_zero)
  subgoal by (simp add: mul32_def fl32_zero)
  subgoal by (simp only: mul32_def, subst fl32_small [where k = 2], simp_all add: rne_def)
  subgoal by (simp only: mul32_def, subst fl32_small [where k = 3], simp_all add: rne_def)
  done

lemma binary32_table_thin_3:
  "mul32 (5359389 / 16777216) (- (5 / 8)) = - (1674809 / 8388608)"
  "mul32 (- 600000) 0 = 0"
  "mul32 0 (- (1674809 / 8388608)) = 0"
  "mul32 (- 200000) (- (1674809 / 8388608)) = 10222223 / 256"
  "add32 0 (10222223 / 256) = 10222223 / 256"
  "add32 (10222223 / 256) 0 = 10222223 / 256"
  "mul32 (6850431 / 1048576) (10222223 / 256) = 8347825 / 32"
  "sub32 1 2 = - 1"
  "mul32 (- 1) (- 1) = 1"
  "mul32 (- 1) (- (1 / 2)) = 1 / 2"
  "mul32 (1 / 2) (8039083 / 16777216) = 8039083 / 33554432"
  "mul32 (8039083 / 33554432) (8039083 / 16777216) = 15408243 / 134217728"
  "mul32 (- 600000) (15408243 / 134217728) = - (8816667 / 128)"
  "add32 (- (8816667 / 128)) 0 = - (8816667 / 128)"
  "mul32 0 (15408243 / 134217728) = 0"
  "mul32 (6850433 / 262144) (- (8816667 / 128)) = - (7200001 / 4)"
  "add32 1 (- (7200001 / 4)) = - (7199997 / 4)"
  "sub32 1 3 = - 2"
  "mul32 (- 2) (- 1) = 2"
  "mul32 (- (1 / 2)) 4 = - 2"
  "add32 (- 2) 4 = 2"
  "sub32 2 2 = 0"
  "mul32 (- 1) 0 = 0"
  "mul32 (- (1 / 8388608)) (- (5 / 8)) = 5 / 67108864"
  "mul32 (5 / 67108864) (8039083 / 16777216) = 5024427 / 140737488355328"
  "mul32 (- (8039083 / 140737488355328)) (- (5 / 8)) = 5024427 / 140737488355328"
  "mul32 0 (5024427 / 140737488355328) = 0"
  "mul32 (- 200000) (5024427 / 140737488355328) = - (7666667 / 1073741824)"
  "add32 0 (- (7666667 / 1073741824)) = - (7666667 / 1073741824)"
  "add32 (- (7666667 / 1073741824)) 0 = - (7666667 / 1073741824)"
  "div32 1 (- (15408243 / 562949953421312)) = - 36535636"
  "mul32 (- 36535636) 0 = 0"
  "mul32 (- 36535636) (- (7666667 / 1073741824)) = 4173913 / 16"
  "add32 (- (15408243 / 562949953421312)) 0 = - (15408243 / 562949953421312)"
  "sub32 0 (8388609 / 8388608) = - (8388609 / 8388608)"
  "mul32 (- (11184811 / 67108864)) (8388609 / 8388608) = - (2796203 / 16777216)"
  "mul32 (- (2796203 / 16777216)) (8388609 / 8388608) = - (11184813 / 67108864)"
  "mul32 (- (11184813 / 67108864)) (8388609 / 8388608) = - (5592407 / 33554432)"
  "mul32 (8388609 / 8388608) (8388609 / 8388608) = 4194305 / 4194304"
  "add32 (- (5592407 / 33554432)) (4194305 / 4194304) = 1747627 / 2097152"
  "mul32 2 (8388609 / 8388608) = 8388609 / 4194304"
  "sub32 (1747627 / 2097152) (8388609 / 4194304) = - (4893355 / 4194304)"
  "add32 (321005 / 8388608) (321005 / 8388608) = 321005 / 4194304"
  "mul32 0 (- (8388609 / 8388608)) = 0"
  "add32 (321005 / 8388608) 0 = 321005 / 8388608"
  "sub32 1 (8388609 / 8388608) = - (1 / 8388608)"
  "mul32 (1 / 2) (1 / 8388608) = 1 / 16777216"
  "mul32 (1 / 16777216) (1 / 8388608) = 1 / 140737488355328"
  subgoal by (simp only: mul32_def, subst fl32_small [where k = 3], simp_all add: rne_def)
  subgoal by (simp add: mul32_def fl32_zero)
  subgoal by (simp add: mul32_def fl32_zero)
  subgoal by (simp only: mul32_def, subst fl32_big [where k = 15], simp_all add: rne_def)
  subgoal by (simp only: add32_def, subst fl32_big [where k = 15], simp_all add: rne_def)
  subgoal by (simp only: add32_def, subst fl32_big [where k = 15], simp_all add: rne_def)
  subgoal by (simp only: mul32_def, subst fl32_big [where k = 17], simp_all add: rne_def)
  subgoal by (simp only: sub32_def, subst fl32_big [where k = 0], simp_all add: rne_def)
  subgoal by (simp only: mul32_def, subst fl32_big [where k = 0], simp_all add: rne_def)
  subgoal by (simp only: mul32_def, subst fl32_small [where k = 1], simp_all add: rne_def)
  subgoal by (simp only: mul32_def, subst fl32_small [where k = 3], simp_all add: rne_def)
  subgoal by (simp only: mul32_def, subst fl32_small [where k = 4], simp_all add: rne_def)
  subgoal by (simp only: mul32_def, subst fl32_big [where k = 16], simp_all add: rne_def)
  subgoal by (simp only: add32_def, subst fl32_big [where k = 16], simp_all add: rne_def)
  subgoal by (simp add: mul32_def fl32_zero)
  subgoal by (simp only: mul32_def, subst fl32_big [where k = 20], simp_all add: rne_def)
  subgoal by (simp only: add32_def, subst fl32_big [where k = 20], simp_all add: rne_def)
  subgoal by (simp only: sub32_def, subst fl32_big [where k = 1], simp_all add: rne_def)
  subgoal by (simp only: mul32_def, subst fl32_big [where k = 1], simp_all add: rne_def)
  subgoal by (simp only: mul32_def, subst fl32_big [where k = 1], simp_all add: rne_def)
  subgoal by (simp only: add32_def, subst fl32_big [where k = 1], simp_all add: rne_def)
  subgoal by (simp add: sub32_def fl32_zero)
  subgoal by (simp add: mul32_def fl32_zero)
  subgoal by (simp only: mul32_def, subst fl32_small [where k = 24], simp_all add: rne_def)
  subgoal by (simp only: mul32_def, subst fl32_small [where k = 25], simp_all add: rne_def)
  subgoal by (simp only: mul32_def, subst fl32_small [where k = 25], simp_all add: rne_def)
  subgoal by (simp add: mul32_def fl32_zero)
  subgoal by (simp only: mul32_def, subst fl32_small [where k = 8], simp_all add: rne_def)
  subgoal by (simp only: add32_def, subst fl32_small [where k = 8], simp_all add: rne_def)
  subgoal by (simp only: add32_def, subst fl32_small [where k = 8], simp_all add: rne_def)
  subgoal by (simp only: div32_def, subst fl32_big [where k = 25], simp_all add: rne_def)
  subgoal by (simp add: mul32_def fl32_zero)
  subgoal by (simp only: mul32_def, subst fl32_big [where k = 17], simp_all add: rne_def)
  subgoal by (simp only: add32_def, subst fl32_small [where k = 26], simp_all add: rne_def)
  subgoal by (simp only: sub32_def, subst fl32_big [where k = 0], simp_all add: rne_def)
  subgoal by (simp only: mul32_def, subst fl32_small [where k = 3], simp_all add: rne_def)
  subgoal by (simp only: mul32_def, subst fl32_small [where k = 3], simp_all add: rne_def)
  subgoal by (simp only: mul32_def, subst fl32_small [where k = 3], simp_all add: rne_def)
  subgoal by (simp only: mul32_def, subst fl32_big [where k = 0], simp_all add: rne_def)
  subgoal by (simp only: add32_def, subst fl32_small [where k = 1], simp_all add: rne_def)
  subgoal by (simp only: mul32_def, subst fl32_big [where k = 1], simp_all add: rne_def)
  subgoal by (simp only: sub32_def, subst fl32_big [where k = 0], simp_all add: rne_def)
  subgoal by (simp only: add32_def, subst fl32_small [where k = 4], simp_all add: rne_def)
  subgoal by (simp add: mul32_def fl32_zero)
  subgoal by (simp only: add32_def, subst fl32_small [where k = 5], simp_all add: rne_def)
  subgoal by (simp only: sub32_def, subst fl32_small [where k = 23], simp_all add: rne_def)
  subgoal by (simp only: mul32_def, subst fl32_small [where k = 24], simp_all add: rne_def)
  subgoal by (simp only: mul32_def, subst fl32_small [where k = 47], simp_all add: rne_def)
  done

lemma binary32_table_thin_4:
  "mul32 (1 / 140737488355328) (1 / 8388608) = 1 / 1180591620717411303424"
  "mul32 (1 / 8388608) (1 / 8388608) = 1 / 70368744177664"
  "sub32 (1 / 1180591620717411303424) (1 / 70368744177664) = - (16777215 / 1180591620717411303424)"
  "add32 (- (16777215 / 1180591620717411303424)) (11184811 / 16777216) = 11184811 / 16777216"
  "add32 (10272163 / 67108864) (10272163 / 67108864) = 10272163 / 33554432"
  "mul32 0 (- (1 / 8388608)) = 0"
  "add32 (10272163 / 67108864) 0 = 10272163 / 67108864"
  "sub32 2 (8388609 / 8388608) = 8388607 / 8388608"
  "mul32 (1 / 2) (8388607 / 8388608) = 8388607 / 16777216"
  "mul32 (8388607 / 16777216) (8388607 / 8388608) = 4194303 / 8388608"
  "mul32 (4194303 / 8388608) (8388607 / 8388608) = 8388605 / 16777216"
  "mul32 (8388607 / 8388608) (8388607 / 8388608) = 4194303 / 4194304"
  "sub32 (8388605 / 16777216) (4194303 / 4194304) = - (8388607 / 16777216)"
  "add32 (- (8388607 / 16777216)) (11184811 / 16777216) = 699051 / 4194304"
  "mul32 (699051 / 4194304) (8039083 / 16777216) = 5359391 / 67108864"
  "mul32 (5359391 / 67108864) (8039083 / 16777216) = 10272167 / 268435456"
  "mul32 (10272167 / 268435456) 1 = 10272167 / 268435456"
  "add32 (321005 / 8388608) (10272167 / 268435456) = 2568041 / 33554432"
  "mul32 0 (8388607 / 8388608) = 0"
  "mul32 (10272167 / 268435456) 0 = 0"
  "sub32 3 (8388609 / 8388608) = 16777215 / 8388608"
  "mul32 (- (11184811 / 67108864)) (16777215 / 8388608) = - (5592405 / 16777216)"
  "mul32 (- (5592405 / 16777216)) (16777215 / 8388608) = - (11184809 / 16777216)"
  "mul32 (- (11184809 / 16777216)) (16777215 / 8388608) = - (1398101 / 1048576)"
  "mul32 (16777215 / 8388608) (16777215 / 8388608) = 8388607 / 2097152"
  "add32 (- (1398101 / 1048576)) (8388607 / 2097152) = 5592405 / 2097152"
  "mul32 2 (16777215 / 8388608) = 16777215 / 4194304"
  "sub32 (5592405 / 2097152) (16777215 / 4194304) = - (5592405 / 4194304)"
  "add32 (- (5592405 / 4194304)) (11184811 / 8388608) = 1 / 8388608"
  "mul32 (1 / 8388608) (8039083 / 16777216) = 8039083 / 140737488355328"
  "mul32 (8039083 / 140737488355328) (8039083 / 16777216) = 15408243 / 562949953421312"
  "mul32 (15408243 / 562949953421312) 1 = 15408243 / 562949953421312"
  "add32 (- (15408243 / 562949953421312)) (15408243 / 562949953421312) = 0"
  "mul32 0 (16777215 / 8388608) = 0"
  "mul32 (15408243 / 562949953421312) 0 = 0"
  "div32 1 (321005 / 4194304) = 6850433 / 524288"
  "mul32 (6850433 / 524288) (321005 / 8388608) = 1 / 2"
  "mul32 (6850433 / 524288) 0 = 0"
  "div32 1 (10272163 / 33554432) = 6850431 / 2097152"
  "mul32 (6850431 / 2097152) (10272163 / 67108864) = 1 / 2"
  "mul32 (6850431 / 2097152) 0 = 0"
  "div32 1 (2568041 / 33554432) = 13700861 / 1048576"
  "mul32 (13700861 / 1048576) (321005 / 8388608) = 8388605 / 16777216"
  "mul32 (13700861 / 1048576) 0 = 0"
  subgoal by (simp only: mul32_def, subst fl32_small [where k = 70], simp_all add: rne_def)
  subgoal by (simp only: mul32_def, subst fl32_small [where k = 46], simp_all add: rne_def)
  subgoal by (simp only: sub32_def, subst fl32_small [where k = 47], simp_all add: rne_def)
  subgoal by (simp only: add32_def, subst fl32_small [where k = 1], simp_all add: rne_def)
  subgoal by (simp only: add32_def, subst fl32_small [where k = 2], simp_all add: rne_def)
  subgoal by (simp add: mul32_def fl32_zero)
  subgoal by (simp only: add32_def, subst fl32_small [where k = 3], simp_all add: rne_def)
  subgoal by (simp only: sub32_def, subst fl32_small [where k = 1], simp_all add: rne_def)
  subgoal by (simp only: mul32_def, subst fl32_small [where k = 2], simp_all add: rne_def)
  subgoal by (simp only: mul32_def, subst fl32_small [where k = 2], simp_all add: rne_def)
  subgoal by (simp only: mul32_def, subst fl32_small [where k = 2], simp_all add: rne_def)
  subgoal by (simp only: mul32_def, subst fl32_small [where k = 1], simp_all add: rne_def)
  subgoal by (simp only: sub32_def, subst fl32_small [where k = 2], simp_all add: rne_def)
  subgoal by (simp only: add32_def, subst fl32_small [where k = 3], simp_all add: rne_def)
  subgoal by (simp only: mul32_def, subst fl32_small [where k = 4], simp_all add: rne_def)
  subgoal by (simp only: mul32_def, subst fl32_small [where k = 5], simp_all add: rne_def)
  subgoal by (simp only: mul32_def, subst fl32_small [where k = 5], simp_all add: rne_def)
  subgoal by (simp only: add32_def, subst fl32_small [where k = 4], simp_all add: rne_def)
  subgoal by (simp add: mul32_def fl32_zero)
  subgoal by (simp add: mul32_def fl32_zero)
  subgoal by (simp only: sub32_def, subst fl32_big [where k = 0], simp_all add: rne_def)
  subgoal by (simp only: mul32_def, subst fl32_small [where k = 2], simp_all add: rne_def)
  subgoal by (simp only: mul32_def, subst fl32_small [where k = 1], simp_all add: rne_def)
  subgoal by (simp only: mul32_def, subst fl32_big [where k = 0], simp_all add: rne_def)
  subgoal by (simp only: mul32_def, subst fl32_big [where k = 1], simp_all add: rne_def)
  subgoal by (simp only: add32_def, subst fl32_big [where k = 1], simp_all add: rne_def)
  subgoal by (simp only: mul32_def, subst fl32_big [where k = 1], simp_all add: rne_def)
  subgoal by (simp only: sub32_def, subst fl32_big [where k = 0], simp_all add: rne_def)
  subgoal by (simp only: add32_def, subst fl32_small [where k = 23], simp_all add: rne_def)
  subgoal by (simp only: mul32_def, subst fl32_small [where k = 25], simp_all add: rne_def)
  subgoal by (simp only: mul32_def, subst fl32_small [where k = 26], simp_all add: rne_def)
  subgoal by (simp only: mul32_def, subst fl32_small [where k = 26], simp_all add: rne_def)
  subgoal by (simp add: add32_def fl32_zero)
  subgoal by (simp add: mul32_def fl32_zero)
  subgoal by (simp add: mul32_def fl32_zero)
  subgoal by (simp only: div32_def, subst fl32_big [where k = 3], simp_all add: rne_def)
  subgoal by (simp only: mul32_def, subst fl32_small [where k = 2], simp_all add: rne_def)
  subgoal by (simp add: mul32_def fl32_zero)
  subgoal by (simp only: div32_def, subst fl32_big [where k = 1], simp_all add: rne_def)
  subgoal by (simp only: mul32_def, subst fl32_small [where k = 2], simp_all add: rne_def)
  subgoal by (simp add: mul32_def fl32_zero)
  subgoal by (simp only: div32_def, subst fl32_big [where k = 3], simp_all add: rne_def)
  subgoal by (simp only: mul32_def, subst fl32_small [where k = 2], simp_all add: rne_def)
  subgoal by (simp add: mul32_def fl32_zero)
  done
lemma binary32_table_thin_c:
  "sub32 0 (4194305 / 4194304) = - (4194305 / 4194304)"
  "mul32 (- (11184811 / 67108864)) (4194305 / 4194304) = - (5592407 / 33554432)"
  "mul32 (- (5592407 / 33554432)) (4194305 / 4194304) = - (11184817 / 67108864)"
  "mul32 (- (11184817 / 67108864)) (4194305 / 4194304) = - (2796205 / 16777216)"
  "mul32 (4194305 / 4194304) (4194305 / 4194304) = 2097153 / 2097152"
  "add32 (- (2796205 / 16777216)) (2097153 / 2097152) = 13981019 / 16777216"
  "mul32 2 (4194305 / 4194304) = 4194305 / 2097152"
  "sub32 (13981019 / 16777216) (4194305 / 2097152) = - (4893355 / 4194304)"
  "mul32 0 (- (4194305 / 4194304)) = 0"
  "sub32 1 (4194305 / 4194304) = - (1 / 4194304)"
  "mul32 (1 / 2) (1 / 4194304) = 1 / 8388608"
  "mul32 (1 / 8388608) (1 / 4194304) = 1 / 35184372088832"
  "mul32 (1 / 35184372088832) (1 / 4194304) = 1 / 147573952589676412928"
  "mul32 (1 / 4194304) (1 / 4194304) = 1 / 17592186044416"
  "sub32 (1 / 147573952589676412928) (1 / 17592186044416) = - (8388607 / 147573952589676412928)"
  "add32 (- (8388607 / 147573952589676412928)) (11184811 / 16777216) = 11184811 / 16777216"
  "mul32 0 (- (1 / 4194304)) = 0"
  "sub32 2 (4194305 / 4194304) = 4194303 / 4194304"
  "mul32 (1 / 2) (4194303 / 4194304) = 4194303 / 8388608"
  "mul32 (4194303 / 8388608) (4194303 / 4194304) = 2097151 / 4194304"
  "mul32 (2097151 / 4194304) (4194303 / 4194304) = 4194301 / 8388608"
  "mul32 (4194303 / 4194304) (4194303 / 4194304) = 2097151 / 2097152"
  "sub32 (4194301 / 8388608) (2097151 / 2097152) = - (4194303 / 8388608)"
  "add32 (- (4194303 / 8388608)) (11184811 / 16777216) = 2796205 / 16777216"
  "mul32 (2796205 / 16777216) (8039083 / 16777216) = 5359393 / 67108864"
  "mul32 (5359393 / 67108864) (8039083 / 16777216) = 5136085 / 134217728"
  "mul32 (5136085 / 134217728) 1 = 5136085 / 134217728"
  "add32 0 (5136085 / 134217728) = 5136085 / 134217728"
  "mul32 0 (4194303 / 4194304) = 0"
  "mul32 (5136085 / 134217728) 0 = 0"
  "sub32 3 (4194305 / 4194304) = 8388607 / 4194304"
  "mul32 (- (11184811 / 67108864)) (8388607 / 4194304) = - (5592405 / 16777216)"
  "mul32 (- (5592405 / 16777216)) (8388607 / 4194304) = - (11184809 / 16777216)"
  "mul32 (- (11184809 / 16777216)) (8388607 / 4194304) = - (1398101 / 1048576)"
  "mul32 (8388607 / 4194304) (8388607 / 4194304) = 4194303 / 1048576"
  "add32 (- (1398101 / 1048576)) (4194303 / 1048576) = 1398101 / 524288"
  "mul32 2 (8388607 / 4194304) = 8388607 / 2097152"
  "sub32 (1398101 / 524288) (8388607 / 2097152) = - (2796203 / 2097152)"
  "mul32 0 (8388607 / 4194304) = 0"
  "div32 1 (5136085 / 134217728) = 13700853 / 524288"
  "mul32 (13700853 / 524288) (5136085 / 134217728) = 1"
  "mul32 (13700853 / 524288) 0 = 0"
  subgoal by (simp only: sub32_def, subst fl32_big [where k = 0], simp_all add: rne_def)
  subgoal by (simp only: mul32_def, subst fl32_small [where k = 3], simp_all add: rne_def)
  subgoal by (simp only: mul32_def, subst fl32_small [where k = 3], simp_all add: rne_def)
  subgoal by (simp only: mul32_def, subst fl32_small [where k = 3], simp_all add: rne_def)
  subgoal by (simp only: mul32_def, subst fl32_big [where k = 0], simp_all add: rne_def)
  subgoal by (simp only: add32_def, subst fl32_small [where k = 1], simp_all add: rne_def)
  subgoal by (simp only: mul32_def, subst fl32_big [where k = 1], simp_all add: rne_def)
  subgoal by (simp only: sub32_def, subst fl32_big [where k = 0], simp_all add: rne_def)
  subgoal by (simp add: mul32_def fl32_zero)
  subgoal by (simp only: sub32_def, subst fl32_small [where k = 22], simp_all add: rne_def)
  subgoal by (simp only: mul32_def, subst fl32_small [where k = 23], simp_all add: rne_def)
  subgoal by (simp only: mul32_def, subst fl32_small [where k = 45], simp_all add: rne_def)
  subgoal by (simp only: mul32_def, subst fl32_small [where k = 67], simp_all add: rne_def)
  subgoal by (simp only: mul32_def, subst fl32_small [where k = 44], simp_all add: rne_def)
  subgoal by (simp only: sub32_def, subst fl32_small [where k = 45], simp_all add: rne_def)
  subgoal by (simp only: add32_def, subst fl32_small [where k = 1], simp_all add: rne_def)
  subgoal by (simp add: mul32_def fl32_zero)
  subgoal by (simp only: sub32_def, subst fl32_small [where k = 1], simp_all add: rne_def)
  subgoal by (simp only: mul32_def, subst fl32_small [where k = 2], simp_all add: rne_def)
  subgoal by (simp only: mul32_def, subst fl32_small [where k = 2], simp_all add: rne_def)
  subgoal by (simp only: mul32_def, subst fl32_small [where k = 2], simp_all add: rne_def)
  subgoal by (simp only: mul32_def, subst fl32_small [where k = 1], simp_all add: rne_def)
  subgoal by (simp only: sub32_def, subst fl32_small [where k = 2], simp_all add: rne_def)
  subgoal by (simp only: add32_def, subst fl32_small [where k = 3], simp_all add: rne_def)
  subgoal by (simp only: mul32_def, subst fl32_small [where k = 4], simp_all add: rne_def)
  subgoal by (simp only: mul32_def, subst fl32_small [where k = 5], simp_all add: rne_def)
  subgoal by (simp only: mul32_def, subst fl32_small [where k = 5], simp_all add: rne_def)
  subgoal by (simp only: add32_def, subst fl32_small [where k = 5], simp_all add: rne_def)
  subgoal by (simp add: mul32_def fl32_zero)
  subgoal by (simp add: mul32_def fl32_zero)
  subgoal by (simp only: sub32_def, subst fl32_big [where k = 0], simp_all add: rne_def)
  subgoal by (simp only: mul32_def, subst fl32_small [where k = 2], simp_all add: rne_def)
  subgoal by (simp only: mul32_def, subst fl32_small [where k = 1], simp_all add: rne_def)
  subgoal by (simp only: mul32_def, subst fl32_big [where k = 0], simp_all add: rne_def)
  subgoal by (simp only: mul32_def, subst fl32_big [where k = 1], simp_all add: rne_def)
  subgoal by (simp only: add32_def, subst fl32_big [where k = 1], simp_all add: rne_def)
  subgoal by (simp only: mul32_def, subst fl32_big [where k = 1], simp_all add: rne_def)
  subgoal by (simp only: sub32_def, subst fl32_big [where k = 0], simp_all add: rne_def)
  subgoal by (simp add: mul32_def fl32_zero)
  subgoal by (simp only: div32_def, subst fl32_big [where k = 4], simp_all add: rne_def)
  subgoal by (simp only: mul32_def, subst fl32_big [where k = 0], simp_all add: rne_def)
  subgoal by (simp add: mul32_def fl32_zero)
  done
lemmas binary32_table_thin =
  binary32_table_thin_1 binary32_table_thin_2 binary32_table_thin_3 binary32_table_thin_4
  binary32_table_thin_c

lemmas binary32_pass_defs = rasterize_binary32_def rasterize_cell_binary32_def
  normalize_cell_binary32_def checked_div32_def w_vec_binary32_def w_binary32_def
  vsub32_def vadd32_def vscale32_def mscale32_def mvmul32_def index_pos_def
  force_cell_binary32_def apply_deformation_force_binary32_def dw_vec_binary32_def
  dw_binary32_def

lemma upto_0_3: "[0..3::int] = [0, 1, 2, 3]"
  by (simp add: upto_rec1)

lemma region_thin:
  "get_bounded_rasterization_region (4, 1, 1) (Vector3 1 (1 / 2) (1 / 2))
     = [(0, 0, 0), (1, 0, 0), (2, 0, 0), (3, 0, 0)]"
  "get_bounded_rasterization_region (4, 1, 1) (Vector3 (8388609 / 8388608) (1 / 2) (1 / 2))
     = [(0, 0, 0), (1, 0, 0), (2, 0, 0), (3, 0, 0)]"
  "get_bounded_rasterization_region (4, 1, 1) (Vector3 (4194305 / 4194304) (1 / 2) (1 / 2))
     = [(0, 0, 0), (1, 0, 0), (2, 0, 0), (3, 0, 0)]"
  "get_region (4, 1, 1) = [(0, 0, 0), (1, 0, 0), (2, 0, 0), (3, 0, 0)]"
  by (simp_all add: get_bounded_rasterization_region_def bounded_axis_def get_region_def
      upto_0_3 upto_singleton)

lemma rasterize_thin_a:
  "map_sum id (\<lambda>s. (grid_mass s (3, 0, 0), grid_velocity s (3, 0, 0)))
     (rasterize_binary32 (get_bounded_rasterization_region (4, 1, 1)) state_thin_a)
   = Inr (- (15408243 / 562949953421312), Vector3 (- (15408243 / 562949953421312)) 0 0)"
  by (simp add: binary32_pass_defs state_thin_a_def state_thin_def state_example_def
      particle_a_fields region_thin Let_def vec_scalar_def mat_scalar_def
      binary32_table_thin)

lemma force_thin_a:
  "map_sum id (\<lambda>s. (grid_mass s (3, 0, 0), grid_velocity s (3, 0, 0)))
     (bind_trap (rasterize_binary32 (get_bounded_rasterization_region (4, 1, 1)) state_thin_a)
        (apply_deformation_force_binary32 svd_diagonal polar_diagonal
           (get_bounded_rasterization_region (4, 1, 1)) 1))
   = Inr (- (15408243 / 562949953421312),
          Vector3 (- (15408243 / 562949953421312)) (4173913 / 16) (4173913 / 16))"
  by (simp add: binary32_pass_defs state_thin_a_def state_thin_def state_example_def
      particle_a_fields calculate_force_a region_thin Let_def vec_scalar_def mat_scalar_def
      binary32_table_thin)

lemma rasterize_thin_ab:
  "map_sum id (\<lambda>s. (grid_mass s (3, 0, 0), grid_velocity s (3, 0, 0)))
     (rasterize_binary32 (get_bounded_rasterization_region (4, 1, 1)) state_thin_ab)
   = Inr (0, Vector3 (- (15408243 / 562949953421312)) 0 0)"
  by (simp add: binary32_pass_defs state_thin_ab_def state_thin_def state_example_def
      particle_a_fields particle_b_def Particle_new_def region_thin Let_def vec_scalar_def
      mat_scalar_def binary32_table_thin)

lemma rasterize_thin_c:
  "map_sum id (\<lambda>s. (grid_mass s (3, 0, 0), grid_velocity s (3, 0, 0)))
     (rasterize_binary32 (get_bounded_rasterization_region (4, 1, 1)) state_thin_c)
   = Inr (- (15408243 / 562949953421312), Vector3 (- (15408243 / 562949953421312)) 0 0)"
  by (simp add: binary32_pass_defs state_thin_c_def state_thin_def state_example_def
      particle_c_def particle_a_fields region_thin Let_def vec_scalar_def mat_scalar_def
      binary32_table_thin)

text \<open>
  C7 as stated fails on the program. The kernel is \<open>- 2\<^sup>-\<^sup>2\<^sup>3\<close> at distance 2, so the particle
  at \<open>(1, 1/2, 1/2)\<close> leaves the cell \<open>(3, 0, 0)\<close> with a negative mass. \<open>rasterize\<close> does not
  normalise the cell, and \<open>apply_deformation_force\<close>, which skips the masses equal to zero
  only, adds a force to it: with \<open>dt = 1\<close> the second and the third component of its
  velocity go from 0 to \<open>4173913 / 16\<close>. With the second particle, which deposits the
  opposite weight and no momentum, the cell has mass zero after \<open>rasterize\<close> and a velocity
  that is not zero. The integer coordinate is not essential: the particle at \<open>1 + 2\<^sup>-\<^sup>2\<^sup>2\<close>,
  nearer than 2 to the cell, leaves it with the same negative mass.
\<close>

theorem zero_mass_cells_counterexample:
  "map_sum id (\<lambda>s. (grid_mass s (3, 0, 0), grid_velocity s (3, 0, 0)))
     (rasterize_binary32 (get_bounded_rasterization_region (4, 1, 1)) state_thin_a)
   = Inr (- (15408243 / 562949953421312), Vector3 (- (15408243 / 562949953421312)) 0 0)
   \<and> map_sum id (\<lambda>s. (grid_mass s (3, 0, 0), grid_velocity s (3, 0, 0)))
     (bind_trap (rasterize_binary32 (get_bounded_rasterization_region (4, 1, 1)) state_thin_a)
        (apply_deformation_force_binary32 svd_diagonal polar_diagonal
           (get_bounded_rasterization_region (4, 1, 1)) 1))
   = Inr (- (15408243 / 562949953421312),
          Vector3 (- (15408243 / 562949953421312)) (4173913 / 16) (4173913 / 16))
   \<and> map_sum id (\<lambda>s. (grid_mass s (3, 0, 0), grid_velocity s (3, 0, 0)))
     (rasterize_binary32 (get_bounded_rasterization_region (4, 1, 1)) state_thin_ab)
   = Inr (0, Vector3 (- (15408243 / 562949953421312)) 0 0)
   \<and> map_sum id (\<lambda>s. (grid_mass s (3, 0, 0), grid_velocity s (3, 0, 0)))
     (rasterize_binary32 (get_bounded_rasterization_region (4, 1, 1)) state_thin_c)
   = Inr (- (15408243 / 562949953421312), Vector3 (- (15408243 / 562949953421312)) 0 0)"
  using rasterize_thin_a force_thin_a rasterize_thin_ab rasterize_thin_c by simp

section \<open>Mass conservation of the rasterization\<close>

text \<open>
  This section is about the kernel polynomials in exact arithmetic: there the kernel is not
  negative and its values over the four cells of an axis add up to 1.
\<close>

lemma w_cases:
  "w a = Inl AssertionFailed \<or> (\<exists>y. w a = Inr y \<and> 0 \<le> y \<and> \<bar>a\<bar> \<le> 2)"
proof (cases "\<bar>a\<bar> \<le> 2")
  case False
  then show ?thesis by (simp add: w_def)
next
  case True
  define b where "b = \<bar>a\<bar>"
  have b: "0 \<le> b" "b \<le> 2" using True by (simp_all add: b_def)
  show ?thesis
  proof (cases "b < 1")
    case True
    have "0.5 * b * b * b - b * b + 2 / 3 = 1 / 6 + 0.5 * ((1 - b) * (1 + b * (1 - b)))"
      by (simp add: algebra_simps)
    moreover have "0 \<le> (1 - b) * (1 + b * (1 - b))"
      using b True by (intro mult_nonneg_nonneg add_nonneg_nonneg) simp_all
    ultimately have "0 \<le> 0.5 * b * b * b - b * b + 2 / 3" by simp
    then show ?thesis using True b by (simp add: w_def b_def [symmetric])
  next
    case False
    have "- 1 / 6 * b * b * b + b * b - 2 * b + 4 / 3 = (2 - b) * ((2 - b) * (2 - b)) / 6"
      by (simp add: algebra_simps)
    moreover have "0 \<le> (2 - b) * ((2 - b) * (2 - b))"
      using b by (intro mult_nonneg_nonneg) simp_all
    ultimately have "0 \<le> - 1 / 6 * b * b * b + b * b - 2 * b + 4 / 3" by simp
    then show ?thesis using False b by (simp add: w_def b_def [symmetric])
  qed
qed

lemma w_nonneg: "w a = Inr y \<Longrightarrow> 0 \<le> y"
  using w_cases [of a] by auto

lemma w1_near: "0 \<le> u \<Longrightarrow> u \<le> 1 \<Longrightarrow> w1 u = 0.5 * u * u * u - u * u + 2 / 3"
  by (cases "u < 1") (auto simp: w1_def w_def)

lemma w1_far: "1 \<le> u \<Longrightarrow> u \<le> 2 \<Longrightarrow> w1 u = - 1 / 6 * u * u * u + u * u - 2 * u + 4 / 3"
  by (auto simp: w1_def w_def)

lemma w1_minus: "w1 (- u) = w1 u"
  by (simp add: w1_def w_def)

lemma upto_four: "[f - 1..f + 2] = [f - 1, f, f + 1, f + 2]" for f :: int
  by (simp add: upto_rec1)

lemma partition_of_unity:
  fixes a :: real
  defines "f \<equiv> \<lfloor>a\<rfloor>"
  shows "sum_list (map (\<lambda>i. w1 (real_of_int i - a)) [f - 1..f + 2]) = 1"
proof -
  define t where "t = a - real_of_int f"
  have t: "0 \<le> t" "t < 1" unfolding t_def f_def by linarith+
  have e1: "real_of_int (f - 1) - a = - (1 + t)" by (simp add: t_def)
  have e2: "real_of_int f - a = - t" by (simp add: t_def)
  have e3: "real_of_int (f + 1) - a = 1 - t" by (simp add: t_def)
  have e4: "real_of_int (f + 2) - a = 2 - t" by (simp add: t_def)
  have v1: "w1 (- (1 + t)) = - 1 / 6 * (1 + t) * (1 + t) * (1 + t) + (1 + t) * (1 + t)
      - 2 * (1 + t) + 4 / 3"
    unfolding w1_minus using t by (intro w1_far) simp_all
  have v2: "w1 (- t) = 0.5 * t * t * t - t * t + 2 / 3"
    unfolding w1_minus using t by (intro w1_near) simp_all
  have v3: "w1 (1 - t) = 0.5 * (1 - t) * (1 - t) * (1 - t) - (1 - t) * (1 - t) + 2 / 3"
    using t by (intro w1_near) simp_all
  have v4: "w1 (2 - t) = - 1 / 6 * (2 - t) * (2 - t) * (2 - t) + (2 - t) * (2 - t)
      - 2 * (2 - t) + 4 / 3"
    using t by (intro w1_far) simp_all
  have "w1 (- (1 + t)) + w1 (- t) + w1 (1 - t) + w1 (2 - t) = 1"
    unfolding v1 v2 v3 v4 by (simp add: field_simps)
  then show ?thesis
    unfolding upto_four by (simp only: list.map sum_list.Cons sum_list.Nil e1 e2 e3 e4) 
qed

lemma w1_nonneg_near:
  assumes "i \<in> {\<lfloor>a\<rfloor> - 1..\<lfloor>a\<rfloor> + 2}"
  shows "\<bar>real_of_int i - a\<bar> \<le> 2" 
proof -
  have "real_of_int \<lfloor>a\<rfloor> \<le> a" "a < real_of_int \<lfloor>a\<rfloor> + 1" by linarith+
  moreover have "real_of_int \<lfloor>a\<rfloor> - 1 \<le> real_of_int i" "real_of_int i \<le> real_of_int \<lfloor>a\<rfloor> + 2"
    using assms by (simp_all; linarith)+
  ultimately show ?thesis by linarith
qed

lemma w_in_range: "\<bar>d\<bar> \<le> 2 \<Longrightarrow> w d = Inr (w1 d) \<and> 0 \<le> w1 d"
proof -
  assume "\<bar>d\<bar> \<le> 2"
  then have "\<exists>y. w d = Inr y" by (simp add: w_def Let_def)
  then show ?thesis using w_nonneg [of d] by (auto simp: w1_def)
qed

lemma w_axis:
  assumes "i \<in> {\<lfloor>a\<rfloor> - 1..\<lfloor>a\<rfloor> + 2}"
  shows "w (real_of_int i - a) = Inr (w1 (real_of_int i - a))" "0 \<le> w1 (real_of_int i - a)"
  using w_in_range [OF w1_nonneg_near [OF assms]] by simp_all

lemma bounded_axis_subset: "set (bounded_axis r a) \<subseteq> {\<lfloor>a\<rfloor> - 1..\<lfloor>a\<rfloor> + 2}"
  by (auto simp: bounded_axis_def)




lemma axis_sum_bounds: "0 \<le> axis_sum r a \<and> axis_sum r a \<le> 1"
proof -
  let ?g = "\<lambda>i. w1 (real_of_int i - a)"
  let ?A = "{max 0 (\<lfloor>a\<rfloor> - 1)..min (r - 1) (\<lfloor>a\<rfloor> + 2)}"
  let ?B = "{\<lfloor>a\<rfloor> - 1..\<lfloor>a\<rfloor> + 2}"
  have s: "axis_sum r a = sum ?g ?A"
    unfolding axis_sum_def bounded_axis_def
    by (subst sum_list_distinct_conv_sum_set) simp_all
  have one: "sum ?g ?B = 1"
    using partition_of_unity [of a]
    by (subst (asm) sum_list_distinct_conv_sum_set) simp_all
  have sub: "?A \<subseteq> ?B" by auto
  have nn: "0 \<le> ?g i" if "i \<in> ?B" for i using w_axis(2) [OF that] .
  have "0 \<le> sum ?g ?A"
    using sub nn by (intro sum_nonneg) blast
  moreover have "sum ?g ?A \<le> sum ?g ?B"
    using sub nn by (intro sum_mono2) auto
  ultimately show ?thesis unfolding s one by simp
qed

lemma sum_list_product:
  "sum_list (map (\<lambda>(a, b). f a * g b) (List.product xs ys))
     = sum_list (map f xs) * sum_list (map g ys)" for f g :: "_ \<Rightarrow> real"
proof (induction xs)
  case Nil
  then show ?case by simp
next
  case (Cons x xs)
  have "sum_list (map (\<lambda>(a, b). f a * g b) (map (Pair x) ys)) = f x * sum_list (map g ys)"
    by (simp add: comp_def sum_list_const_mult)
  then show ?case using Cons by (simp add: algebra_simps)
qed


lemma w_vec_region:
  assumes "i \<in> set (bounded_axis r0 (vx p))" "j \<in> set (bounded_axis r1 (vy p))"
    "k \<in> set (bounded_axis r2 (vz p))"
  shows "w_vec (vsub (index_pos (i, j, k)) p)
     = Inr (w1 (real_of_int i - vx p) * w1 (real_of_int j - vy p) * w1 (real_of_int k - vz p))"
proof -
  have "w (real_of_int i - vx p) = Inr (w1 (real_of_int i - vx p))"
    "w (real_of_int j - vy p) = Inr (w1 (real_of_int j - vy p))"
    "w (real_of_int k - vz p) = Inr (w1 (real_of_int k - vz p))"
    using assms bounded_axis_subset by (blast intro: w_axis(1))+
  then show ?thesis
    by (simp add: w_vec_def vsub_def index_pos_def)
qed

lemma kernel_sum_product:
  "kernel_sum (r0, r1, r2) p = axis_sum r0 (vx p) * axis_sum r1 (vy p) * axis_sum r2 (vz p)"
proof -
  let ?xs = "bounded_axis r0 (vx p)" and ?ys = "bounded_axis r1 (vy p)"
    and ?zs = "bounded_axis r2 (vz p)"
  let ?A = "\<lambda>i. w1 (real_of_int i - vx p)" and ?B = "\<lambda>j. w1 (real_of_int j - vy p)"
    and ?C = "\<lambda>k. w1 (real_of_int k - vz p)"
  let ?L = "List.product ?xs (List.product ?ys ?zs)"
  have m: "map (kernel_weight p) ?L
      = map (\<lambda>(i, jk). ?A i * (case jk of (j, k) \<Rightarrow> ?B j * ?C k)) ?L"
    by (intro map_cong refl) (auto simp: kernel_weight_def w_vec_region)
  have "kernel_sum (r0, r1, r2) p = sum_list (map (kernel_weight p) ?L)"
    by (simp add: kernel_sum_def get_bounded_rasterization_region_def)
  also have "\<dots> = sum_list (map (\<lambda>(i, jk). ?A i * (case jk of (j, k) \<Rightarrow> ?B j * ?C k)) ?L)"
    by (simp only: m)
  also have "\<dots> = sum_list (map ?A ?xs)
      * sum_list (map (\<lambda>(j, k). ?B j * ?C k) (List.product ?ys ?zs))"
    by (rule sum_list_product)
  also have "\<dots> = axis_sum r0 (vx p) * axis_sum r1 (vy p) * axis_sum r2 (vz p)"
    by (simp add: sum_list_product axis_sum_def)
  finally show ?thesis .
qed


lemma kernel_sum_bounds: "0 \<le> kernel_sum r p \<and> kernel_sum r p \<le> 1"
proof -
  obtain r0 r1 r2 where r: "r = (r0, r1, r2)" by (cases r)
  have a: "0 \<le> axis_sum r0 (vx p)" "axis_sum r0 (vx p) \<le> 1"
    "0 \<le> axis_sum r1 (vy p)" "axis_sum r1 (vy p) \<le> 1"
    "0 \<le> axis_sum r2 (vz p)" "axis_sum r2 (vz p) \<le> 1"
    using axis_sum_bounds by simp_all
  have "axis_sum r0 (vx p) * axis_sum r1 (vy p) \<le> 1 * 1"
    using a by (intro mult_mono) simp_all
  moreover have "0 \<le> axis_sum r0 (vx p) * axis_sum r1 (vy p)" using a by simp
  ultimately have "axis_sum r0 (vx p) * axis_sum r1 (vy p) * axis_sum r2 (vz p) \<le> 1 * 1"
    using a by (intro mult_mono) simp_all
  then show ?thesis using a by (simp add: r kernel_sum_product)
qed




























subsection \<open>The clipped particle in binary32\<close>









section \<open>The substep\<close>

lemma substep_nonempty:
  assumes "particles s \<noteq> []"
  shows "substep ext dt s = substep_phases ext dt s"
  using assms
  by (simp add: substep_def substep_phases_def Let_def apply_external_force_def
      advance_clock_def plasticity_all_def advect_all_def map_trap_comp bind_trap_assoc
      particle_collision_resolution_def)

lemma rasterize_cell_clock:
  "rasterize_cell p ind s = Inr s' \<Longrightarrow> current_t s' = current_t s"
  by (auto simp: rasterize_cell_def Let_def bind_trap_Inr_iff)

lemma normalize_cell_clock:
  "normalize_cell ind s = Inr s' \<Longrightarrow> current_t s' = current_t s"
  by (auto simp: normalize_cell_def bind_trap_Inr_iff split: if_splits)

lemma force_cell_clock:
  "force_cell dt p ind s = Inr s' \<Longrightarrow> current_t s' = current_t s"
  by (auto simp: force_cell_def Let_def bind_trap_Inr_iff split: if_splits)

lemma rasterize_clock:
  assumes "rasterize region s = Inr s'"
  shows "current_t s' = current_t s"
proof -
  let ?s0 = "s\<lparr>grid_velocity := (\<lambda>_. vec_scalar 0), grid_mass := (\<lambda>_. 0)\<rparr>"
  from assms obtain s1 where
    s1: "fold_trap (\<lambda>p. fold_trap (rasterize_cell p) (region (pos p))) (particles s) ?s0 = Inr s1"
    and s2: "fold_trap normalize_cell (get_region (res s1)) s1 = Inr s'"
    by (auto simp: rasterize_def Let_def bind_trap_Inr_iff)
  have "same_clock s ?s0" by (simp add: same_clock_def)
  with s1 have "same_clock s s1"
  proof (rule fold_trap_invariant)
    fix p t t'
    assume t: "same_clock s t"
      and f: "fold_trap (rasterize_cell p) (region (pos p)) t = Inr t'"
    from f t show "same_clock s t'"
      by (rule fold_trap_invariant) (auto simp: same_clock_def dest: rasterize_cell_clock)
  qed
  with s2 have "same_clock s s'"
    by (rule fold_trap_invariant) (auto simp: same_clock_def dest: normalize_cell_clock)
  then show ?thesis by (simp add: same_clock_def)
qed

lemma apply_deformation_force_clock:
  assumes "apply_deformation_force svd polar_decomp region dt s = Inr s'"
  shows "current_t s' = current_t s"
proof -
  from assms obtain ps where
    f: "fold_trap (\<lambda>p. fold_trap (force_cell dt p) (region (pos p))) ps
          (s\<lparr>particles := ps\<rparr>) = Inr s'"
    by (auto simp: apply_deformation_force_def Let_def bind_trap_Inr_iff)
  have "same_clock s (s\<lparr>particles := ps\<rparr>)" by (simp add: same_clock_def)
  with f have "same_clock s s'"
  proof (rule fold_trap_invariant)
    fix p t t'
    assume t: "same_clock s t"
      and g: "fold_trap (force_cell dt p) (region (pos p)) t = Inr t'"
    from g t show "same_clock s t'"
      by (rule fold_trap_invariant) (auto simp: same_clock_def dest: force_cell_clock)
  qed
  then show ?thesis by (simp add: same_clock_def)
qed

lemma boundary_cell_clock: "current_t (boundary_cell ls t ind s) = current_t s"
  by (simp add: boundary_cell_def Let_def)

lemma grid_apply_boundary_conditions_clock:
  "current_t (grid_apply_boundary_conditions ls t s) = current_t s"
proof -
  have "current_t (fold (boundary_cell ls t) cells u) = current_t u" for cells u
    by (induction cells arbitrary: u) (simp_all add: boundary_cell_clock)
  then show ?thesis by (simp add: grid_apply_boundary_conditions_def)
qed

lemma resample_clock: "resample region dt s = Inr s' \<Longrightarrow> current_t s' = current_t s"
  by (auto simp: resample_def bind_trap_Inr_iff)

lemma plasticity_all_clock: "plasticity_all ext s = Inr s' \<Longrightarrow> current_t s' = current_t s"
  by (auto simp: plasticity_all_def bind_trap_Inr_iff)

lemma substep_phases_clock:
  assumes "substep_phases ext dt s = Inr s'"
  shows "current_t s' = current_t s + dt"
proof -
  from assms obtain s1 s4 s6 s8 where
    r: "rasterize (region_of ext (res s)) s = Inr s1"
    and f: "apply_deformation_force (svd_of ext) (polar_decomp_of ext)
         (region_of ext (res (apply_external_force ext dt (grid_backup_velocity s1)))) dt
         (apply_external_force ext dt (grid_backup_velocity s1)) = Inr s4"
    and g: "resample (region_of ext (res (grid_apply_boundary_conditions (levelset ext)
              (current_t s4) s4))) dt
            (grid_apply_boundary_conditions (levelset ext) (current_t s4) s4) = Inr s6"
    and p: "plasticity_all ext (advect_all ext dt s6) = Inr s8"
    and e: "s' = advance_clock dt (particle_collision_resolution ext (current_t s8) s8)"
    by (auto simp: substep_phases_def bind_trap_Inr_iff)
  have "current_t s1 = current_t s" using rasterize_clock [OF r] .
  moreover have "current_t s4 = current_t s1"
    using apply_deformation_force_clock [OF f]
    by (simp add: apply_external_force_def grid_backup_velocity_def)
  moreover have "current_t s6 = current_t s4"
    using resample_clock [OF g] by (simp add: grid_apply_boundary_conditions_clock)
  moreover have "current_t s8 = current_t s6"
    using plasticity_all_clock [OF p] by (simp add: advect_all_def)
  ultimately show ?thesis
    by (simp add: e advance_clock_def particle_collision_resolution_def)
qed

text \<open>
  C1. With particles in the collection, \<open>substep\<close> is the sequence of phases rasterize,
  backup of the grid velocity, external force, \<open>apply_deformation_force\<close>, grid boundary
  conditions, resample, advection with clamping, plasticity, particle collision resolution,
  and then the advance of the clock. With no particle the result is the state with only the
  clock advanced. Whenever \<open>substep\<close> returns, the clock has advanced by \<open>dt\<close>.
\<close>

theorem substep_order_and_clock:
  "(particles s \<noteq> [] \<longrightarrow> substep ext dt s = substep_phases ext dt s)
   \<and> (particles s = [] \<longrightarrow> substep ext dt s = Inr (s\<lparr>current_t := current_t s + dt\<rparr>))
   \<and> (substep ext dt s = Inr s' \<longrightarrow> current_t s' = current_t s + dt)"
proof -
  have e: "substep ext dt s = Inr (s\<lparr>current_t := current_t s + dt\<rparr>)" if "particles s = []"
    using that by (simp add: substep_def)
  have "current_t s' = current_t s + dt" if "substep ext dt s = Inr s'"
  proof (cases "particles s = []")
    case True
    then show ?thesis using e that by auto
  next
    case False
    then show ?thesis using that substep_nonempty [OF False] substep_phases_clock by simp
  qed
  then show ?thesis using e substep_nonempty by blast
qed

lemma region_origin:
  "get_bounded_rasterization_region (1, 1, 1) (vec_scalar 0) = [(0, 0, 0)]"
  by (simp add: get_bounded_rasterization_region_def bounded_axis_def vec_scalar_def
      upto_singleton)

lemma vsub_origin: "vsub (index_pos (0, 0, 0)) (vec_scalar 0) = vec_scalar 0"
  by (simp add: vsub_def index_pos_def vec_scalar_def)

lemma rasterize_single:
  "rasterize (get_bounded_rasterization_region (1, 1, 1)) state_single
     = Inr (state_single\<lparr>grid_velocity := (\<lambda>_. vec_scalar 0),
              grid_mass := (\<lambda>_. 0)((0, 0, 0) := 8 / 27)\<rparr>)"
  apply (simp add: rasterize_def state_single_def state_example_def Particle_new_def
      region_origin rasterize_cell_def vsub_origin w_vec_zero get_region_unit normalize_cell_def
      checked_div_def Let_def)
  apply (simp add: fun_eq_iff vscale_def vadd_def mvmul_def mscale_def mat_scalar_def vec_scalar_def)
  done

lemma det_one: "det (mat_scalar 1) = 1"
  by (simp add: det_mat_scalar)

lemma EP_calculate_force_rest:
  assumes "dg_e p = mat_scalar 1" "dg_p p = mat_scalar 1"
  shows "tmp_force (EP_calculate_force polar_diagonal ep p) = mat_scalar 0"
  using assms
  by (simp add: EP_calculate_force_def EP_get_energy_gradient_def polar_diagonal_def Let_def
      det_one transpose3_one inverse3_one)
     (simp add: mmul_def mscale_def madd_def msub_def mat_scalar_def)

lemma substep_single_total:
  "\<exists>s'. substep_phases ext_example (1 / 10) state_single = Inr s'"
  apply (simp add: substep_phases_def ext_example_def)
  apply (simp add: state_single_def [THEN arg_cong, of res] state_example_def rasterize_single)
  apply (simp add: grid_backup_velocity_def apply_external_force_def)
  apply (simp add: apply_deformation_force_def state_single_def state_example_def
      calculate_force_def EP_calculate_force_def Particle_new_def region_origin force_cell_def
      vsub_zero_origin dw_vec_zero checked_div_def Let_def)
  apply (simp add: grid_apply_boundary_conditions_def get_region_unit boundary_cell_def
      levelset_far_def index_pos_def)
  apply (simp add: resample_def resample_particle_def resample_cell_def region_origin
      vsub_zero_origin w_vec_zero dw_vec_zero Let_def)
  apply (simp add: advect_all_def advect_def plasticity_all_def plasticity_def)
  done

text \<open>
  A substep of \<open>1/10\<close> on the empty simulation and on the simulation with one particle.
\<close>

theorem substep_order_and_clock_witness:
  "substep ext_example (1 / 10) state_example = Inr (state_example\<lparr>current_t := 1 / 10\<rparr>)
   \<and> (\<exists>s'. substep ext_example (1 / 10) state_single = Inr s' \<and> current_t s' = 1 / 10)"
proof -
  have e: "particles state_example = []" "current_t state_example = 0"
    by (simp_all add: state_example_def)
  have n: "particles state_single \<noteq> []" "current_t state_single = 0"
    by (simp_all add: state_single_def state_example_def)
  obtain s' where s': "substep_phases ext_example (1 / 10) state_single = Inr s'"
    using substep_single_total by blast
  have "substep ext_example (1 / 10) state_example = Inr (state_example\<lparr>current_t := 1 / 10\<rparr>)"
    using substep_order_and_clock [of state_example ext_example "1 / 10"] e by simp
  moreover have "substep ext_example (1 / 10) state_single = Inr s'"
    using substep_order_and_clock [of state_single ext_example "1 / 10"] n s' by simp
  moreover from this have "current_t s' = 1 / 10"
    using substep_order_and_clock [of state_single ext_example "1 / 10" s'] n by simp
  ultimately show ?thesis by blast
qed

end
